theory Spec2Isabelle
  imports Complex_Main "HOL-Library.AList"
begin

section \<open>Python library functions used by main.py\<close>

text \<open>
  Flags, paths and messages are \<^typ>\<open>string\<close>s.  The text that travels through the JSON
  input and output (uuids, tokens, answers) is a list of Unicode code points, since the
  output claim is about characters beyond ASCII.
\<close>

type_synonym ustr = "nat list"

text \<open>\<^verbatim>\<open>os.path.join(a, b)\<close> of posixpath: an absolute second component replaces the first.\<close>

definition os_path_join :: "string \<Rightarrow> string \<Rightarrow> string" where
  "os_path_join a b =
     (if b \<noteq> [] \<and> hd b = CHR ''/'' then b
      else if a = [] \<or> last a = CHR ''/'' then a @ b
      else a @ ''/'' @ b)"

text \<open>\<^verbatim>\<open>str(n)\<close>, \<^verbatim>\<open>%d\<close> and \<^verbatim>\<open>%i\<close> of an integer: its decimal numeral.\<close>

definition digit :: "nat \<Rightarrow> char" where
  "digit d = ''0123456789'' ! d"

fun str_nat :: "nat \<Rightarrow> string" where
  "str_nat n = (if n < 10 then [digit n] else str_nat (n div 10) @ [digit (n mod 10)])"

declare str_nat.simps [simp del]

definition str_int :: "int \<Rightarrow> string" where
  "str_int i = (if i < 0 then ''-'' @ str_nat (nat (- i)) else str_nat (nat i))"

section \<open>Flags, collaborators and effects\<close>

text \<open>The flags of \<^verbatim>\<open>tf.app.flags\<close> that main.py itself reads (lines 43 to 82); the
  hyperparameters it only hands on to the model are left out.\<close>

record flags =
  mode :: string
  experiment_name :: string
  embedding_size :: int
  max_word_size :: int
  load_ema_checkpoint :: bool
  single_ensemble :: string
  train_dir :: string
  glove_path :: string
  data_dir :: string
  ckpt_load_dir :: string
  json_in_path :: string
  json_out_path :: string
  main_dir :: string

text \<open>What \<^verbatim>\<open>get_glove\<close> returns: embedding matrix, word2id, id2word.\<close>

datatype glove = Glove (emb_matrix: "real list list") (word2id: "(ustr \<times> nat) list")
  (id2word: "(nat \<times> ustr) list")

text \<open>A constructed \<^verbatim>\<open>QAModel\<close>; main.py only ever looks at the element counts of its
  trainable variables (line 119).\<close>

datatype qa_model = QAModel (trainable_sizes: "nat list")

datatype batcher = Batcher string int

text \<open>The parameters resident in a TensorFlow session.\<close>

datatype weights = Uninitialized | Fresh | Raw_from string | EMA_from string

text \<open>The three parallel sequences \<^verbatim>\<open>get_json_data\<close> returns:
  \<^verbatim>\<open>qn_uuid_data, context_token_data, qn_token_data\<close>.\<close>

type_synonym batch = "ustr list \<times> ustr list list \<times> ustr list list"

text \<open>One base model's answer for one example (spec, section 3).\<close>

record answer_record =
  answer_text :: ustr
  span_start :: nat
  span_end :: nat
  confidence :: real

type_synonym record_set = "(ustr \<times> answer_record) list"
type_synonym answers = "(ustr \<times> ustr) list"
type_synonym tag_map = "(string \<times> nat) list"

text \<open>
  Every call that leaves main.py is recorded, in order, as an event.  \<open>Initialize_model\<close>
  records the entry into main.py's own loader with its two decisive arguments, so that
  loads can be counted.
\<close>

datatype event =
    Print string
  | Get_glove string int
  | New_QAModel
  | Path_exists string
  | Makedirs string
  | Log_file string
  | Dump_flags string
  | Session_enter
  | Session_exit
  | Initialize_model string bool
  | Get_checkpoint_state string
  | Gfile_exists string
  | Restore_ema string
  | Restore_raw string
  | Init_variables
  | Train
  | Check_f1_em
  | Readlines string
  | Get_json_data string
  | New_Batcher string int
  | Generate_partial_answers weights batch
  | Generate_ensemble_answers batch "record_set list"
  | Generate_answers weights batch
  | Write_file string string ustr

datatype call_outcome = Completes | Fails | Never_returns

text \<open>
  The world outside main.py: interpreter, file system and the collaborators of the other
  modules.  A collaborator that reads or writes files or runs code of the other modules may
  raise: one that returns a value is an option (\<open>None\<close>: the call raised), one that returns
  nothing succeeds or not by \<open>succeeds\<close>.  Printing, opening a session, running the variable
  initialiser and the two TensorFlow look-ups (which answer \<^verbatim>\<open>None\<close> or \<^verbatim>\<open>False\<close> instead of
  raising) always return.  Nothing main.py writes is read back by it afterwards, so the
  read side does not depend on the run.
\<close>

record env =
  str_of_argv :: "string list \<Rightarrow> string"
  python_major :: nat
  tf_version :: string
  MAIN_DIR :: string
  succeeds :: "event \<Rightarrow> bool"
  get_glove :: "string \<Rightarrow> int \<Rightarrow> glove option"
  new_QAModel :: "flags \<Rightarrow> glove \<Rightarrow> qa_model option"
  path_exists :: "string \<Rightarrow> bool"
  get_checkpoint_state :: "string \<Rightarrow> string option"
  gfile_exists :: "string \<Rightarrow> bool"
  readlines :: "string \<Rightarrow> string list option"
  get_json_data :: "string \<Rightarrow> batch option"
  train_outcome :: call_outcome
  generate_answers ::
    "weights \<Rightarrow> qa_model \<Rightarrow> (ustr \<times> nat) list \<Rightarrow> batch \<Rightarrow> batcher \<Rightarrow> tag_map \<Rightarrow> tag_map
      \<Rightarrow> answers option"
  generate_partial_answers ::
    "weights \<Rightarrow> qa_model \<Rightarrow> (ustr \<times> nat) list \<Rightarrow> batch \<Rightarrow> batcher \<Rightarrow> tag_map \<Rightarrow> tag_map
      \<Rightarrow> record_set option"
  generate_ensemble_answers ::
    "qa_model \<Rightarrow> (ustr \<times> nat) list \<Rightarrow> batch \<Rightarrow> batcher \<Rightarrow> tag_map \<Rightarrow> tag_map
      \<Rightarrow> record_set list \<Rightarrow> answers option"

section \<open>Errors and state\<close>

datatype error = Exception string | AssertionError | Collaborator_failure

datatype 'a res = Return 'a | Raise error | Diverge

text \<open>The mutable state: the global \<^verbatim>\<open>FLAGS\<close>, the events so far, and the weights of the
  session that is open (\<open>None\<close>: no session).\<close>

record st =
  FLAGS :: flags
  trace :: "event list"
  session :: "weights option"

type_synonym 'a m = "st \<Rightarrow> 'a res \<times> st"

definition return :: "'a \<Rightarrow> 'a m" where
  "return a s = (Return a, s)"

definition raise :: "error \<Rightarrow> 'a m" where
  "raise e s = (Raise e, s)"

definition bind_m :: "'a m \<Rightarrow> ('a \<Rightarrow> 'b m) \<Rightarrow> 'b m" where
  "bind_m f g s =
     (case f s of
        (Return a, s') \<Rightarrow> g a s'
      | (Raise e, s') \<Rightarrow> (Raise e, s')
      | (Diverge, s') \<Rightarrow> (Diverge, s'))"

definition then_m :: "unit m \<Rightarrow> 'b m \<Rightarrow> 'b m" where
  "then_m f g = bind_m f (\<lambda>_. g)"

definition log :: "event \<Rightarrow> unit m" where
  "log e s = (Return (), s\<lparr>trace := trace s @ [e]\<rparr>)"

definition get_FLAGS :: "flags m" where
  "get_FLAGS s = (Return (FLAGS s), s)"

text \<open>A call to a collaborator that returns a value.\<close>

definition ext :: "event \<Rightarrow> 'a option \<Rightarrow> 'a m" where
  "ext e r =
     then_m (log e) (case r of None \<Rightarrow> raise Collaborator_failure | Some a \<Rightarrow> return a)"

text \<open>A call to a collaborator that returns nothing.\<close>

definition effect :: "env \<Rightarrow> event \<Rightarrow> unit m" where
  "effect env e = ext e (if succeeds env e then Some () else None)"

definition set_weights :: "weights \<Rightarrow> unit m" where
  "set_weights w s = (Return (), s\<lparr>session := Some w\<rparr>)"

definition get_weights :: "weights m" where
  "get_weights s = (Return (case session s of None \<Rightarrow> Uninitialized | Some w \<Rightarrow> w), s)"

text \<open>\<^verbatim>\<open>with tf.Session(config=config) as sess:\<close> a fresh session for the body, closed
  when the body returns or raises.\<close>

definition with_session :: "'a m \<Rightarrow> 'a m" where
  "with_session body s =
     (let s1 = s\<lparr>trace := trace s @ [Session_enter], session := Some Uninitialized\<rparr>
      in case body s1 of
           (Diverge, s2) \<Rightarrow> (Diverge, s2)
         | (r, s2) \<Rightarrow> (r, s2\<lparr>trace := trace s2 @ [Session_exit], session := None\<rparr>))"

section \<open>initialize\_model (lines 89 to 119)\<close>

text \<open>\<^verbatim>\<open>ckpt and (tf.gfile.Exists(ckpt.model_checkpoint_path) or tf.gfile.Exists(v2_path))\<close>
  with Python's short-circuit evaluation.\<close>

definition checkpoint_found :: "env \<Rightarrow> string option \<Rightarrow> bool m" where
  "checkpoint_found env ckpt =
     (case ckpt of
        None \<Rightarrow> return False
      | Some p \<Rightarrow>
          bind_m (ext (Gfile_exists p) (Some (gfile_exists env p))) (\<lambda>e1.
            if e1 then return True
            else ext (Gfile_exists (p @ ''.index'')) (Some (gfile_exists env (p @ ''.index'')))))"

definition restore_checkpoint :: "env \<Rightarrow> string \<Rightarrow> unit m" where
  "restore_checkpoint env p =
     bind_m get_FLAGS (\<lambda>F.
       if load_ema_checkpoint F
       then then_m (effect env (Restore_ema p)) (set_weights (EMA_from p))
       else then_m (effect env (Restore_raw p)) (set_weights (Raw_from p)))"

definition initialize_model :: "env \<Rightarrow> qa_model \<Rightarrow> string \<Rightarrow> bool \<Rightarrow> unit m" where
  "initialize_model env model dir expect_exists =
     then_m (log (Initialize_model dir expect_exists))
    (then_m (log (Print (''Looking for model at '' @ dir @ ''...'')))
    (bind_m (ext (Get_checkpoint_state dir) (Some (get_checkpoint_state env dir))) (\<lambda>ckpt.
     bind_m (checkpoint_found env ckpt) (\<lambda>found.
       if found then
         (case ckpt of
            None \<Rightarrow> return ()
          | Some p \<Rightarrow>
              then_m (log (Print (''Reading model parameters from '' @ p)))
                (restore_checkpoint env p))
       else if expect_exists then
         raise (Exception (''There is no saved checkpoint at '' @ dir))
       else
         then_m (log (Print (''There is no saved checkpoint at '' @ dir
                   @ ''. Creating model with fresh parameters.'')))
        (then_m (log Init_variables)
        (then_m (set_weights Fresh)
                (log (Print (''Num params: '' @ str_nat (sum_list (trainable_sizes model)))))))))))"

section \<open>JSON serialisation of the answers\<close>

text \<open>
  \<^verbatim>\<open>json.dumps(d, ensure_ascii=False)\<close> for a dict from str to str, as the standard
  encoder does it: inside a string only the quote (34), the backslash (92) and the control
  characters below 32 are escaped; every other code point is written as it is.
\<close>

definition hex_digit :: "nat \<Rightarrow> nat" where
  "hex_digit d = (if d < 10 then 48 + d else 87 + d)"

definition json_escape_char :: "nat \<Rightarrow> ustr" where
  "json_escape_char c =
     (if c = 34 then [92, 34]
      else if c = 92 then [92, 92]
      else if c = 8 then [92, 98]
      else if c = 12 then [92, 102]
      else if c = 10 then [92, 110]
      else if c = 13 then [92, 114]
      else if c = 9 then [92, 116]
      else if c < 32 then [92, 117, 48, 48, hex_digit (c div 16), hex_digit (c mod 16)]
      else [c])"

definition encode_basestring :: "ustr \<Rightarrow> ustr" where
  "encode_basestring s = [34] @ concat (map json_escape_char s) @ [34]"

fun join_str :: "ustr \<Rightarrow> ustr list \<Rightarrow> ustr" where
  "join_str sep [] = []"
| "join_str sep [x] = x"
| "join_str sep (x # y # ys) = x @ sep @ join_str sep (y # ys)"

definition json_item :: "ustr \<times> ustr \<Rightarrow> ustr" where
  "json_item kv = encode_basestring (fst kv) @ [58, 32] @ encode_basestring (snd kv)"

definition json_dumps :: "answers \<Rightarrow> ustr" where
  "json_dumps d = [123] @ join_str [44, 32] (map json_item d) @ [125]"

section \<open>main (lines 122 to 287)\<close>

definition EXPERIMENTS_DIR :: "env \<Rightarrow> string" where
  "EXPERIMENTS_DIR env = os_path_join (MAIN_DIR env) ''experiments''"

definition DEFAULT_DATA_DIR :: "env \<Rightarrow> string" where
  "DEFAULT_DATA_DIR env = os_path_join (MAIN_DIR env) ''data''"

definition modify_FLAGS :: "(flags \<Rightarrow> flags) \<Rightarrow> unit m" where
  "modify_FLAGS f s = (Return (), s\<lparr>FLAGS := f (FLAGS s)\<rparr>)"

text \<open>Line 137:
  \<^verbatim>\<open>FLAGS.train_dir = FLAGS.train_dir or os.path.join(EXPERIMENTS_DIR, FLAGS.experiment_name)\<close>\<close>

definition with_train_dir :: "env \<Rightarrow> flags \<Rightarrow> flags" where
  "with_train_dir env F =
     F\<lparr>train_dir :=
         (if train_dir F \<noteq> [] then train_dir F
          else os_path_join (EXPERIMENTS_DIR env) (experiment_name F))\<rparr>"

text \<open>Line 146.\<close>

definition with_glove_path :: "env \<Rightarrow> flags \<Rightarrow> flags" where
  "with_glove_path env F =
     F\<lparr>glove_path :=
         (if glove_path F \<noteq> [] then glove_path F
          else os_path_join (DEFAULT_DATA_DIR env)
                 (''glove.42B.'' @ str_int (embedding_size F) @ ''d.txt''))\<rparr>"

text \<open>Lines 134 to 137.\<close>

definition define_train_dir :: "env \<Rightarrow> unit m" where
  "define_train_dir env =
     bind_m get_FLAGS (\<lambda>F.
       if experiment_name F = [] \<and> train_dir F = [] \<and> mode F \<noteq> ''official_eval''
       then raise (Exception ''You need to specify either --experiment_name or --train_dir'')
       else modify_FLAGS (with_train_dir env))"

text \<open>Lines 144 to 146.\<close>

definition define_glove_path :: "env \<Rightarrow> unit m" where
  "define_glove_path env = modify_FLAGS (with_glove_path env)"

text \<open>Lines 148 to 160: the embeddings are read and the model is constructed, whatever
  the mode.\<close>

definition load_embeddings_and_model :: "env \<Rightarrow> (glove \<times> qa_model) m" where
  "load_embeddings_and_model env =
     bind_m get_FLAGS (\<lambda>F.
     bind_m (ext (Get_glove (glove_path F) (embedding_size F))
               (get_glove env (glove_path F) (embedding_size F))) (\<lambda>g.
     bind_m (ext New_QAModel (new_QAModel env F g)) (\<lambda>qa.
       return (g, qa))))"

text \<open>\<^verbatim>\<open>if not os.path.exists(d): os.makedirs(d)\<close>\<close>

definition ensure_dir :: "env \<Rightarrow> string \<Rightarrow> unit m" where
  "ensure_dir env d =
     bind_m (ext (Path_exists d) (Some (path_exists env d))) (\<lambda>e.
       if e then return () else effect env (Makedirs d))"

text \<open>\<^verbatim>\<open>qa_model.train(...)\<close>: with \<^verbatim>\<open>num_epochs = 0\<close> it trains indefinitely.\<close>

definition train_call :: "env \<Rightarrow> unit m" where
  "train_call env =
     then_m (log Train)
       (\<lambda>s. case train_outcome env of
               Completes \<Rightarrow> (Return (), s)
             | Fails \<Rightarrow> (Raise Collaborator_failure, s)
             | Never_returns \<Rightarrow> (Diverge, s))"

text \<open>Lines 167 to 192.\<close>

definition train_mode :: "env \<Rightarrow> qa_model \<Rightarrow> string \<Rightarrow> string \<Rightarrow> unit m" where
  "train_mode env qa bestmodel_dir ema_bestmodel_dir =
     bind_m get_FLAGS (\<lambda>F.
       then_m (ensure_dir env (train_dir F))
      (then_m (effect env (Log_file (os_path_join (train_dir F) ''log.txt'')))
      (then_m (effect env (Dump_flags (os_path_join (train_dir F) ''flags.json'')))
      (then_m (ensure_dir env bestmodel_dir)
      (then_m (ensure_dir env ema_bestmodel_dir)
              (with_session
                (then_m (initialize_model env qa (train_dir F) False)
                        (train_call env))))))))"

text \<open>Lines 195 to 207.\<close>

definition show_examples_mode :: "env \<Rightarrow> qa_model \<Rightarrow> string \<Rightarrow> string \<Rightarrow> unit m" where
  "show_examples_mode env qa bestmodel_dir ema_bestmodel_dir =
     with_session
       (bind_m get_FLAGS (\<lambda>F.
          then_m (if load_ema_checkpoint F
                  then initialize_model env qa ema_bestmodel_dir True
                  else initialize_model env qa bestmodel_dir True)
                 (effect env Check_f1_em)))"

text \<open>Lines 216 to 226: the two tag tables.  A Python dict is an association list in
  insertion order; an assignment to a key that is present replaces its value.\<close>

definition pos_tag_table :: "string list \<Rightarrow> tag_map" where
  "pos_tag_table pos_tag_lines =
     fold (\<lambda>i d. AList.update (butlast (pos_tag_lines ! i)) (i + 1) d)
       [0..<length pos_tag_lines] []"

definition all_NE_tag :: "string list" where
  "all_NE_tag = [''B-FACILITY'', ''B-GPE'', ''B-GSP'', ''B-LOCATION'', ''B-ORGANIZATION'',
     ''B-PERSON'', ''I-FACILITY'', ''I-GPE'', ''I-GSP'', ''I-LOCATION'', ''I-ORGANIZATION'',
     ''I-PERSON'', ''O'']"

definition ne_tag_table :: tag_map where
  "ne_tag_table =
     fold (\<lambda>i d. AList.update (all_NE_tag ! i) (i + 1) d) [0..<length all_NE_tag] []"

definition build_tag_tables :: "env \<Rightarrow> (tag_map \<times> tag_map) m" where
  "build_tag_tables env =
     bind_m get_FLAGS (\<lambda>F.
     bind_m (ext (Readlines (os_path_join (main_dir F) ''pos_tags.txt''))
               (readlines env (os_path_join (main_dir F) ''pos_tags.txt''))) (\<lambda>pos_tag_lines.
       return (pos_tag_table pos_tag_lines, ne_tag_table)))"

definition read_input :: "env \<Rightarrow> batch m" where
  "read_input env =
     bind_m get_FLAGS (\<lambda>F.
       ext (Get_json_data (json_in_path F)) (get_json_data env (json_in_path F)))"

definition make_batcher :: "env \<Rightarrow> batcher m" where
  "make_batcher env =
     bind_m get_FLAGS (\<lambda>F.
       then_m (effect env (New_Batcher (os_path_join (data_dir F) ''elmo_voca.txt'')
                 (max_word_size F)))
              (return (Batcher (os_path_join (data_dir F) ''elmo_voca.txt'')
                 (max_word_size F))))"

text \<open>Lines 254 to 258 and 279 to 283.\<close>

definition write_predictions :: "env \<Rightarrow> answers \<Rightarrow> unit m" where
  "write_predictions env d =
     bind_m get_FLAGS (\<lambda>F.
       then_m (log (Print (''Writing predictions to '' @ json_out_path F @ ''...'')))
      (then_m (effect env (Write_file (json_out_path F) ''utf-8'' (json_dumps d)))
              (log (Print (''Wrote predictions to '' @ json_out_path F)))))"

definition num_base_models :: nat where
  "num_base_models = 7"

definition checkpoint_dirs :: "flags \<Rightarrow> string list" where
  "checkpoint_dirs F =
     map (\<lambda>i. os_path_join (ckpt_load_dir F) (''ema_best_checkpoint_'' @ str_nat i))
       [1..<num_base_models + 1]"

text \<open>The body of the loop of lines 235 to 242.\<close>

definition ensemble_pass ::
  "env \<Rightarrow> glove \<Rightarrow> qa_model \<Rightarrow> tag_map \<Rightarrow> tag_map \<Rightarrow> string \<Rightarrow> record_set m" where
  "ensemble_pass env g qa pos_tag_id_map ne_tag_id_map base_model_dir =
     bind_m (read_input env) (\<lambda>b.
     bind_m (make_batcher env) (\<lambda>bt.
       with_session
         (then_m (initialize_model env qa base_model_dir True)
         (bind_m get_weights (\<lambda>w.
            ext (Generate_partial_answers w b)
              (generate_partial_answers env w qa (word2id g) b bt
                 pos_tag_id_map ne_tag_id_map))))))"

fun ensemble_passes ::
  "env \<Rightarrow> glove \<Rightarrow> qa_model \<Rightarrow> tag_map \<Rightarrow> tag_map \<Rightarrow> string list \<Rightarrow> record_set list
    \<Rightarrow> record_set list m" where
  "ensemble_passes env g qa pos ne [] partial_answers = return partial_answers"
| "ensemble_passes env g qa pos ne (base_model_dir # dirs) partial_answers =
     bind_m (ensemble_pass env g qa pos ne base_model_dir) (\<lambda>pa.
       ensemble_passes env g qa pos ne dirs (partial_answers @ [pa]))"

text \<open>Lines 229 to 258.\<close>

definition ensemble_branch ::
  "env \<Rightarrow> glove \<Rightarrow> qa_model \<Rightarrow> tag_map \<Rightarrow> tag_map \<Rightarrow> unit m" where
  "ensemble_branch env g qa pos_tag_id_map ne_tag_id_map =
     bind_m get_FLAGS (\<lambda>F.
     bind_m (ensemble_passes env g qa pos_tag_id_map ne_tag_id_map (checkpoint_dirs F) [])
       (\<lambda>partial_answers.
     bind_m (read_input env) (\<lambda>b.
     bind_m (make_batcher env) (\<lambda>bt.
     bind_m (ext (Generate_ensemble_answers b partial_answers)
               (generate_ensemble_answers env qa (word2id g) b bt
                  pos_tag_id_map ne_tag_id_map partial_answers)) (\<lambda>ensemble_answer_dict.
       write_predictions env ensemble_answer_dict)))))"

text \<open>Lines 261 to 283.\<close>

definition single_branch ::
  "env \<Rightarrow> glove \<Rightarrow> qa_model \<Rightarrow> tag_map \<Rightarrow> tag_map \<Rightarrow> unit m" where
  "single_branch env g qa pos_tag_id_map ne_tag_id_map =
     bind_m get_FLAGS (\<lambda>F.
       if single_ensemble F \<noteq> ''single'' then raise AssertionError
       else
         bind_m (make_batcher env) (\<lambda>bt.
         bind_m (read_input env) (\<lambda>b.
           with_session
             (then_m (initialize_model env qa
                        (os_path_join (ckpt_load_dir F) ''ema_best_checkpoint_1'') True)
             (bind_m get_weights (\<lambda>w.
              bind_m (ext (Generate_answers w b)
                        (generate_answers env w qa (word2id g) b bt
                           pos_tag_id_map ne_tag_id_map)) (\<lambda>answers_dict.
                write_predictions env answers_dict)))))))"

text \<open>Lines 210 to 283.\<close>

definition official_eval_mode :: "env \<Rightarrow> glove \<Rightarrow> qa_model \<Rightarrow> unit m" where
  "official_eval_mode env g qa =
     bind_m get_FLAGS (\<lambda>F.
       if json_in_path F = [] then
         raise (Exception ''For official_eval mode, you need to specify --json_in_path'')
       else if ckpt_load_dir F = [] then
         raise (Exception ''For official_eval mode, you need to specify --ckpt_load_dir'')
       else
         bind_m (build_tag_tables env) (\<lambda>tables.
           if single_ensemble F = ''ensemble''
           then ensemble_branch env g qa (fst tables) (snd tables)
           else single_branch env g qa (fst tables) (snd tables)))"

text \<open>Lines 166 to 287: the split by mode, after the model has been constructed.\<close>

definition dispatch_mode :: "env \<Rightarrow> glove \<Rightarrow> qa_model \<Rightarrow> string \<Rightarrow> string \<Rightarrow> unit m" where
  "dispatch_mode env g qa bestmodel_dir ema_bestmodel_dir =
     bind_m get_FLAGS (\<lambda>F.
       if mode F = ''train'' then train_mode env qa bestmodel_dir ema_bestmodel_dir
       else if mode F = ''show_examples''
       then show_examples_mode env qa bestmodel_dir ema_bestmodel_dir
       else if mode F = ''official_eval'' then official_eval_mode env g qa
       else raise (Exception (''Unexpected value of FLAGS.mode: '' @ mode F)))"

definition main :: "env \<Rightarrow> string list \<Rightarrow> unit m" where
  "main env unused_argv =
     (if length unused_argv \<noteq> 1 then
        raise (Exception (''There is a problem with how you entered flags: ''
                 @ str_of_argv env unused_argv))
      else if python_major env \<noteq> 3 then
        raise (Exception (''ERROR: You must use Python 3 but you are running Python ''
                 @ str_nat (python_major env)))
      else
        then_m (log (Print (''This code was developed and tested on TensorFlow 1.4.1. ''
                  @ ''Your TensorFlow version: '' @ tf_version env)))
       (then_m (define_train_dir env)
       (bind_m get_FLAGS (\<lambda>F.
        then_m (define_glove_path env)
       (bind_m (load_embeddings_and_model env) (\<lambda>gq.
          dispatch_mode env (fst gq) (snd gq)
            (os_path_join (train_dir F) ''best_checkpoint'')
            (os_path_join (train_dir F) ''ema_best_checkpoint'')))))))"

text \<open>The state in which a process starts: the parsed flags, nothing done yet.\<close>

definition start :: "flags \<Rightarrow> st" where
  "start F = \<lparr>FLAGS = F, trace = [], session = None\<rparr>"

section \<open>The helpers of official\_eval\_helper.py\<close>

text \<open>
  main.py calls \<^verbatim>\<open>generate_answers\<close>, \<^verbatim>\<open>generate_partial_answers\<close> and
  \<^verbatim>\<open>generate_ensemble_answers\<close> of official\_eval\_helper.py, which is not among the sources
  at hand.  In \<open>main\<close> they are parameters of the world (\<open>env\<close>), so that everything proved
  of \<open>main\<close> alone holds for any implementation of them.  Where a property needs to know
  what they return, the definitions of this section say it, and the predicates
  \<open>answers_as_specified\<close> and \<open>aggregator_as_specified\<close> say that the world's helpers are
  these.
\<close>

type_synonym example = "ustr \<times> ustr list \<times> ustr list"

text \<open>Modelled from the spec: the examples of a batch.  The reader of the input file
  ``yields parallel sequences of uuids, tokenized contexts, tokenized questions''
  (section 6); an example is ``a single (question-id, tokenized context, tokenized
  question) unit'' (section 3).\<close>

definition examples :: "batch \<Rightarrow> example list" where
  "examples b = zip (fst b) (zip (fst (snd b)) (snd (snd b)))"

definition parallel :: "batch \<Rightarrow> bool" where
  "parallel b =
     (length (fst b) = length (fst (snd b)) \<and> length (fst b) = length (snd (snd b)))"

text \<open>Modelled from the spec: \<^verbatim>\<open>generate_partial_answers\<close> of official\_eval\_helper.py
  (missing).  Section 4.3: ``run inference, extract per-example answer records''; section
  3: a per-model answer record is ``keyed by uuid; one record per (model, example) pair''.
  The Model Runtime and Answer Extraction are external (section 1): \<open>extract w ex\<close> is the
  record they yield for example \<open>ex\<close> under the weights \<open>w\<close>.\<close>

definition spec_generate_partial_answers ::
  "(weights \<Rightarrow> example \<Rightarrow> answer_record) \<Rightarrow> weights \<Rightarrow> batch \<Rightarrow> record_set" where
  "spec_generate_partial_answers extract w b =
     fold (\<lambda>ex d. AList.update (fst ex) (extract w ex) d) (examples b) []"

text \<open>Modelled from the spec: \<^verbatim>\<open>generate_answers\<close> of official\_eval\_helper.py (missing).
  Section 4.3: ``run inference once over every example in the input batch; extract one
  answer per example''.\<close>

definition spec_generate_answers ::
  "(weights \<Rightarrow> example \<Rightarrow> answer_record) \<Rightarrow> weights \<Rightarrow> batch \<Rightarrow> answers" where
  "spec_generate_answers extract w b =
     map (\<lambda>kv. (fst kv, answer_text (snd kv))) (spec_generate_partial_answers extract w b)"

text \<open>Modelled from the spec: the voting rule of the Ensemble Aggregator (section 4.4).
  The spec leaves the rule to the implementer and names majority vote as one choice
  (sections 4.4 and 8); ties go to ``the answer proposed by the lowest-indexed model'':
  a later candidate replaces the best so far only with strictly more votes.\<close>

definition votes :: "ustr list \<Rightarrow> ustr \<Rightarrow> nat" where
  "votes candidates a = length (filter (\<lambda>c. c = a) candidates)"

definition majority_answer :: "ustr list \<Rightarrow> ustr" where
  "majority_answer candidates =
     fold (\<lambda>c best. if votes candidates best < votes candidates c then c else best)
       (tl candidates) (hd candidates)"

text \<open>Modelled from the spec: complete coverage.  Section 3: ``the aggregator requires
  complete coverage from all contributing models before merging''.\<close>

definition covers :: "record_set \<Rightarrow> ustr list \<Rightarrow> bool" where
  "covers rs uuids = list_all (\<lambda>u. map_of rs u \<noteq> None) uuids"

definition candidates :: "record_set list \<Rightarrow> ustr \<Rightarrow> ustr list" where
  "candidates partial_answers u =
     map (\<lambda>rs. case map_of rs u of None \<Rightarrow> [] | Some r \<Rightarrow> answer_text r) partial_answers"

text \<open>Modelled from the spec: \<^verbatim>\<open>generate_ensemble_answers\<close> of official\_eval\_helper.py
  (missing), the Ensemble Aggregator of section 4.4: ``for each example id, gather the M
  candidate answers (one per model) \<dots> select the final answer''.  A record set that
  does not cover the batch is fatal ``before aggregation, not silently skipped''
  (section 7): the result is \<open>None\<close>, as it is when there is no model at all.\<close>

definition spec_generate_ensemble_answers :: "batch \<Rightarrow> record_set list \<Rightarrow> answers option" where
  "spec_generate_ensemble_answers b partial_answers =
     (if partial_answers = [] \<or> \<not> list_all (\<lambda>rs. covers rs (fst b)) partial_answers then None
      else Some (fold (\<lambda>u d. AList.update u (majority_answer (candidates partial_answers u)) d)
                   (fst b) []))"

text \<open>The world's helpers are the specified ones.\<close>

definition answers_as_specified :: "env \<Rightarrow> (weights \<Rightarrow> example \<Rightarrow> answer_record) \<Rightarrow> bool" where
  "answers_as_specified env extract =
     (\<forall>w qa wi b bt pos ne.
        generate_answers env w qa wi b bt pos ne = Some (spec_generate_answers extract w b))"

definition aggregator_as_specified :: "env \<Rightarrow> bool" where
  "aggregator_as_specified env =
     (\<forall>qa wi b bt pos ne pas.
        generate_ensemble_answers env qa wi b bt pos ne pas
          = spec_generate_ensemble_answers b pas)"

text \<open>A mapping with exactly one entry for every uuid of the batch.\<close>

definition answers_for :: "batch \<Rightarrow> answers \<Rightarrow> bool" where
  "answers_for b d = (distinct (map fst d) \<and> set (map fst d) = set (fst b))"

section \<open>Vocabulary of the properties\<close>

subsection \<open>Kinds of events\<close>

text \<open>The calls the evaluate-mode claims count: reading the input, entering the loader,
  the three helpers, and writing the output.\<close>

definition is_call :: "event \<Rightarrow> bool" where
  "is_call e =
     (case e of
        Get_json_data _ \<Rightarrow> True
      | Initialize_model _ _ \<Rightarrow> True
      | Generate_partial_answers _ _ \<Rightarrow> True
      | Generate_ensemble_answers _ _ \<Rightarrow> True
      | Generate_answers _ _ \<Rightarrow> True
      | Write_file _ _ _ \<Rightarrow> True
      | _ \<Rightarrow> False)"

definition calls :: "event list \<Rightarrow> event list" where
  "calls tr = filter is_call tr"

definition is_output :: "event \<Rightarrow> bool" where
  "is_output e = (case e of Write_file _ _ _ \<Rightarrow> True | _ \<Rightarrow> False)"

definition is_load :: "event \<Rightarrow> bool" where
  "is_load e = (case e of Initialize_model _ _ \<Rightarrow> True | _ \<Rightarrow> False)"

definition is_tag_read :: "event \<Rightarrow> bool" where
  "is_tag_read e = (case e of Readlines _ \<Rightarrow> True | _ \<Rightarrow> False)"

definition is_print :: "event \<Rightarrow> bool" where
  "is_print e = (case e of Print _ \<Rightarrow> True | _ \<Rightarrow> False)"

definition is_aggregate :: "event \<Rightarrow> bool" where
  "is_aggregate e = (case e of Generate_ensemble_answers _ _ \<Rightarrow> True | _ \<Rightarrow> False)"

definition is_partial :: "event \<Rightarrow> bool" where
  "is_partial e = (case e of Generate_partial_answers _ _ \<Rightarrow> True | _ \<Rightarrow> False)"

text \<open>What may have happened when a mode's own checks run: printing, the read of the
  embeddings and the construction of the model.\<close>

definition before_checkpoints :: "event \<Rightarrow> bool" where
  "before_checkpoints e =
     (case e of Print _ \<Rightarrow> True | Get_glove _ _ \<Rightarrow> True | New_QAModel \<Rightarrow> True | _ \<Rightarrow> False)"

text \<open>A restore agrees with the switch \<^verbatim>\<open>load_ema_checkpoint\<close>.\<close>

definition consistent :: "bool \<Rightarrow> event \<Rightarrow> bool" where
  "consistent ema e = (case e of Restore_ema _ \<Rightarrow> ema | Restore_raw _ \<Rightarrow> \<not> ema | _ \<Rightarrow> True)"

text \<open>The events of the two evaluate branches (restores agreeing with the switch), and
  those of the ensemble passes, which do not include the aggregation.\<close>

definition eval_event :: "bool \<Rightarrow> event \<Rightarrow> bool" where
  "eval_event ema e =
     (case e of
        Restore_ema _ \<Rightarrow> ema
      | Restore_raw _ \<Rightarrow> \<not> ema
      | Print _ \<Rightarrow> True
      | Session_enter \<Rightarrow> True
      | Session_exit \<Rightarrow> True
      | Initialize_model _ _ \<Rightarrow> True
      | Get_checkpoint_state _ \<Rightarrow> True
      | Gfile_exists _ \<Rightarrow> True
      | Init_variables \<Rightarrow> True
      | Get_json_data _ \<Rightarrow> True
      | New_Batcher _ _ \<Rightarrow> True
      | Generate_partial_answers _ _ \<Rightarrow> True
      | Generate_ensemble_answers _ _ \<Rightarrow> True
      | Generate_answers _ _ \<Rightarrow> True
      | Write_file _ _ _ \<Rightarrow> True
      | _ \<Rightarrow> False)"

definition pass_event :: "bool \<Rightarrow> event \<Rightarrow> bool" where
  "pass_event ema e = (eval_event ema e \<and> \<not> is_aggregate e)"

text \<open>The aggregation is called at most once in a trace, and when it is called it
  receives \<open>n\<close> record sets and \<open>n\<close> calls of \<^verbatim>\<open>generate_partial_answers\<close> precede it.\<close>

definition record_sets :: "event \<Rightarrow> nat" where
  "record_sets e = (case e of Generate_ensemble_answers _ pas \<Rightarrow> length pas | _ \<Rightarrow> 0)"

definition aggregated_after :: "nat \<Rightarrow> event list \<Rightarrow> bool" where
  "aggregated_after n tr =
     (case filter is_aggregate tr of
        [] \<Rightarrow> True
      | [e] \<Rightarrow> record_sets e = n
               \<and> length (filter is_partial (takeWhile (\<lambda>e. \<not> is_aggregate e) tr)) = n
      | _ \<Rightarrow> False)"

subsection \<open>Checkpoints\<close>

text \<open>The condition of line 103 and its negation: the directory has a checkpoint state
  whose file, or whose v2 index, exists.\<close>

definition checkpoint_at :: "env \<Rightarrow> string \<Rightarrow> string \<Rightarrow> bool" where
  "checkpoint_at env dir p =
     (get_checkpoint_state env dir = Some p \<and>
      (gfile_exists env p \<or> gfile_exists env (p @ ''.index'')))"

definition no_checkpoint :: "env \<Rightarrow> string \<Rightarrow> bool" where
  "no_checkpoint env dir =
     (case get_checkpoint_state env dir of
        None \<Rightarrow> True
      | Some p \<Rightarrow> \<not> (gfile_exists env p \<or> gfile_exists env (p @ ''.index'')))"

text \<open>The existence probes line 103 makes when nothing is found, and when something is.\<close>

definition probes :: "env \<Rightarrow> string \<Rightarrow> event list" where
  "probes env dir =
     (case get_checkpoint_state env dir of
        None \<Rightarrow> []
      | Some p \<Rightarrow> [Gfile_exists p, Gfile_exists (p @ ''.index'')])"

definition found_probes :: "env \<Rightarrow> string \<Rightarrow> event list" where
  "found_probes env p =
     (if gfile_exists env p then [Gfile_exists p]
      else [Gfile_exists p, Gfile_exists (p @ ''.index'')])"

text \<open>The restore the switch selects, the weights it leaves in the session, and the
  weights resident after a load from a directory.\<close>

definition restore_event :: "flags \<Rightarrow> string \<Rightarrow> event" where
  "restore_event F p = (if load_ema_checkpoint F then Restore_ema p else Restore_raw p)"

definition restored :: "flags \<Rightarrow> string \<Rightarrow> weights" where
  "restored F p = (if load_ema_checkpoint F then EMA_from p else Raw_from p)"

definition resident :: "env \<Rightarrow> flags \<Rightarrow> string \<Rightarrow> weights" where
  "resident env F dir =
     (case get_checkpoint_state env dir of None \<Rightarrow> Uninitialized | Some p \<Rightarrow> restored F p)"

text \<open>A directory from which a load goes through: a checkpoint is there and its restore
  succeeds.\<close>

definition loadable :: "env \<Rightarrow> flags \<Rightarrow> string \<Rightarrow> bool" where
  "loadable env F dir =
     (case get_checkpoint_state env dir of
        None \<Rightarrow> False
      | Some p \<Rightarrow> (gfile_exists env p \<or> gfile_exists env (p @ ''.index''))
                 \<and> succeeds env (if load_ema_checkpoint F then Restore_ema p else Restore_raw p))"

subsection \<open>Flags, paths and the states main passes through\<close>

text \<open>The condition of line 135.\<close>

definition missing_name :: "flags \<Rightarrow> bool" where
  "missing_name F =
     (experiment_name F = [] \<and> train_dir F = [] \<and> mode F \<noteq> ''official_eval'')"

text \<open>The flags after lines 137 and 146, the line printed at line 132, and the states
  after line 146, after line 160 and after line 226.\<close>

definition final_flags :: "env \<Rightarrow> flags \<Rightarrow> flags" where
  "final_flags env F = with_glove_path env (with_train_dir env F)"

definition banner :: "env \<Rightarrow> event" where
  "banner env = Print (''This code was developed and tested on TensorFlow 1.4.1. ''
                  @ ''Your TensorFlow version: '' @ tf_version env)"

definition flags_state :: "env \<Rightarrow> flags \<Rightarrow> st" where
  "flags_state env F = \<lparr>FLAGS = final_flags env F, trace = [banner env], session = None\<rparr>"

definition model_built :: "env \<Rightarrow> flags \<Rightarrow> st" where
  "model_built env F =
     \<lparr>FLAGS = final_flags env F,
      trace = [banner env, Get_glove (glove_path (final_flags env F)) (embedding_size F),
               New_QAModel],
      session = None\<rparr>"

definition tag_file :: "flags \<Rightarrow> string" where
  "tag_file F = os_path_join (main_dir F) ''pos_tags.txt''"

definition tables_built :: "env \<Rightarrow> flags \<Rightarrow> st" where
  "tables_built env F =
     (model_built env F)\<lparr>trace := trace (model_built env F) @ [Readlines (tag_file F)]\<rparr>"

text \<open>Names for arguments main.py writes inline: the directory of line 272, the batcher
  of lines 238, 251 and 264, and the write of lines 256 and 281.\<close>

definition first_checkpoint_dir :: "flags \<Rightarrow> string" where
  "first_checkpoint_dir F = os_path_join (ckpt_load_dir F) ''ema_best_checkpoint_1''"

definition the_batcher :: "flags \<Rightarrow> batcher" where
  "the_batcher F = Batcher (os_path_join (data_dir F) ''elmo_voca.txt'') (max_word_size F)"

definition batcher_event :: "flags \<Rightarrow> event" where
  "batcher_event F = New_Batcher (os_path_join (data_dir F) ''elmo_voca.txt'') (max_word_size F)"

definition output_event :: "flags \<Rightarrow> answers \<Rightarrow> event" where
  "output_event F d = Write_file (json_out_path F) ''utf-8'' (json_dumps d)"

text \<open>The counted calls of one pass of the ensemble loop over a checkpoint directory.\<close>

definition pass_calls :: "env \<Rightarrow> flags \<Rightarrow> batch \<Rightarrow> string \<Rightarrow> event list" where
  "pass_calls env F b dir =
     [Get_json_data (json_in_path F), Initialize_model dir True,
      Generate_partial_answers (resident env F dir) b]"

subsection \<open>Text\<close>

text \<open>The code points of a text beyond ASCII, in order.\<close>

definition non_ascii :: "ustr \<Rightarrow> ustr" where
  "non_ascii s = filter (\<lambda>c. 127 < c) s"

subsection \<open>Two notions for the proofs\<close>

text \<open>\<open>steps F P f\<close>: run from a state whose flags are \<open>F\<close>, the computation \<open>f\<close> leaves
  the flags alone and appends only events that satisfy \<open>P\<close>, whatever its outcome.\<close>

definition steps :: "flags \<Rightarrow> (event \<Rightarrow> bool) \<Rightarrow> 'a m \<Rightarrow> bool" where
  "steps F P f =
     (\<forall>s. FLAGS s = F \<longrightarrow>
        FLAGS (snd (f s)) = F \<and> (\<exists>new. trace (snd (f s)) = trace s @ new \<and> list_all P new))"

text \<open>The loops of lines 220 and 225, over any way \<open>f\<close> of reading the tag at an index.\<close>

definition index_table :: "(nat \<Rightarrow> string) \<Rightarrow> nat \<Rightarrow> tag_map" where
  "index_table f n = fold (\<lambda>i d. AList.update (f i) (i + 1) d) [0..<n] []"

section \<open>A concrete world\<close>

text \<open>
  One world in which every collaborator succeeds, for the instances of the theorems: an
  input of two questions \<open>q1\<close> and \<open>q2\<close> (the context of the second begins with the
  token ``\'et\'e'', code points 233, 116, 233), a checkpoint in every directory but
  \<open>fresh\<close>, a tag file of two lines, and helpers that are the specified ones over a
  runtime whose second base model answers with the last token of the context and every
  other with the first.
\<close>

definition demo_extract :: "weights \<Rightarrow> example \<Rightarrow> answer_record" where
  "demo_extract w ex =
     \<lparr>answer_text =
        (if w = EMA_from ''ck/ema_best_checkpoint_2/qa.ckpt'' then last (fst (snd ex))
         else hd (fst (snd ex))),
      span_start = 0, span_end = 0, confidence = 1\<rparr>"

definition demo_batch :: batch where
  "demo_batch =
     ([[113, 49], [113, 50]],
      [[[80, 97, 114, 105, 115], [105, 115]], [[233, 116, 233], [98]]],
      [[[119, 104, 101, 114, 101]], [[119, 104, 101, 110]]])"

definition demo_env :: env where
  "demo_env =
     \<lparr>str_of_argv = (\<lambda>a. concat a),
      python_major = 3,
      tf_version = ''1.4.1'',
      MAIN_DIR = ''.'',
      succeeds = (\<lambda>e. True),
      get_glove = (\<lambda>p n. Some (Glove [] [] [])),
      new_QAModel = (\<lambda>F g. Some (QAModel [3, 4])),
      path_exists = (\<lambda>p. False),
      get_checkpoint_state = (\<lambda>d. if d = ''fresh'' then None else Some (d @ ''/qa.ckpt'')),
      gfile_exists = (\<lambda>p. True),
      readlines = (\<lambda>p. Some [''NN'' @ [CHR 0x0A], ''VB'' @ [CHR 0x0A]]),
      get_json_data = (\<lambda>p. Some demo_batch),
      train_outcome = Completes,
      generate_answers = (\<lambda>w qa w2i b bt pos ne. Some (spec_generate_answers demo_extract w b)),
      generate_partial_answers =
        (\<lambda>w qa w2i b bt pos ne. Some (spec_generate_partial_answers demo_extract w b)),
      generate_ensemble_answers =
        (\<lambda>qa w2i b bt pos ne ps. spec_generate_ensemble_answers b ps)\<rparr>"

text \<open>Ensemble evaluation, and its variants: single evaluation, evaluation without an
  input path, evaluation with the flag \<^verbatim>\<open>single_ensemble\<close> left at its default, inspection
  of a named experiment with raw weights, and training without a name.\<close>

definition demo_flags :: flags where
  "demo_flags =
     \<lparr>mode = ''official_eval'', experiment_name = '''', embedding_size = 300,
      max_word_size = 40, load_ema_checkpoint = True, single_ensemble = ''ensemble'',
      train_dir = '''', glove_path = '''', data_dir = ''data'', ckpt_load_dir = ''ck'',
      json_in_path = ''in.json'', json_out_path = ''predictions.json'', main_dir = ''.''\<rparr>"

definition demo_single :: flags where
  "demo_single = demo_flags\<lparr>single_ensemble := ''single''\<rparr>"

definition demo_no_input :: flags where
  "demo_no_input = demo_flags\<lparr>json_in_path := []\<rparr>"

definition demo_unknown :: flags where
  "demo_unknown = demo_flags\<lparr>single_ensemble := []\<rparr>"

definition demo_show :: flags where
  "demo_show = demo_flags\<lparr>mode := ''show_examples'', experiment_name := ''baseline'',
     load_ema_checkpoint := False\<rparr>"

definition demo_nameless :: flags where
  "demo_nameless = demo_flags\<lparr>mode := ''train''\<rparr>"

text \<open>The answers of the single run on this input, and their serialisation
  \<^verbatim>\<open>{"q1": "Paris", "q2": "..."}\<close> with the second answer's three code points as they
  are.\<close>

definition demo_answers :: answers where
  "demo_answers = [([113, 49], [80, 97, 114, 105, 115]), ([113, 50], [233, 116, 233])]"

definition demo_text :: ustr where
  "demo_text =
     [123, 34, 113, 49, 34, 58, 32, 34, 80, 97, 114, 105, 115, 34, 44, 32,
      34, 113, 50, 34, 58, 32, 34, 233, 116, 233, 34, 125]"

section \<open>Running the monad\<close>

lemmas prims = return_def raise_def log_def get_FLAGS_def set_weights_def get_weights_def
  modify_FLAGS_def then_m_def bind_m_def ext_def effect_def

lemma calls_append [simp]: "calls (xs @ ys) = calls xs @ calls ys"
  by (simp add: calls_def)

lemma calls_Nil [simp]: "calls [] = []"
  by (simp add: calls_def)

lemma calls_Cons [simp]: "calls (e # es) = (if is_call e then e # calls es else calls es)"
  by (simp add: calls_def)

lemma is_call_simps [simp]:
  "\<not> is_call (Print x)" "\<not> is_call (Get_glove a i)" "\<not> is_call New_QAModel"
  "\<not> is_call (Path_exists a)" "\<not> is_call (Makedirs a)" "\<not> is_call (Log_file a)"
  "\<not> is_call (Dump_flags a)" "\<not> is_call Session_enter" "\<not> is_call Session_exit"
  "is_call (Initialize_model a b)" "\<not> is_call (Get_checkpoint_state a)"
  "\<not> is_call (Gfile_exists a)" "\<not> is_call (Restore_ema a)" "\<not> is_call (Restore_raw a)"
  "\<not> is_call Init_variables" "\<not> is_call Train" "\<not> is_call Check_f1_em"
  "\<not> is_call (Readlines a)" "is_call (Get_json_data a)" "\<not> is_call (New_Batcher a i)"
  "is_call (Generate_partial_answers w bb)" "is_call (Generate_ensemble_answers bb ps)"
  "is_call (Generate_answers w bb)" "is_call (Write_file a c u)"
  by (simp_all add: is_call_def)

lemma bind_m_Return:
  "bind_m f g s = (Return b, s') \<longleftrightarrow> (\<exists>a s1. f s = (Return a, s1) \<and> g a s1 = (Return b, s'))"
  by (auto simp: bind_m_def split: prod.splits res.splits)

lemma then_m_Return:
  "then_m f g s = (Return b, s') \<longleftrightarrow> (\<exists>s1. f s = (Return (), s1) \<and> g s1 = (Return b, s'))"
  by (simp add: then_m_def bind_m_Return)

lemma ext_Return:
  "ext e r s = (Return a, s') \<longleftrightarrow> r = Some a \<and> s' = s\<lparr>trace := trace s @ [e]\<rparr>"
  by (cases r) (auto simp: prims)

lemma effect_Return:
  "effect env e s = (Return u, s') \<longleftrightarrow> succeeds env e \<and> s' = s\<lparr>trace := trace s @ [e]\<rparr>"
  by (auto simp: effect_def ext_Return)

lemma with_session_Return:
  "with_session body s = (Return a, s') \<longleftrightarrow>
     (\<exists>s2. body (s\<lparr>trace := trace s @ [Session_enter], session := Some Uninitialized\<rparr>)
             = (Return a, s2)
           \<and> s' = s2\<lparr>trace := trace s2 @ [Session_exit], session := None\<rparr>)"
  by (auto simp: with_session_def Let_def split: prod.splits res.splits)

lemma checkpoint_found_run:
  "checkpoint_found env ckpt s = (r, s') \<Longrightarrow>
     r = Return (\<exists>p. ckpt = Some p \<and> (gfile_exists env p \<or> gfile_exists env (p @ ''.index'')))
     \<and> FLAGS s' = FLAGS s \<and> session s' = session s \<and> calls (trace s') = calls (trace s)"
  by (cases ckpt) (auto simp: checkpoint_found_def prims split: if_splits)

lemma restore_checkpoint_Return:
  "restore_checkpoint env p s = (Return u, s') \<Longrightarrow>
     FLAGS s' = FLAGS s \<and> session s' = Some (restored (FLAGS s) p)
     \<and> calls (trace s') = calls (trace s)"
  by (auto simp: restore_checkpoint_def restored_def bind_m_Return then_m_Return effect_Return
        get_FLAGS_def set_weights_def split: if_splits)

lemma initialize_model_required_Return:
  assumes "initialize_model env qa dir True s = (Return u, s')"
  shows "\<exists>p. checkpoint_at env dir p \<and> FLAGS s' = FLAGS s
           \<and> session s' = Some (restored (FLAGS s) p)
           \<and> calls (trace s') = calls (trace s) @ [Initialize_model dir True]"
proof -
  let ?s0 = "s\<lparr>trace := trace s @ [Initialize_model dir True,
                  Print (''Looking for model at '' @ dir @ ''...''), Get_checkpoint_state dir]\<rparr>"
  obtain r1 s1 where cf: "checkpoint_found env (get_checkpoint_state env dir) ?s0 = (r1, s1)"
    by (cases "checkpoint_found env (get_checkpoint_state env dir) ?s0")
  note f = checkpoint_found_run [OF cf]
  from assms cf f obtain p where p: "checkpoint_at env dir p"
    and rest: "then_m (log (Print (''Reading model parameters from '' @ p)))
                (restore_checkpoint env p) s1 = (Return u, s')"
    by (auto simp: initialize_model_def prims checkpoint_at_def split: if_splits)
  from rest obtain s2 where s2: "s2 = s1\<lparr>trace := trace s1 @ [Print (''Reading model parameters from '' @ p)]\<rparr>"
      and r: "restore_checkpoint env p s2 = (Return u, s')"
    by (auto simp: then_m_Return log_def)
  from restore_checkpoint_Return [OF r] s2 f p show ?thesis
    by (auto simp: calls_Cons)
qed

lemma read_input_Return:
  "read_input env s = (Return b, s') \<longleftrightarrow>
     get_json_data env (json_in_path (FLAGS s)) = Some b
     \<and> s' = s\<lparr>trace := trace s @ [Get_json_data (json_in_path (FLAGS s))]\<rparr>"
  by (auto simp: read_input_def bind_m_Return get_FLAGS_def ext_Return)

lemma make_batcher_Return:
  "make_batcher env s = (Return bt, s') \<Longrightarrow>
     bt = the_batcher (FLAGS s) \<and> FLAGS s' = FLAGS s \<and> session s' = session s
     \<and> calls (trace s') = calls (trace s)"
  by (auto simp: make_batcher_def the_batcher_def bind_m_Return then_m_Return get_FLAGS_def
        effect_Return return_def)

lemma ensemble_pass_Return:
  assumes "ensemble_pass env g qa pos ne dir s = (Return pa, s')"
  shows "\<exists>b p. get_json_data env (json_in_path (FLAGS s)) = Some b
           \<and> checkpoint_at env dir p
           \<and> generate_partial_answers env (restored (FLAGS s) p) qa (word2id g) b
                (the_batcher (FLAGS s)) pos ne = Some pa
           \<and> FLAGS s' = FLAGS s
           \<and> calls (trace s') = calls (trace s) @ pass_calls env (FLAGS s) b dir"
proof -
  from assms obtain b s1 bt s2 s3 where
    1: "read_input env s = (Return b, s1)" and
    2: "make_batcher env s1 = (Return bt, s2)" and
    3: "with_session
          (then_m (initialize_model env qa dir True)
          (bind_m get_weights (\<lambda>w.
             ext (Generate_partial_answers w b)
               (generate_partial_answers env w qa (word2id g) b bt pos ne)))) s2 = (Return pa, s')"
    unfolding ensemble_pass_def bind_m_Return by blast
  from 3 obtain s4 s5 where
    4: "initialize_model env qa dir True
          (s2\<lparr>trace := trace s2 @ [Session_enter], session := Some Uninitialized\<rparr>)
          = (Return (), s4)" and
    5: "bind_m get_weights (\<lambda>w.
             ext (Generate_partial_answers w b)
               (generate_partial_answers env w qa (word2id g) b bt pos ne)) s4 = (Return pa, s5)" and
    6: "s' = s5\<lparr>trace := trace s5 @ [Session_exit], session := None\<rparr>"
    unfolding with_session_Return then_m_Return by blast
  from initialize_model_required_Return [OF 4] obtain p where
    p: "checkpoint_at env dir p" "FLAGS s4 = FLAGS s2" "session s4 = Some (restored (FLAGS s2) p)"
       "calls (trace s4) = calls (trace s2) @ [Initialize_model dir True]"
    by auto
  from 1 have b: "get_json_data env (json_in_path (FLAGS s)) = Some b"
    and s1: "FLAGS s1 = FLAGS s" "calls (trace s1) = calls (trace s) @ [Get_json_data (json_in_path (FLAGS s))]"
    by (auto simp: read_input_Return)
  note mb = make_batcher_Return [OF 2]
  from 5 p have 7: "generate_partial_answers env (restored (FLAGS s2) p) qa (word2id g) b bt pos ne = Some pa"
    and s5: "s5 = s4\<lparr>trace := trace s4 @ [Generate_partial_answers (restored (FLAGS s2) p) b]\<rparr>"
    by (auto simp: bind_m_Return get_weights_def ext_Return)
  have res: "resident env (FLAGS s) dir = restored (FLAGS s) p"
    using p(1) by (simp add: resident_def checkpoint_at_def)
  show ?thesis
    using b p s1 mb 7 s5 6 res by (auto simp: pass_calls_def)
qed

lemma ensemble_passes_Return:
  "ensemble_passes env g qa pos ne dirs acc s = (Return pas, s') \<Longrightarrow>
     FLAGS s' = FLAGS s
     \<and> (dirs \<noteq> [] \<longrightarrow> get_json_data env (json_in_path (FLAGS s)) \<noteq> None)
     \<and> (\<forall>b. get_json_data env (json_in_path (FLAGS s)) = Some b \<or> dirs = [] \<longrightarrow>
          calls (trace s') = calls (trace s) @ concat (map (pass_calls env (FLAGS s) b) dirs))
     \<and> (\<exists>new. pas = acc @ new \<and> length new = length dirs
          \<and> (\<forall>i<length dirs. \<exists>b p.
                get_json_data env (json_in_path (FLAGS s)) = Some b
                \<and> checkpoint_at env (dirs ! i) p
                \<and> generate_partial_answers env (restored (FLAGS s) p) qa (word2id g) b
                     (the_batcher (FLAGS s)) pos ne = Some (new ! i)))"
proof (induction dirs arbitrary: acc s)
  case Nil
  then show ?case by (simp add: return_def)
next
  case (Cons d dirs)
  from Cons.prems obtain pa s1 where
    1: "ensemble_pass env g qa pos ne d s = (Return pa, s1)" and
    2: "ensemble_passes env g qa pos ne dirs (acc @ [pa]) s1 = (Return pas, s')"
    by (auto simp: bind_m_Return)
  from ensemble_pass_Return [OF 1] obtain b p where
    b: "get_json_data env (json_in_path (FLAGS s)) = Some b" and
    p: "checkpoint_at env d p" and
    pa: "generate_partial_answers env (restored (FLAGS s) p) qa (word2id g) b
           (the_batcher (FLAGS s)) pos ne = Some pa" and
    F1: "FLAGS s1 = FLAGS s" and
    c1: "calls (trace s1) = calls (trace s) @ pass_calls env (FLAGS s) b d"
    by blast
  from Cons.IH [OF 2] F1 b obtain new where
    F': "FLAGS s' = FLAGS s" and
    c2: "calls (trace s') = calls (trace s1) @ concat (map (pass_calls env (FLAGS s) b) dirs)" and
    new: "pas = (acc @ [pa]) @ new" "length new = length dirs" and
    each: "\<forall>i<length dirs. \<exists>b p.
                get_json_data env (json_in_path (FLAGS s)) = Some b
                \<and> checkpoint_at env (dirs ! i) p
                \<and> generate_partial_answers env (restored (FLAGS s) p) qa (word2id g) b
                     (the_batcher (FLAGS s)) pos ne = Some (new ! i)"
    by auto
  have "\<forall>i<length (d # dirs). \<exists>b p.
                get_json_data env (json_in_path (FLAGS s)) = Some b
                \<and> checkpoint_at env ((d # dirs) ! i) p
                \<and> generate_partial_answers env (restored (FLAGS s) p) qa (word2id g) b
                     (the_batcher (FLAGS s)) pos ne = Some ((pa # new) ! i)"
  proof (intro allI impI)
    fix i assume "i < length (d # dirs)"
    then show "\<exists>b p.
                get_json_data env (json_in_path (FLAGS s)) = Some b
                \<and> checkpoint_at env ((d # dirs) ! i) p
                \<and> generate_partial_answers env (restored (FLAGS s) p) qa (word2id g) b
                     (the_batcher (FLAGS s)) pos ne = Some ((pa # new) ! i)"
      using b p pa each by (cases i) auto
  qed
  moreover have "pas = acc @ (pa # new)" "length (pa # new) = length (d # dirs)"
    using new by simp_all
  ultimately show ?case
    using F' b c1 c2 by auto
qed

lemma final_flags_simps [simp]:
  "mode (final_flags env F) = mode F"
  "experiment_name (final_flags env F) = experiment_name F"
  "embedding_size (final_flags env F) = embedding_size F"
  "max_word_size (final_flags env F) = max_word_size F"
  "load_ema_checkpoint (final_flags env F) = load_ema_checkpoint F"
  "single_ensemble (final_flags env F) = single_ensemble F"
  "data_dir (final_flags env F) = data_dir F"
  "ckpt_load_dir (final_flags env F) = ckpt_load_dir F"
  "json_in_path (final_flags env F) = json_in_path F"
  "json_out_path (final_flags env F) = json_out_path F"
  "main_dir (final_flags env F) = main_dir F"
  "train_dir (final_flags env F) = train_dir (with_train_dir env F)"
  by (simp_all add: final_flags_def with_glove_path_def with_train_dir_def)

lemma define_train_dir_run:
  "define_train_dir env s =
     (if missing_name (FLAGS s)
      then (Raise (Exception ''You need to specify either --experiment_name or --train_dir''), s)
      else (Return (), s\<lparr>FLAGS := with_train_dir env (FLAGS s)\<rparr>))"
  by (simp add: define_train_dir_def missing_name_def bind_m_def get_FLAGS_def raise_def
        modify_FLAGS_def)

lemma main_after_flags:
  assumes "length argv = 1" "python_major env = 3" "\<not> missing_name F"
  shows "main env argv (start F) =
           bind_m (load_embeddings_and_model env) (\<lambda>gq.
             dispatch_mode env (fst gq) (snd gq)
               (os_path_join (train_dir (with_train_dir env F)) ''best_checkpoint'')
               (os_path_join (train_dir (with_train_dir env F)) ''ema_best_checkpoint''))
             \<lparr>FLAGS = final_flags env F, trace = [banner env], session = None\<rparr>"
  using assms
  by (simp add: main_def start_def define_train_dir_run define_glove_path_def
        banner_def final_flags_def then_m_def bind_m_def log_def get_FLAGS_def modify_FLAGS_def
      split: prod.splits res.splits)

lemma load_embeddings_and_model_run:
  assumes "FLAGS s = F'"
  shows "load_embeddings_and_model env s =
     (case get_glove env (glove_path F') (embedding_size F') of
        None \<Rightarrow> (Raise Collaborator_failure,
                  s\<lparr>trace := trace s @ [Get_glove (glove_path F') (embedding_size F')]\<rparr>)
      | Some g \<Rightarrow>
         (case new_QAModel env F' g of
            None \<Rightarrow> (Raise Collaborator_failure,
                  s\<lparr>trace := trace s @ [Get_glove (glove_path F') (embedding_size F'),
                                         New_QAModel]\<rparr>)
          | Some qa \<Rightarrow> (Return (g, qa),
                  s\<lparr>trace := trace s @ [Get_glove (glove_path F') (embedding_size F'),
                                         New_QAModel]\<rparr>)))"
  using assms
  by (simp add: load_embeddings_and_model_def prims split: option.splits)

lemma main_after_model:
  assumes "length argv = 1" "python_major env = 3" "\<not> missing_name F"
    and "get_glove env (glove_path (final_flags env F)) (embedding_size F) = Some g"
    and "new_QAModel env (final_flags env F) g = Some qa"
  shows "main env argv (start F) =
           dispatch_mode env g qa
               (os_path_join (train_dir (with_train_dir env F)) ''best_checkpoint'')
               (os_path_join (train_dir (with_train_dir env F)) ''ema_best_checkpoint'')
             (model_built env F)"
  using assms(4,5)
  by (simp add: main_after_flags [OF assms(1,2,3)] bind_m_def model_built_def
        load_embeddings_and_model_run [where F' = "final_flags env F"])

lemma main_Return:
  assumes "main env argv (start F) = (Return u, s')"
  shows "length argv = 1 \<and> python_major env = 3 \<and> \<not> missing_name F \<and>
    (\<exists>g qa. get_glove env (glove_path (final_flags env F)) (embedding_size F) = Some g
       \<and> new_QAModel env (final_flags env F) g = Some qa
       \<and> dispatch_mode env g qa
               (os_path_join (train_dir (with_train_dir env F)) ''best_checkpoint'')
               (os_path_join (train_dir (with_train_dir env F)) ''ema_best_checkpoint'')
             (model_built env F) = (Return u, s'))"
proof -
  have 1: "length argv = 1" "python_major env = 3"
    using assms by (auto simp: main_def raise_def split: if_splits)
  have 2: "\<not> missing_name F"
    using assms 1
    by (auto simp: main_def start_def define_train_dir_run
        then_m_def bind_m_def log_def split: if_splits)
  note m = main_after_flags [OF 1 2]
  from assms obtain g qa where
    g: "get_glove env (glove_path (final_flags env F)) (embedding_size F) = Some g"
    and qa: "new_QAModel env (final_flags env F) g = Some qa"
    unfolding m
    by (auto simp: bind_m_def load_embeddings_and_model_run [where F' = "final_flags env F"]
          split: option.splits)
  from assms main_after_model [OF 1 2 g qa] 1 2 g qa show ?thesis by auto
qed

lemma dispatch_mode_official_eval:
  "mode (FLAGS s) = ''official_eval'' \<Longrightarrow>
     dispatch_mode env g qa bd ebd s = official_eval_mode env g qa s"
  by (simp add: dispatch_mode_def bind_m_def get_FLAGS_def)

lemma official_eval_mode_run:
  assumes "json_in_path (FLAGS s) \<noteq> []" "ckpt_load_dir (FLAGS s) \<noteq> []"
    and "readlines env (tag_file (FLAGS s)) = Some ls"
  shows "official_eval_mode env g qa s =
           (if single_ensemble (FLAGS s) = ''ensemble''
            then ensemble_branch env g qa (pos_tag_table ls) ne_tag_table
            else single_branch env g qa (pos_tag_table ls) ne_tag_table)
             (s\<lparr>trace := trace s @ [Readlines (tag_file (FLAGS s))]\<rparr>)"
  using assms
  by (simp add: official_eval_mode_def build_tag_tables_def tag_file_def prims)

lemma official_eval_mode_Return:
  assumes "official_eval_mode env g qa s = (Return u, s')"
  shows "json_in_path (FLAGS s) \<noteq> [] \<and> ckpt_load_dir (FLAGS s) \<noteq> [] \<and>
     (\<exists>ls. readlines env (tag_file (FLAGS s)) = Some ls)"
  using assms
  by (auto simp: official_eval_mode_def build_tag_tables_def tag_file_def prims
        split: if_splits option.splits)

lemma write_predictions_Return:
  "write_predictions env d s = (Return u, s') \<Longrightarrow>
     FLAGS s' = FLAGS s \<and> session s' = session s
     \<and> calls (trace s') = calls (trace s) @ [output_event (FLAGS s) d]"
  by (auto simp: write_predictions_def output_event_def bind_m_Return then_m_Return
        get_FLAGS_def effect_Return log_def)

lemma single_branch_Return:
  assumes "single_branch env g qa pos ne s = (Return u, s')"
  shows "single_ensemble (FLAGS s) = ''single'' \<and>
    (\<exists>b p d. get_json_data env (json_in_path (FLAGS s)) = Some b
       \<and> checkpoint_at env (first_checkpoint_dir (FLAGS s)) p
       \<and> generate_answers env (restored (FLAGS s) p) qa (word2id g) b
            (the_batcher (FLAGS s)) pos ne = Some d
       \<and> FLAGS s' = FLAGS s
       \<and> calls (trace s') = calls (trace s) @
            [Get_json_data (json_in_path (FLAGS s)),
             Initialize_model (first_checkpoint_dir (FLAGS s)) True,
             Generate_answers (restored (FLAGS s) p) b,
             output_event (FLAGS s) d])"
proof -
  from assms have se: "single_ensemble (FLAGS s) = ''single''"
    by (auto simp: single_branch_def bind_m_def get_FLAGS_def raise_def split: if_splits)
  with assms obtain bt s1 b s2 s3 where
    1: "make_batcher env s = (Return bt, s1)" and
    2: "read_input env s1 = (Return b, s2)" and
    3: "then_m (initialize_model env qa (first_checkpoint_dir (FLAGS s)) True)
          (bind_m get_weights (\<lambda>w.
           bind_m (ext (Generate_answers w b)
                     (generate_answers env w qa (word2id g) b bt pos ne))
             (write_predictions env)))
          (s2\<lparr>trace := trace s2 @ [Session_enter], session := Some Uninitialized\<rparr>)
          = (Return u, s3)" and
    4: "s' = s3\<lparr>trace := trace s3 @ [Session_exit], session := None\<rparr>"
    by (auto simp: single_branch_def first_checkpoint_dir_def bind_m_Return get_FLAGS_def
          with_session_Return)
  note mb = make_batcher_Return [OF 1]
  from 2 mb have b: "get_json_data env (json_in_path (FLAGS s)) = Some b"
    and s2: "FLAGS s2 = FLAGS s"
       "calls (trace s2) = calls (trace s) @ [Get_json_data (json_in_path (FLAGS s))]"
    by (auto simp: read_input_Return)
  from 3 obtain s4 where
    5: "initialize_model env qa (first_checkpoint_dir (FLAGS s)) True
          (s2\<lparr>trace := trace s2 @ [Session_enter], session := Some Uninitialized\<rparr>)
          = (Return (), s4)" and
    6: "bind_m get_weights (\<lambda>w.
           bind_m (ext (Generate_answers w b)
                     (generate_answers env w qa (word2id g) b bt pos ne))
             (write_predictions env)) s4 = (Return u, s3)"
    by (auto simp: then_m_Return)
  from initialize_model_required_Return [OF 5] s2 obtain p where
    p: "checkpoint_at env (first_checkpoint_dir (FLAGS s)) p" "FLAGS s4 = FLAGS s"
       "session s4 = Some (restored (FLAGS s) p)"
       "calls (trace s4) = calls (trace s) @ [Get_json_data (json_in_path (FLAGS s)),
           Initialize_model (first_checkpoint_dir (FLAGS s)) True]"
    by auto
  from 6 p obtain d where
    d: "generate_answers env (restored (FLAGS s) p) qa (word2id g) b bt pos ne = Some d" and
    7: "write_predictions env d
          (s4\<lparr>trace := trace s4 @ [Generate_answers (restored (FLAGS s) p) b]\<rparr>) = (Return u, s3)"
    by (auto simp: bind_m_Return get_weights_def ext_Return)
  from write_predictions_Return [OF 7] p have
    s3: "FLAGS s3 = FLAGS s"
        "calls (trace s3) = calls (trace s) @ [Get_json_data (json_in_path (FLAGS s)),
           Initialize_model (first_checkpoint_dir (FLAGS s)) True,
           Generate_answers (restored (FLAGS s) p) b, output_event (FLAGS s) d]"
    by auto
  show ?thesis
    using se b p(1) d mb s3 4 by auto
qed

lemma ensemble_branch_Return:
  assumes "ensemble_branch env g qa pos ne s = (Return u, s')"
  shows "\<exists>b pas d. get_json_data env (json_in_path (FLAGS s)) = Some b
       \<and> length pas = length (checkpoint_dirs (FLAGS s))
       \<and> (\<forall>i<length (checkpoint_dirs (FLAGS s)). \<exists>p.
             checkpoint_at env (checkpoint_dirs (FLAGS s) ! i) p
             \<and> generate_partial_answers env (restored (FLAGS s) p) qa (word2id g) b
                  (the_batcher (FLAGS s)) pos ne = Some (pas ! i))
       \<and> generate_ensemble_answers env qa (word2id g) b (the_batcher (FLAGS s)) pos ne pas
            = Some d
       \<and> FLAGS s' = FLAGS s
       \<and> calls (trace s') = calls (trace s)
            @ concat (map (pass_calls env (FLAGS s) b) (checkpoint_dirs (FLAGS s)))
            @ [Get_json_data (json_in_path (FLAGS s)), Generate_ensemble_answers b pas,
               output_event (FLAGS s) d]"
proof -
  from assms obtain pas s1 b s2 bt s3 d s4 where
    1: "ensemble_passes env g qa pos ne (checkpoint_dirs (FLAGS s)) [] s = (Return pas, s1)" and
    2: "read_input env s1 = (Return b, s2)" and
    3: "make_batcher env s2 = (Return bt, s3)" and
    4: "ext (Generate_ensemble_answers b pas)
          (generate_ensemble_answers env qa (word2id g) b bt pos ne pas) s3 = (Return d, s4)" and
    5: "write_predictions env d s4 = (Return u, s')"
    by (auto simp: ensemble_branch_def bind_m_Return get_FLAGS_def)
  note ps = ensemble_passes_Return [OF 1]
  from ps have F1: "FLAGS s1 = FLAGS s" by simp
  from 2 F1 have b: "get_json_data env (json_in_path (FLAGS s)) = Some b"
    and s2: "s2 = s1\<lparr>trace := trace s1 @ [Get_json_data (json_in_path (FLAGS s))]\<rparr>"
    by (auto simp: read_input_Return)
  from ps b have c1: "calls (trace s1) = calls (trace s)
      @ concat (map (pass_calls env (FLAGS s) b) (checkpoint_dirs (FLAGS s)))"
    by simp
  from ps b have each: "length pas = length (checkpoint_dirs (FLAGS s))"
    "\<forall>i<length (checkpoint_dirs (FLAGS s)). \<exists>p.
             checkpoint_at env (checkpoint_dirs (FLAGS s) ! i) p
             \<and> generate_partial_answers env (restored (FLAGS s) p) qa (word2id g) b
                  (the_batcher (FLAGS s)) pos ne = Some (pas ! i)"
    by auto
  note mb = make_batcher_Return [OF 3]
  from 4 mb s2 F1 have d: "generate_ensemble_answers env qa (word2id g) b
        (the_batcher (FLAGS s)) pos ne pas = Some d"
    and s4: "s4 = s3\<lparr>trace := trace s3 @ [Generate_ensemble_answers b pas]\<rparr>"
    by (auto simp: ext_Return)
  from write_predictions_Return [OF 5] s4 mb s2 F1 c1 have
    "FLAGS s' = FLAGS s"
    "calls (trace s') = calls (trace s)
            @ concat (map (pass_calls env (FLAGS s) b) (checkpoint_dirs (FLAGS s)))
            @ [Get_json_data (json_in_path (FLAGS s)), Generate_ensemble_answers b pas,
               output_event (FLAGS s) d]"
    by auto
  with b each d show ?thesis by blast
qed

lemma steps_return: "steps F P (return a)"
  by (simp add: steps_def return_def)

lemma steps_raise: "steps F P (raise e)"
  by (simp add: steps_def raise_def)

lemma steps_log: "P e \<Longrightarrow> steps F P (log e)"
  by (simp add: steps_def log_def)

lemma steps_bind:
  assumes f: "steps F P f" and g: "\<And>a. steps F P (g a)"
  shows "steps F P (bind_m f g)"
  unfolding steps_def
proof (intro allI impI)
  fix s :: st assume s: "FLAGS s = F"
  obtain r s1 where fs: "f s = (r, s1)" by (cases "f s")
  from f s fs obtain n1 where s1: "FLAGS s1 = F" "trace s1 = trace s @ n1" "list_all P n1"
    by (fastforce simp: steps_def)
  show "FLAGS (snd (bind_m f g s)) = F \<and>
        (\<exists>new. trace (snd (bind_m f g s)) = trace s @ new \<and> list_all P new)"
  proof (cases r)
    case (Return a)
    from g [of a] s1(1) obtain n2 where
      s2: "FLAGS (snd (g a s1)) = F" "trace (snd (g a s1)) = trace s1 @ n2" "list_all P n2"
      by (fastforce simp: steps_def)
    have "bind_m f g s = g a s1" using fs Return by (simp add: bind_m_def)
    with s1 s2 show ?thesis by simp
  next
    case (Raise e)
    then have "bind_m f g s = (Raise e, s1)" using fs by (simp add: bind_m_def)
    with s1 show ?thesis by simp
  next
    case Diverge
    then have "bind_m f g s = (Diverge, s1)" using fs by (simp add: bind_m_def)
    with s1 show ?thesis by simp
  qed
qed

lemma steps_then: "steps F P f \<Longrightarrow> steps F P g \<Longrightarrow> steps F P (then_m f g)"
  by (simp add: then_m_def steps_bind)

lemma steps_get_FLAGS: "steps F P (g F) \<Longrightarrow> steps F P (bind_m get_FLAGS g)"
  by (simp add: steps_def bind_m_def get_FLAGS_def)

lemma steps_ext: "P e \<Longrightarrow> steps F P (ext e r)"
  by (cases r) (simp_all add: ext_def steps_then steps_log steps_raise steps_return)

lemma steps_effect: "P e \<Longrightarrow> steps F P (effect env e)"
  by (simp add: effect_def steps_ext)

lemma steps_set_weights: "steps F P (set_weights w)"
  by (simp add: steps_def set_weights_def)

lemma steps_get_weights: "steps F P get_weights"
  by (simp add: steps_def get_weights_def)

lemma steps_with_session:
  assumes "P Session_enter" "P Session_exit" "steps F P body"
  shows "steps F P (with_session body)"
  unfolding steps_def
proof (intro allI impI)
  fix s :: st assume s: "FLAGS s = F"
  let ?s1 = "s\<lparr>trace := trace s @ [Session_enter], session := Some Uninitialized\<rparr>"
  obtain r s2 where b: "body ?s1 = (r, s2)" by (cases "body ?s1")
  have "FLAGS ?s1 = F" using s by simp
  with assms(3) have "FLAGS (snd (body ?s1)) = F \<and>
      (\<exists>new. trace (snd (body ?s1)) = trace ?s1 @ new \<and> list_all P new)"
    unfolding steps_def by blast
  with b obtain n where
    s2: "FLAGS s2 = F" "trace s2 = trace s @ [Session_enter] @ n" "list_all P n"
    by auto
  show "FLAGS (snd (with_session body s)) = F \<and>
        (\<exists>new. trace (snd (with_session body s)) = trace s @ new \<and> list_all P new)"
    using b s2 assms(1,2) by (cases r) (simp_all add: with_session_def)
qed

lemmas steps_intros = steps_return steps_raise steps_log steps_bind steps_then steps_get_FLAGS
  steps_ext steps_effect steps_set_weights steps_get_weights steps_with_session

lemma steps_checkpoint_found:
  "(\<And>p. P (Gfile_exists p)) \<Longrightarrow> steps F P (checkpoint_found env ckpt)"
  by (cases ckpt) (auto simp: checkpoint_found_def intro!: steps_intros)

lemma steps_restore:
  "steps F (consistent (load_ema_checkpoint F)) (restore_checkpoint env p)"
  by (auto simp: restore_checkpoint_def consistent_def intro!: steps_intros)

lemma steps_initialize_model:
  "steps F (consistent (load_ema_checkpoint F)) (initialize_model env model dir b)"
  unfolding initialize_model_def
  by (auto simp: consistent_def intro!: steps_intros steps_checkpoint_found steps_restore
        split: option.splits)

lemma final_flags_vocab [simp]:
  "tag_file (final_flags env F) = tag_file F"
  "first_checkpoint_dir (final_flags env F) = first_checkpoint_dir F"
  "the_batcher (final_flags env F) = the_batcher F"
  "batcher_event (final_flags env F) = batcher_event F"
  "output_event (final_flags env F) = output_event F"
  "loadable env' (final_flags env F) = loadable env' F"
  "resident env' (final_flags env F) = resident env' F"
  "restored (final_flags env F) = restored F"
  "checkpoint_dirs (final_flags env F) = checkpoint_dirs F"
  "pass_calls env' (final_flags env F) = pass_calls env' F"
  by (auto simp: tag_file_def first_checkpoint_dir_def the_batcher_def batcher_event_def
        output_event_def loadable_def resident_def restored_def checkpoint_dirs_def
        pass_calls_def fun_eq_iff split: option.splits)

lemma bind_m_run: "f s = (Return a, s1) \<Longrightarrow> bind_m f g s = g a s1"
  by (simp add: bind_m_def)

lemma then_m_run: "f s = (Return (), s1) \<Longrightarrow> then_m f g s = g s1"
  by (simp add: then_m_def bind_m_def)

lemma initialize_model_loadable:
  assumes "loadable env (FLAGS s) dir"
  shows "\<exists>s'. initialize_model env qa dir b s = (Return (), s')
           \<and> session s' = Some (resident env (FLAGS s) dir) \<and> FLAGS s' = FLAGS s"
  using assms
  by (auto simp: loadable_def resident_def restored_def initialize_model_def
        checkpoint_found_def restore_checkpoint_def prims split: option.splits if_splits)

lemma make_batcher_run:
  "succeeds env (batcher_event (FLAGS s)) \<Longrightarrow>
     make_batcher env s =
       (Return (the_batcher (FLAGS s)), s\<lparr>trace := trace s @ [batcher_event (FLAGS s)]\<rparr>)"
  by (simp add: make_batcher_def batcher_event_def the_batcher_def prims)

lemma read_input_run:
  "get_json_data env (json_in_path (FLAGS s)) = Some b \<Longrightarrow>
     read_input env s = (Return b, s\<lparr>trace := trace s @ [Get_json_data (json_in_path (FLAGS s))]\<rparr>)"
  by (simp add: read_input_Return)

lemma write_predictions_succeeds:
  "succeeds env (output_event (FLAGS s) d) \<Longrightarrow> \<exists>s'. write_predictions env d s = (Return (), s')"
  by (simp add: write_predictions_def output_event_def prims)

lemma with_session_succeeds:
  "body (s\<lparr>trace := trace s @ [Session_enter], session := Some Uninitialized\<rparr>) = (Return a, s2)
    \<Longrightarrow> \<exists>s'. with_session body s = (Return a, s')"
  by (simp add: with_session_def)

lemma single_branch_succeeds:
  assumes "single_ensemble (FLAGS s) = ''single''"
    and "succeeds env (batcher_event (FLAGS s))"
    and "get_json_data env (json_in_path (FLAGS s)) = Some b"
    and "loadable env (FLAGS s) (first_checkpoint_dir (FLAGS s))"
    and "generate_answers env (resident env (FLAGS s) (first_checkpoint_dir (FLAGS s))) qa
           (word2id g) b (the_batcher (FLAGS s)) pos ne = Some d"
    and "succeeds env (output_event (FLAGS s) d)"
  shows "\<exists>s'. single_branch env g qa pos ne s = (Return (), s')"
proof -
  let ?s1 = "s\<lparr>trace := trace s @ [batcher_event (FLAGS s)]\<rparr>"
  let ?s2 = "?s1\<lparr>trace := trace ?s1 @ [Get_json_data (json_in_path (FLAGS s))]\<rparr>"
  let ?s3 = "?s2\<lparr>trace := trace ?s2 @ [Session_enter], session := Some Uninitialized\<rparr>"
  let ?dir = "first_checkpoint_dir (FLAGS s)"
  have 1: "make_batcher env s = (Return (the_batcher (FLAGS s)), ?s1)"
    using assms(2) by (rule make_batcher_run)
  have 2: "read_input env ?s1 = (Return b, ?s2)"
    using assms(3) by (simp add: read_input_Return)
  from initialize_model_loadable [of env ?s3 ?dir qa True] assms(4) obtain s4 where
    4: "initialize_model env qa ?dir True ?s3 = (Return (), s4)"
       "session s4 = Some (resident env (FLAGS s) ?dir)" "FLAGS s4 = FLAGS s"
    by auto
  let ?s5 = "s4\<lparr>trace := trace s4 @ [Generate_answers (resident env (FLAGS s) ?dir) b]\<rparr>"
  from write_predictions_succeeds [of env ?s5 d] assms(6) 4(3) obtain s6 where
    6: "write_predictions env d ?s5 = (Return (), s6)"
    by auto
  let ?body = "then_m (initialize_model env qa ?dir True)
          (bind_m get_weights (\<lambda>w.
           bind_m (ext (Generate_answers w b)
                     (generate_answers env w qa (word2id g) b (the_batcher (FLAGS s)) pos ne))
             (write_predictions env)))"
  have body: "?body ?s3 = (Return (), s6)"
    using 4 6 assms(5)
    by (simp add: bind_m_def get_weights_def ext_def then_m_def log_def return_def)
  from with_session_succeeds [where body = ?body and s = ?s2, OF body] obtain s' where
    "with_session ?body ?s2 = (Return (), s')"
    by blast
  then have "single_branch env g qa pos ne s = (Return (), s')"
    using assms(1) 1 2
    by (simp add: single_branch_def first_checkpoint_dir_def bind_m_def get_FLAGS_def)
  then show ?thesis by blast
qed

lemma main_single_succeeds:
  assumes "length argv = 1" "python_major env = 3"
    and "mode F = ''official_eval''" "single_ensemble F = ''single''"
    and "json_in_path F \<noteq> []" "ckpt_load_dir F \<noteq> []"
    and "get_glove env (glove_path (final_flags env F)) (embedding_size F) = Some g"
    and "new_QAModel env (final_flags env F) g = Some qa"
    and "readlines env (tag_file F) = Some ls"
    and "succeeds env (batcher_event F)"
    and "get_json_data env (json_in_path F) = Some b"
    and "loadable env F (first_checkpoint_dir F)"
    and "generate_answers env (resident env F (first_checkpoint_dir F)) qa
           (word2id g) b (the_batcher F) (pos_tag_table ls) ne_tag_table = Some d"
    and "succeeds env (output_event F d)"
  shows "\<exists>s'. main env argv (start F) = (Return (), s')"
proof -
  have nm: "\<not> missing_name F" using assms(3) by (simp add: missing_name_def)
  let ?s0 = "model_built env F"
  let ?s1 = "?s0\<lparr>trace := trace ?s0 @ [Readlines (tag_file F)]\<rparr>"
  have F0: "FLAGS ?s0 = final_flags env F" by (simp add: model_built_def)
  have "main env argv (start F) = official_eval_mode env g qa ?s0"
    using assms(3) F0
    by (simp add: main_after_model [OF assms(1,2) nm assms(7,8)] dispatch_mode_official_eval)
  also have "\<dots> = single_branch env g qa (pos_tag_table ls) ne_tag_table ?s1"
    using assms(4,5,6,9) F0
    by (simp add: official_eval_mode_run [where ls = ls])
  finally have m: "main env argv (start F)
      = single_branch env g qa (pos_tag_table ls) ne_tag_table ?s1" .
  have "\<exists>s'. single_branch env g qa (pos_tag_table ls) ne_tag_table ?s1 = (Return (), s')"
    using assms(4,10,11,12,13,14) F0
    by (intro single_branch_succeeds [where b = b and d = d]) simp_all
  with m show ?thesis by simp
qed

lemma calls_model_built [simp]: "calls (trace (model_built env F)) = []"
  by (simp add: model_built_def banner_def)

lemma FLAGS_model_built [simp]: "FLAGS (model_built env F) = final_flags env F"
  by (simp add: model_built_def)

lemma main_official_eval_Return:
  assumes "mode F = ''official_eval''" and "main env argv (start F) = (Return (), s')"
  shows "\<exists>g qa ls.
      get_glove env (glove_path (final_flags env F)) (embedding_size F) = Some g
    \<and> new_QAModel env (final_flags env F) g = Some qa
    \<and> readlines env (tag_file F) = Some ls
    \<and> json_in_path F \<noteq> [] \<and> ckpt_load_dir F \<noteq> []
    \<and> (if single_ensemble F = ''ensemble''
        then ensemble_branch env g qa (pos_tag_table ls) ne_tag_table
        else single_branch env g qa (pos_tag_table ls) ne_tag_table)
         ((model_built env F)\<lparr>trace := trace (model_built env F) @ [Readlines (tag_file F)]\<rparr>)
        = (Return (), s')"
proof -
  from main_Return [OF assms(2)] obtain g qa where
    g: "get_glove env (glove_path (final_flags env F)) (embedding_size F) = Some g" and
    qa: "new_QAModel env (final_flags env F) g = Some qa" and
    d: "dispatch_mode env g qa
               (os_path_join (train_dir (with_train_dir env F)) ''best_checkpoint'')
               (os_path_join (train_dir (with_train_dir env F)) ''ema_best_checkpoint'')
             (model_built env F) = (Return (), s')"
    by blast
  from d assms(1) have o: "official_eval_mode env g qa (model_built env F) = (Return (), s')"
    by (simp add: dispatch_mode_official_eval)
  from official_eval_mode_Return [OF o] obtain ls where
    ls: "readlines env (tag_file F) = Some ls" and
    ne: "json_in_path F \<noteq> []" "ckpt_load_dir F \<noteq> []"
    by auto
  from o ls ne have "(if single_ensemble F = ''ensemble''
        then ensemble_branch env g qa (pos_tag_table ls) ne_tag_table
        else single_branch env g qa (pos_tag_table ls) ne_tag_table)
         ((model_built env F)\<lparr>trace := trace (model_built env F) @ [Readlines (tag_file F)]\<rparr>)
        = (Return (), s')"
    by (simp add: official_eval_mode_run [where ls = ls])
  with g qa ls ne show ?thesis by blast
qed

lemma demo_single_runs: "\<exists>s'. main demo_env [''main.py''] (start demo_single) = (Return (), s')"
proof (rule main_single_succeeds)
  show "length [''main.py''] = 1" by simp
  show "python_major demo_env = 3" by (simp add: demo_env_def)
  show "mode demo_single = ''official_eval''" by (simp add: demo_single_def demo_flags_def)
  show "single_ensemble demo_single = ''single''" by (simp add: demo_single_def)
  show "json_in_path demo_single \<noteq> []" by (simp add: demo_single_def demo_flags_def)
  show "ckpt_load_dir demo_single \<noteq> []" by (simp add: demo_single_def demo_flags_def)
  show "get_glove demo_env (glove_path (final_flags demo_env demo_single))
          (embedding_size demo_single) = Some (Glove [] [] [])"
    by (simp add: demo_env_def)
  show "new_QAModel demo_env (final_flags demo_env demo_single) (Glove [] [] [])
          = Some (QAModel [3, 4])"
    by (simp add: demo_env_def)
  show "readlines demo_env (tag_file demo_single) = Some [''NN'' @ [CHR 0x0A], ''VB'' @ [CHR 0x0A]]"
    by (simp add: demo_env_def)
  show "succeeds demo_env (batcher_event demo_single)" by (simp add: demo_env_def)
  show "get_json_data demo_env (json_in_path demo_single) = Some demo_batch"
    by (simp add: demo_env_def)
  show "loadable demo_env demo_single (first_checkpoint_dir demo_single)"
    by (simp add: loadable_def demo_env_def first_checkpoint_dir_def os_path_join_def
          demo_single_def demo_flags_def)
  show "generate_answers demo_env (resident demo_env demo_single (first_checkpoint_dir demo_single))
          (QAModel [3, 4]) (word2id (Glove [] [] [])) demo_batch (the_batcher demo_single)
          (pos_tag_table [''NN'' @ [CHR 0x0A], ''VB'' @ [CHR 0x0A]]) ne_tag_table
        = Some (spec_generate_answers demo_extract
             (resident demo_env demo_single (first_checkpoint_dir demo_single)) demo_batch)"
    by (simp add: demo_env_def)
  show "succeeds demo_env (output_event demo_single (spec_generate_answers demo_extract
             (resident demo_env demo_single (first_checkpoint_dir demo_single)) demo_batch))"
    by (simp add: demo_env_def)
qed

lemma checkpoint_at_resident:
  "checkpoint_at env dir p \<Longrightarrow> resident env F dir = restored F p"
  by (simp add: checkpoint_at_def resident_def)

lemma ensemble_pass_succeeds:
  assumes "get_json_data env (json_in_path (FLAGS s)) = Some b"
    and "succeeds env (batcher_event (FLAGS s))"
    and "loadable env (FLAGS s) dir"
    and "generate_partial_answers env (resident env (FLAGS s) dir) qa (word2id g) b
           (the_batcher (FLAGS s)) pos ne = Some pa"
  shows "\<exists>s'. ensemble_pass env g qa pos ne dir s = (Return pa, s')"
proof -
  let ?s1 = "s\<lparr>trace := trace s @ [Get_json_data (json_in_path (FLAGS s))]\<rparr>"
  let ?s2 = "?s1\<lparr>trace := trace ?s1 @ [batcher_event (FLAGS s)]\<rparr>"
  let ?s3 = "?s2\<lparr>trace := trace ?s2 @ [Session_enter], session := Some Uninitialized\<rparr>"
  have 1: "read_input env s = (Return b, ?s1)"
    using assms(1) by (simp add: read_input_Return)
  have 2: "make_batcher env ?s1 = (Return (the_batcher (FLAGS s)), ?s2)"
    using assms(2) make_batcher_run [of env ?s1] by simp
  from initialize_model_loadable [of env ?s3 dir qa True] assms(3) obtain s4 where
    4: "initialize_model env qa dir True ?s3 = (Return (), s4)"
       "session s4 = Some (resident env (FLAGS s) dir)" "FLAGS s4 = FLAGS s"
    by auto
  let ?body = "then_m (initialize_model env qa dir True)
         (bind_m get_weights (\<lambda>w.
            ext (Generate_partial_answers w b)
              (generate_partial_answers env w qa (word2id g) b (the_batcher (FLAGS s)) pos ne)))"
  have body: "?body ?s3
      = (Return pa, s4\<lparr>trace := trace s4 @ [Generate_partial_answers (resident env (FLAGS s) dir) b]\<rparr>)"
    using 4 assms(4)
    by (simp add: bind_m_def get_weights_def ext_def then_m_def log_def return_def)
  from with_session_succeeds [where body = ?body and s = ?s2, OF body] obtain s' where
    "with_session ?body ?s2 = (Return pa, s')"
    by blast
  then have "ensemble_pass env g qa pos ne dir s = (Return pa, s')"
    using 1 2 by (simp add: ensemble_pass_def bind_m_def)
  then show ?thesis by blast
qed

lemma ensemble_passes_succeeds:
  assumes "get_json_data env (json_in_path (FLAGS s)) = Some b"
    and "succeeds env (batcher_event (FLAGS s))"
    and "\<forall>d\<in>set dirs. loadable env (FLAGS s) d
           \<and> generate_partial_answers env (resident env (FLAGS s) d) qa (word2id g) b
                (the_batcher (FLAGS s)) pos ne \<noteq> None"
  shows "\<exists>pas s'. ensemble_passes env g qa pos ne dirs acc s = (Return pas, s')"
  using assms
proof (induction dirs arbitrary: acc s)
  case Nil
  then show ?case by (simp add: return_def)
next
  case (Cons d dirs)
  from Cons.prems(3) obtain pa where
    l: "loadable env (FLAGS s) d" and
    pa: "generate_partial_answers env (resident env (FLAGS s) d) qa (word2id g) b
                (the_batcher (FLAGS s)) pos ne = Some pa"
    by auto
  from ensemble_pass_succeeds [OF Cons.prems(1,2) l pa] obtain s1 where
    1: "ensemble_pass env g qa pos ne d s = (Return pa, s1)" by blast
  from ensemble_pass_Return [OF 1] have F1: "FLAGS s1 = FLAGS s" by auto
  from Cons.IH [of s1 "acc @ [pa]"] Cons.prems F1 obtain pas s' where
    "ensemble_passes env g qa pos ne dirs (acc @ [pa]) s1 = (Return pas, s')"
    by auto
  with 1 show ?case by (auto simp: bind_m_def)
qed

lemma ensemble_branch_succeeds:
  assumes b: "get_json_data env (json_in_path (FLAGS s)) = Some b"
    and bt: "succeeds env (batcher_event (FLAGS s))"
    and each: "\<forall>d\<in>set (checkpoint_dirs (FLAGS s)). loadable env (FLAGS s) d
           \<and> generate_partial_answers env (resident env (FLAGS s) d) qa (word2id g) b
                (the_batcher (FLAGS s)) pos ne \<noteq> None"
    and agg: "\<And>pas. length pas = length (checkpoint_dirs (FLAGS s)) \<Longrightarrow>
           (\<forall>i<length (checkpoint_dirs (FLAGS s)).
              generate_partial_answers env (resident env (FLAGS s) (checkpoint_dirs (FLAGS s) ! i))
                qa (word2id g) b (the_batcher (FLAGS s)) pos ne = Some (pas ! i)) \<Longrightarrow>
           \<exists>d. generate_ensemble_answers env qa (word2id g) b (the_batcher (FLAGS s)) pos ne pas
                 = Some d \<and> succeeds env (output_event (FLAGS s) d)"
  shows "\<exists>s'. ensemble_branch env g qa pos ne s = (Return (), s')"
proof -
  let ?dirs = "checkpoint_dirs (FLAGS s)"
  from ensemble_passes_succeeds [OF b bt each, of "[]"] obtain pas s1 where
    1: "ensemble_passes env g qa pos ne ?dirs [] s = (Return pas, s1)" by blast
  note inv = ensemble_passes_Return [OF 1]
  from inv have F1: "FLAGS s1 = FLAGS s" and len: "length pas = length ?dirs" by auto
  have "\<forall>i<length ?dirs.
          generate_partial_answers env (resident env (FLAGS s) (?dirs ! i))
            qa (word2id g) b (the_batcher (FLAGS s)) pos ne = Some (pas ! i)"
  proof (intro allI impI)
    fix i assume i: "i < length ?dirs"
    with inv b obtain p where "checkpoint_at env (?dirs ! i) p"
      "generate_partial_answers env (restored (FLAGS s) p) qa (word2id g) b
         (the_batcher (FLAGS s)) pos ne = Some (pas ! i)"
      by fastforce
    then show "generate_partial_answers env (resident env (FLAGS s) (?dirs ! i))
            qa (word2id g) b (the_batcher (FLAGS s)) pos ne = Some (pas ! i)"
      by (simp add: checkpoint_at_resident)
  qed
  from agg [OF len this] obtain d where
    d: "generate_ensemble_answers env qa (word2id g) b (the_batcher (FLAGS s)) pos ne pas = Some d"
    and w: "succeeds env (output_event (FLAGS s) d)"
    by blast
  let ?s2 = "s1\<lparr>trace := trace s1 @ [Get_json_data (json_in_path (FLAGS s))]\<rparr>"
  let ?s3 = "?s2\<lparr>trace := trace ?s2 @ [batcher_event (FLAGS s)]\<rparr>"
  let ?s4 = "?s3\<lparr>trace := trace ?s3 @ [Generate_ensemble_answers b pas]\<rparr>"
  have 2: "read_input env s1 = (Return b, ?s2)"
    using b F1 by (simp add: read_input_Return)
  have 3: "make_batcher env ?s2 = (Return (the_batcher (FLAGS s)), ?s3)"
    using bt F1 make_batcher_run [of env ?s2] by simp
  from write_predictions_succeeds [of env ?s4 d] w F1 obtain s' where
    5: "write_predictions env d ?s4 = (Return (), s')" by auto
  have "ensemble_branch env g qa pos ne s = (Return (), s')"
    using 1 2 3 d 5
    by (simp add: ensemble_branch_def bind_m_def get_FLAGS_def ext_def then_m_def log_def
          return_def)
  then show ?thesis by blast
qed

lemma main_ensemble_succeeds:
  assumes "length argv = 1" "python_major env = 3"
    and "mode F = ''official_eval''" "single_ensemble F = ''ensemble''"
    and "json_in_path F \<noteq> []" "ckpt_load_dir F \<noteq> []"
    and "get_glove env (glove_path (final_flags env F)) (embedding_size F) = Some g"
    and "new_QAModel env (final_flags env F) g = Some qa"
    and "readlines env (tag_file F) = Some ls"
    and "succeeds env (batcher_event F)"
    and "get_json_data env (json_in_path F) = Some b"
    and "\<forall>d\<in>set (checkpoint_dirs F). loadable env F d
           \<and> generate_partial_answers env (resident env F d) qa (word2id g) b
                (the_batcher F) (pos_tag_table ls) ne_tag_table \<noteq> None"
    and "\<And>pas. length pas = length (checkpoint_dirs F) \<Longrightarrow>
           (\<forall>i<length (checkpoint_dirs F).
              generate_partial_answers env (resident env F (checkpoint_dirs F ! i))
                qa (word2id g) b (the_batcher F) (pos_tag_table ls) ne_tag_table
                  = Some (pas ! i)) \<Longrightarrow>
           \<exists>d. generate_ensemble_answers env qa (word2id g) b (the_batcher F)
                  (pos_tag_table ls) ne_tag_table pas = Some d
                \<and> succeeds env (output_event F d)"
  shows "\<exists>s'. main env argv (start F) = (Return (), s')"
proof -
  have nm: "\<not> missing_name F" using assms(3) by (simp add: missing_name_def)
  let ?s0 = "model_built env F"
  let ?s1 = "?s0\<lparr>trace := trace ?s0 @ [Readlines (tag_file F)]\<rparr>"
  have "main env argv (start F) = official_eval_mode env g qa ?s0"
    using assms(3)
    by (simp add: main_after_model [OF assms(1,2) nm assms(7,8)] dispatch_mode_official_eval)
  also have "\<dots> = ensemble_branch env g qa (pos_tag_table ls) ne_tag_table ?s1"
    using assms(4,5,6,9)
    by (simp add: official_eval_mode_run [where ls = ls])
  finally have m: "main env argv (start F)
      = ensemble_branch env g qa (pos_tag_table ls) ne_tag_table ?s1" .
  have "\<exists>s'. ensemble_branch env g qa (pos_tag_table ls) ne_tag_table ?s1 = (Return (), s')"
  proof (rule ensemble_branch_succeeds [where b = b])
    show "get_json_data env (json_in_path (FLAGS ?s1)) = Some b" using assms(11) by simp
    show "succeeds env (batcher_event (FLAGS ?s1))" using assms(10) by simp
    show "\<forall>d\<in>set (checkpoint_dirs (FLAGS ?s1)). loadable env (FLAGS ?s1) d
           \<and> generate_partial_answers env (resident env (FLAGS ?s1) d) qa (word2id g) b
                (the_batcher (FLAGS ?s1)) (pos_tag_table ls) ne_tag_table \<noteq> None"
      using assms(12) by simp
    fix pas
    assume "length pas = length (checkpoint_dirs (FLAGS ?s1))"
      "\<forall>i<length (checkpoint_dirs (FLAGS ?s1)).
              generate_partial_answers env
                (resident env (FLAGS ?s1) (checkpoint_dirs (FLAGS ?s1) ! i))
                qa (word2id g) b (the_batcher (FLAGS ?s1)) (pos_tag_table ls) ne_tag_table
                  = Some (pas ! i)"
    then show "\<exists>d. generate_ensemble_answers env qa (word2id g) b (the_batcher (FLAGS ?s1))
                  (pos_tag_table ls) ne_tag_table pas = Some d
                \<and> succeeds env (output_event (FLAGS ?s1) d)"
      using assms(13) [of pas] by simp
  qed
  with m show ?thesis by simp
qed

lemma checkpoint_dirs_explicit:
  "checkpoint_dirs F =
     [os_path_join (ckpt_load_dir F) ''ema_best_checkpoint_1'',
      os_path_join (ckpt_load_dir F) ''ema_best_checkpoint_2'',
      os_path_join (ckpt_load_dir F) ''ema_best_checkpoint_3'',
      os_path_join (ckpt_load_dir F) ''ema_best_checkpoint_4'',
      os_path_join (ckpt_load_dir F) ''ema_best_checkpoint_5'',
      os_path_join (ckpt_load_dir F) ''ema_best_checkpoint_6'',
      os_path_join (ckpt_load_dir F) ''ema_best_checkpoint_7'']"
proof -
  have "[1..<num_base_models + 1] = [1, 2, 3, 4, 5, 6, 7]"
    by (simp add: num_base_models_def upt_rec)
  moreover have "str_nat 1 = ''1''" "str_nat 2 = ''2''" "str_nat 3 = ''3''" "str_nat 4 = ''4''"
    "str_nat 5 = ''5''" "str_nat 6 = ''6''" "str_nat 7 = ''7''"
    by (simp_all add: str_nat.simps digit_def)
  ultimately show ?thesis by (simp add: checkpoint_dirs_def)
qed

lemma keys_fold_update:
  "fst ` set (fold (\<lambda>x d. AList.update (k x) (v x) d) xs d0) = fst ` set d0 \<union> k ` set xs"
  by (induction xs arbitrary: d0) (auto simp: dom_update)

lemma distinct_fold_update:
  "distinct (map fst d0) \<Longrightarrow>
     distinct (map fst (fold (\<lambda>x d. AList.update (k x) (v x) d) xs d0))"
  by (induction xs arbitrary: d0) (auto simp: distinct_update)

lemma examples_keys: "parallel b \<Longrightarrow> fst ` set (examples b) = set (fst b)"
  by (simp add: examples_def parallel_def map_fst_zip flip: set_map)

lemma spec_partial_answers_keys:
  "parallel b \<Longrightarrow> fst ` set (spec_generate_partial_answers extract w b) = set (fst b)"
  by (simp add: spec_generate_partial_answers_def keys_fold_update examples_keys)

lemma spec_partial_answers_distinct:
  "distinct (map fst (spec_generate_partial_answers extract w b))"
  by (simp add: spec_generate_partial_answers_def distinct_fold_update)

lemma covers_iff: "covers rs us \<longleftrightarrow> set us \<subseteq> fst ` set rs"
  by (auto simp: covers_def list_all_iff map_of_eq_None_iff)

lemma spec_partial_answers_covers:
  "parallel b \<Longrightarrow> covers (spec_generate_partial_answers extract w b) (fst b)"
  by (simp add: covers_iff spec_partial_answers_keys)

lemma spec_generate_answers_for:
  "parallel b \<Longrightarrow> answers_for b (spec_generate_answers extract w b)"
  using spec_partial_answers_keys [of b _ w]
  by (simp add: answers_for_def spec_generate_answers_def comp_def
        spec_partial_answers_distinct flip: set_map)

lemma spec_ensemble_answers_for:
  assumes "spec_generate_ensemble_answers b pas = Some d"
  shows "answers_for b d"
proof -
  let ?v = "\<lambda>u. majority_answer (candidates pas u)"
  from assms have d: "d = fold (\<lambda>u d. AList.update u (?v u) d) (fst b) []"
    by (simp add: spec_generate_ensemble_answers_def split: if_splits)
  have "fst ` set d = set (fst b)"
    unfolding d using keys_fold_update [of "\<lambda>u. u" ?v "fst b" "[]"] by simp
  moreover have "distinct (map fst d)"
    unfolding d using distinct_fold_update [of "[]" "\<lambda>u. u" ?v "fst b"] by simp
  ultimately show ?thesis by (simp add: answers_for_def)
qed

lemma spec_ensemble_answers_total:
  "pas \<noteq> [] \<Longrightarrow> list_all (\<lambda>rs. covers rs (fst b)) pas \<Longrightarrow>
     \<exists>d. spec_generate_ensemble_answers b pas = Some d"
  by (simp add: spec_generate_ensemble_answers_def)

lemma is_output_simps [simp]:
  "is_output (Write_file a c u)" "\<not> is_output (Get_json_data a)"
  "\<not> is_output (Initialize_model a b)" "\<not> is_output (Generate_partial_answers w bb)"
  "\<not> is_output (Generate_ensemble_answers bb ps)" "\<not> is_output (Generate_answers w bb)"
  by (simp_all add: is_output_def)

lemma is_output_is_call: "is_output e \<Longrightarrow> is_call e"
  by (cases e) (simp_all add: is_output_def)

lemma filter_output_calls: "filter is_output (calls tr) = filter is_output tr"
  by (induction tr) (auto simp: is_output_is_call)

lemma filter_output_passes:
  "filter is_output (concat (map (\<lambda>dir. [Get_json_data j, Initialize_model dir True,
       Generate_partial_answers (w dir) b]) dirs)) = []"
  by (induction dirs) simp_all

lemma demo_parallel: "parallel demo_batch"
  by (simp add: parallel_def demo_batch_def)

lemma demo_dirs:
  "checkpoint_dirs demo_flags =
     [''ck/ema_best_checkpoint_1'', ''ck/ema_best_checkpoint_2'', ''ck/ema_best_checkpoint_3'',
      ''ck/ema_best_checkpoint_4'', ''ck/ema_best_checkpoint_5'', ''ck/ema_best_checkpoint_6'',
      ''ck/ema_best_checkpoint_7'']"
  by (simp add: checkpoint_dirs_explicit demo_flags_def os_path_join_def)

lemma demo_ensemble_runs: "\<exists>s'. main demo_env [''main.py''] (start demo_flags) = (Return (), s')"
proof (rule main_ensemble_succeeds [where b = demo_batch])
  show "length [''main.py''] = 1" by simp
  show "python_major demo_env = 3" by (simp add: demo_env_def)
  show "mode demo_flags = ''official_eval''" by (simp add: demo_flags_def)
  show "single_ensemble demo_flags = ''ensemble''" by (simp add: demo_flags_def)
  show "json_in_path demo_flags \<noteq> []" by (simp add: demo_flags_def)
  show "ckpt_load_dir demo_flags \<noteq> []" by (simp add: demo_flags_def)
  show "get_glove demo_env (glove_path (final_flags demo_env demo_flags))
          (embedding_size demo_flags) = Some (Glove [] [] [])"
    by (simp add: demo_env_def)
  show "new_QAModel demo_env (final_flags demo_env demo_flags) (Glove [] [] [])
          = Some (QAModel [3, 4])"
    by (simp add: demo_env_def)
  show "readlines demo_env (tag_file demo_flags) = Some [''NN'' @ [CHR 0x0A], ''VB'' @ [CHR 0x0A]]"
    by (simp add: demo_env_def)
  show "succeeds demo_env (batcher_event demo_flags)" by (simp add: demo_env_def)
  show "get_json_data demo_env (json_in_path demo_flags) = Some demo_batch"
    by (simp add: demo_env_def)
  show "\<forall>d\<in>set (checkpoint_dirs demo_flags). loadable demo_env demo_flags d
           \<and> generate_partial_answers demo_env (resident demo_env demo_flags d) (QAModel [3, 4])
                (word2id (Glove [] [] [])) demo_batch (the_batcher demo_flags)
                (pos_tag_table [''NN'' @ [CHR 0x0A], ''VB'' @ [CHR 0x0A]]) ne_tag_table \<noteq> None"
    by (simp add: demo_dirs loadable_def demo_env_def)
next
  fix pas
  assume len: "length pas = length (checkpoint_dirs demo_flags)"
    and each: "\<forall>i<length (checkpoint_dirs demo_flags).
              generate_partial_answers demo_env
                (resident demo_env demo_flags (checkpoint_dirs demo_flags ! i))
                (QAModel [3, 4]) (word2id (Glove [] [] [])) demo_batch (the_batcher demo_flags)
                (pos_tag_table [''NN'' @ [CHR 0x0A], ''VB'' @ [CHR 0x0A]]) ne_tag_table
                  = Some (pas ! i)"
  from len have ne: "pas \<noteq> []" by (auto simp: demo_dirs)
  have "\<forall>i<length pas. covers (pas ! i) (fst demo_batch)"
  proof (intro allI impI)
    fix i assume "i < length pas"
    with each len have "pas ! i = spec_generate_partial_answers demo_extract
        (resident demo_env demo_flags (checkpoint_dirs demo_flags ! i)) demo_batch"
      by (simp add: demo_env_def)
    then show "covers (pas ! i) (fst demo_batch)"
      by (simp add: spec_partial_answers_covers demo_parallel)
  qed
  then have "list_all (\<lambda>rs. covers rs (fst demo_batch)) pas"
    by (simp add: list_all_length)
  from spec_ensemble_answers_total [OF ne this] obtain d where
    "spec_generate_ensemble_answers demo_batch pas = Some d" by blast
  then show "\<exists>d. generate_ensemble_answers demo_env (QAModel [3, 4]) (word2id (Glove [] [] []))
              demo_batch (the_batcher demo_flags)
              (pos_tag_table [''NN'' @ [CHR 0x0A], ''VB'' @ [CHR 0x0A]]) ne_tag_table pas = Some d
            \<and> succeeds demo_env (output_event demo_flags d)"
    by (simp add: demo_env_def)
qed

lemma stepsD:
  "steps F P f \<Longrightarrow> FLAGS s = F \<Longrightarrow>
     FLAGS (snd (f s)) = F \<and> (\<exists>new. trace (snd (f s)) = trace s @ new \<and> list_all P new)"
  by (simp add: steps_def)

lemma steps_mono: "steps F P f \<Longrightarrow> (\<And>e. P e \<Longrightarrow> Q e) \<Longrightarrow> steps F Q f"
  unfolding steps_def by (metis (mono_tags, lifting) list_all_iff)

lemma eval_event_consistent: "eval_event b e \<Longrightarrow> consistent b e"
  by (cases e) (simp_all add: eval_event_def consistent_def)

lemma eval_event_simps [simp]:
  "eval_event b (Print x)" "eval_event b Session_enter" "eval_event b Session_exit"
  "eval_event b (Initialize_model a c)" "eval_event b (Get_checkpoint_state a)"
  "eval_event b (Gfile_exists a)" "eval_event b Init_variables" "eval_event b (Get_json_data a)"
  "eval_event b (New_Batcher a i)" "eval_event b (Generate_partial_answers w bb)"
  "eval_event b (Generate_ensemble_answers bb ps)" "eval_event b (Generate_answers w bb)"
  "eval_event b (Write_file a c' u)"
  "eval_event b (Restore_ema a) = b" "eval_event b (Restore_raw a) = (\<not> b)"
  by (simp_all add: eval_event_def)

lemma consistent_simps [simp]:
  "consistent b (Print x)" "consistent b (Get_glove a i)" "consistent b New_QAModel"
  "consistent b (Path_exists a)" "consistent b (Makedirs a)" "consistent b (Log_file a)"
  "consistent b (Dump_flags a)" "consistent b Session_enter" "consistent b Session_exit"
  "consistent b Train" "consistent b Check_f1_em" "consistent b (Readlines a)"
  by (simp_all add: consistent_def)

lemma steps_restore_eval:
  "steps F (eval_event (load_ema_checkpoint F)) (restore_checkpoint env p)"
  by (auto simp: restore_checkpoint_def intro!: steps_intros)

lemma steps_initialize_model_eval:
  "steps F (eval_event (load_ema_checkpoint F)) (initialize_model env model dir b)"
  unfolding initialize_model_def
  by (auto intro!: steps_intros steps_checkpoint_found steps_restore_eval split: option.splits)

lemma steps_read_input: "steps F (eval_event b) (read_input env)"
  by (auto simp: read_input_def intro!: steps_intros)

lemma steps_make_batcher: "steps F (eval_event b) (make_batcher env)"
  by (auto simp: make_batcher_def intro!: steps_intros)

lemma steps_write_predictions: "steps F (eval_event b) (write_predictions env d)"
  by (auto simp: write_predictions_def intro!: steps_intros)

lemma steps_ensemble_pass:
  "steps F (eval_event (load_ema_checkpoint F)) (ensemble_pass env g qa pos ne dir)"
  by (auto simp: ensemble_pass_def
        intro!: steps_intros steps_read_input steps_make_batcher steps_initialize_model_eval)

lemma steps_ensemble_passes:
  "steps F (eval_event (load_ema_checkpoint F)) (ensemble_passes env g qa pos ne dirs acc)"
  by (induction dirs arbitrary: acc) (auto intro!: steps_intros steps_ensemble_pass)

lemma steps_ensemble_branch:
  "steps F (eval_event (load_ema_checkpoint F)) (ensemble_branch env g qa pos ne)"
  by (auto simp: ensemble_branch_def
        intro!: steps_intros steps_read_input steps_make_batcher steps_ensemble_passes
          steps_write_predictions)

lemma steps_single_branch:
  "steps F (eval_event (load_ema_checkpoint F)) (single_branch env g qa pos ne)"
  by (auto simp: single_branch_def
        intro!: steps_intros steps_read_input steps_make_batcher steps_initialize_model_eval
          steps_write_predictions)

lemma steps_official_eval_mode:
  "steps F (consistent (load_ema_checkpoint F)) (official_eval_mode env g qa)"
  by (auto simp: official_eval_mode_def build_tag_tables_def
        intro!: steps_intros steps_mono [OF steps_ensemble_branch eval_event_consistent]
          steps_mono [OF steps_single_branch eval_event_consistent])

lemma steps_ensure_dir: "steps F (consistent b) (ensure_dir env d)"
  by (auto simp: ensure_dir_def intro!: steps_intros)

lemma steps_train_call: "steps F (consistent b) (train_call env)"
  by (auto simp: steps_def train_call_def then_m_def bind_m_def log_def split: call_outcome.splits)

lemma steps_train_mode:
  "steps F (consistent (load_ema_checkpoint F)) (train_mode env qa bd ebd)"
  by (auto simp: train_mode_def
        intro!: steps_intros steps_ensure_dir steps_train_call
          steps_mono [OF steps_initialize_model_eval eval_event_consistent])

lemma steps_show_examples_mode:
  "steps F (consistent (load_ema_checkpoint F)) (show_examples_mode env qa bd ebd)"
  by (auto simp: show_examples_mode_def
        intro!: steps_intros steps_mono [OF steps_initialize_model_eval eval_event_consistent])

lemma steps_dispatch_mode:
  "steps F (consistent (load_ema_checkpoint F)) (dispatch_mode env g qa bd ebd)"
  by (auto simp: dispatch_mode_def
        intro!: steps_intros steps_train_mode steps_show_examples_mode steps_official_eval_mode)

lemma steps_load_embeddings_and_model:
  "steps F (consistent b) (load_embeddings_and_model env)"
  by (auto simp: load_embeddings_and_model_def intro!: steps_intros)

lemma main_cases:
  "main env argv (start F) =
     (if length argv \<noteq> 1 then
        (Raise (Exception (''There is a problem with how you entered flags: ''
                 @ str_of_argv env argv)), start F)
      else if python_major env \<noteq> 3 then
        (Raise (Exception (''ERROR: You must use Python 3 but you are running Python ''
                 @ str_nat (python_major env))), start F)
      else if missing_name F then
        (Raise (Exception ''You need to specify either --experiment_name or --train_dir''),
         \<lparr>FLAGS = F, trace = [banner env], session = None\<rparr>)
      else
        bind_m (load_embeddings_and_model env) (\<lambda>gq.
             dispatch_mode env (fst gq) (snd gq)
               (os_path_join (train_dir (with_train_dir env F)) ''best_checkpoint'')
               (os_path_join (train_dir (with_train_dir env F)) ''ema_best_checkpoint''))
          (flags_state env F))"
proof -
  have "length argv = 1 \<Longrightarrow> python_major env = 3 \<Longrightarrow> missing_name F \<Longrightarrow>
      main env argv (start F) =
        (Raise (Exception ''You need to specify either --experiment_name or --train_dir''),
         \<lparr>FLAGS = F, trace = [banner env], session = None\<rparr>)"
    by (simp add: main_def start_def define_train_dir_run banner_def then_m_def bind_m_def
          log_def)
  then show ?thesis
    using main_after_flags [of argv env F]
    by (auto simp: flags_state_def) (simp_all add: main_def raise_def)
qed

lemma main_trace_consistent:
  "list_all (consistent (load_ema_checkpoint F)) (trace (snd (main env argv (start F))))"
proof -
  let ?rest = "bind_m (load_embeddings_and_model env) (\<lambda>gq.
             dispatch_mode env (fst gq) (snd gq)
               (os_path_join (train_dir (with_train_dir env F)) ''best_checkpoint'')
               (os_path_join (train_dir (with_train_dir env F)) ''ema_best_checkpoint''))"
  have "steps (final_flags env F) (consistent (load_ema_checkpoint (final_flags env F))) ?rest"
    by (intro steps_bind steps_load_embeddings_and_model steps_dispatch_mode)
  from stepsD [OF this, of "flags_state env F"] obtain new where
    "trace (snd (?rest (flags_state env F))) = trace (flags_state env F) @ new"
    "list_all (consistent (load_ema_checkpoint F)) new"
    by (auto simp: flags_state_def)
  then have "list_all (consistent (load_ema_checkpoint F)) (trace (snd (?rest (flags_state env F))))"
    by (simp add: flags_state_def banner_def)
  moreover have "trace (start F) = []" by (simp add: start_def)
  ultimately show ?thesis
    by (simp add: main_cases banner_def)
qed

lemma main_final_flags:
  assumes "length argv = 1" "python_major env = 3" "\<not> missing_name F"
  shows "FLAGS (snd (main env argv (start F))) = final_flags env F"
proof -
  let ?rest = "bind_m (load_embeddings_and_model env) (\<lambda>gq.
             dispatch_mode env (fst gq) (snd gq)
               (os_path_join (train_dir (with_train_dir env F)) ''best_checkpoint'')
               (os_path_join (train_dir (with_train_dir env F)) ''ema_best_checkpoint''))"
  have "steps (final_flags env F) (consistent (load_ema_checkpoint (final_flags env F))) ?rest"
    by (intro steps_bind steps_load_embeddings_and_model steps_dispatch_mode)
  from stepsD [OF this, of "flags_state env F"]
  have "FLAGS (snd (?rest (flags_state env F))) = final_flags env F"
    by (simp add: flags_state_def)
  with assms show ?thesis by (simp add: main_cases)
qed

lemma official_eval_mode_missing_path:
  assumes "json_in_path (FLAGS s) = [] \<or> ckpt_load_dir (FLAGS s) = []"
  shows "official_eval_mode env g qa s =
     (Raise (Exception
        (if json_in_path (FLAGS s) = []
         then ''For official_eval mode, you need to specify --json_in_path''
         else ''For official_eval mode, you need to specify --ckpt_load_dir'')), s)"
  using assms by (auto simp: official_eval_mode_def bind_m_def get_FLAGS_def raise_def)

lemma official_eval_not_missing_name: "mode F = ''official_eval'' \<Longrightarrow> \<not> missing_name F"
  by (simp add: missing_name_def)

lemma rest_of_main_run:
  "bind_m (load_embeddings_and_model env) k (flags_state env F) =
     (case get_glove env (glove_path (final_flags env F)) (embedding_size F) of
        None \<Rightarrow> (Raise Collaborator_failure,
                  \<lparr>FLAGS = final_flags env F,
                   trace = [banner env,
                     Get_glove (glove_path (final_flags env F)) (embedding_size F)],
                   session = None\<rparr>)
      | Some g \<Rightarrow>
         (case new_QAModel env (final_flags env F) g of
            None \<Rightarrow> (Raise Collaborator_failure, model_built env F)
          | Some qa \<Rightarrow> k (g, qa) (model_built env F)))"
  by (simp add: bind_m_def flags_state_def model_built_def
        load_embeddings_and_model_run [where F' = "final_flags env F"] split: option.splits)

lemma is_load_simps [simp]:
  "is_load (Initialize_model a b)" "\<not> is_load (Print x)" "\<not> is_load (Get_checkpoint_state a)"
  "\<not> is_load (Gfile_exists a)" "\<not> is_load (Restore_ema a)" "\<not> is_load (Restore_raw a)"
  "\<not> is_load Init_variables" "\<not> is_load Session_enter" "\<not> is_load Session_exit"
  "\<not> is_load Check_f1_em" "\<not> is_load (Get_glove a i)" "\<not> is_load New_QAModel"
  by (simp_all add: is_load_def)

lemma initialize_model_found:
  assumes "checkpoint_at env dir p"
  shows "initialize_model env model dir b s =
     (if succeeds env (restore_event (FLAGS s) p) then Return () else Raise Collaborator_failure,
      s\<lparr>trace := trace s
            @ [Initialize_model dir b, Print (''Looking for model at '' @ dir @ ''...''),
               Get_checkpoint_state dir]
            @ found_probes env p
            @ [Print (''Reading model parameters from '' @ p), restore_event (FLAGS s) p],
        session := (if succeeds env (restore_event (FLAGS s) p)
                    then Some (restored (FLAGS s) p) else session s)\<rparr>)"
  using assms
  by (auto simp: checkpoint_at_def initialize_model_def checkpoint_found_def
        restore_checkpoint_def found_probes_def restore_event_def restored_def prims)

lemma initialize_model_loads:
  "filter is_load (trace (snd (initialize_model env model dir b s)))
     = filter is_load (trace s) @ [Initialize_model dir b]"
  by (auto simp: initialize_model_def checkpoint_found_def restore_checkpoint_def prims
        split: option.splits)

lemma show_examples_mode_loads:
  "filter is_load (trace (snd (show_examples_mode env qa bd ebd s)))
     = filter is_load (trace s)
       @ [Initialize_model (if load_ema_checkpoint (FLAGS s) then ebd else bd) True]"
proof -
  let ?s1 = "s\<lparr>trace := trace s @ [Session_enter], session := Some Uninitialized\<rparr>"
  let ?dir = "if load_ema_checkpoint (FLAGS s) then ebd else bd"
  obtain r s2 where i: "initialize_model env qa ?dir True ?s1 = (r, s2)"
    by (cases "initialize_model env qa ?dir True ?s1")
  from initialize_model_loads [of env qa ?dir True ?s1] i
  have l: "filter is_load (trace s2) = filter is_load (trace s) @ [Initialize_model ?dir True]"
    by simp
  show ?thesis
    using i l
    by (cases r)
      (auto simp: show_examples_mode_def with_session_def bind_m_def then_m_def get_FLAGS_def
        effect_def ext_def log_def return_def raise_def)
qed

lemma start_simps [simp]:
  "trace (start F) = []" "FLAGS (start F) = F" "session (start F) = None"
  by (simp_all add: start_def)

lemma is_print_simps [simp]: "is_print (Print x)"
  by (simp add: is_print_def)

lemma EXPERIMENTS_DIR_shape:
  "EXPERIMENTS_DIR env \<noteq> [] \<and> last (EXPERIMENTS_DIR env) = CHR ''s''"
  by (simp add: EXPERIMENTS_DIR_def os_path_join_def)

lemma join_EXPERIMENTS_DIR:
  "n = [] \<or> hd n \<noteq> CHR ''/'' \<Longrightarrow>
     os_path_join (EXPERIMENTS_DIR env) n = EXPERIMENTS_DIR env @ ''/'' @ n"
  using EXPERIMENTS_DIR_shape [of env] by (auto simp: os_path_join_def)

lemma official_eval_mode_unknown_sub_mode:
  assumes "json_in_path (FLAGS s) \<noteq> []" "ckpt_load_dir (FLAGS s) \<noteq> []"
    and "single_ensemble (FLAGS s) \<noteq> ''ensemble''" "single_ensemble (FLAGS s) \<noteq> ''single''"
  shows "official_eval_mode env g qa s =
     (case readlines env (tag_file (FLAGS s)) of
        None \<Rightarrow> Raise Collaborator_failure
      | Some ls \<Rightarrow> Raise AssertionError,
      s\<lparr>trace := trace s @ [Readlines (tag_file (FLAGS s))]\<rparr>)"
  using assms
  by (simp add: official_eval_mode_def build_tag_tables_def single_branch_def tag_file_def prims
        split: option.splits)

lemma index_table_Suc:
  "index_table f (Suc n) = AList.update (f n) (n + 1) (index_table f n)"
  by (simp add: index_table_def)

lemma map_of_index_table_Suc:
  "map_of (index_table f (Suc n)) = (map_of (index_table f n))(f n \<mapsto> n + 1)"
  by (simp add: index_table_Suc update_conv')

lemma index_table_last_wins:
  "i < n \<Longrightarrow> (\<forall>j. i < j \<and> j < n \<longrightarrow> f j \<noteq> f i) \<Longrightarrow>
     map_of (index_table f n) (f i) = Some (i + 1)"
proof (induction n)
  case 0
  then show ?case by simp
next
  case (Suc n)
  show ?case
  proof (cases "i = n")
    case True
    then show ?thesis by (simp add: map_of_index_table_Suc)
  next
    case False
    with Suc.prems have "i < n" "f n \<noteq> f i" by auto
    moreover from Suc.prems have "\<forall>j. i < j \<and> j < n \<longrightarrow> f j \<noteq> f i" by auto
    ultimately show ?thesis
      using Suc.IH by (simp add: map_of_index_table_Suc)
  qed
qed

lemma index_table_keys: "fst ` set (index_table f n) = f ` {..<n}"
  by (induction n) (auto simp: index_table_Suc dom_update index_table_def lessThan_Suc)

lemma pos_tag_table_index:
  "pos_tag_table ls = index_table (\<lambda>i. butlast (ls ! i)) (length ls)"
  by (simp add: pos_tag_table_def index_table_def)

lemma ne_tag_table_index:
  "ne_tag_table = index_table (\<lambda>i. all_NE_tag ! i) (length all_NE_tag)"
  by (simp add: ne_tag_table_def index_table_def)

lemma pos_tag_table_last_wins:
  "i < length ls \<Longrightarrow>
     (\<forall>j. i < j \<and> j < length ls \<longrightarrow> butlast (ls ! j) \<noteq> butlast (ls ! i)) \<Longrightarrow>
     map_of (pos_tag_table ls) (butlast (ls ! i)) = Some (i + 1)"
  unfolding pos_tag_table_index
  by (rule index_table_last_wins [where f = "\<lambda>i. butlast (ls ! i)"]) 

lemma pos_tag_table_keys: "fst ` set (pos_tag_table ls) = butlast ` set ls"
proof -
  have "(\<lambda>i. butlast (ls ! i)) ` {..<length ls} = butlast ` set ls"
    by (force simp: in_set_conv_nth image_iff)
  then show ?thesis by (simp add: pos_tag_table_index index_table_keys)
qed

lemma pos_tag_table_distinct:
  assumes "distinct (map butlast ls)" "i < length ls"
  shows "map_of (pos_tag_table ls) (butlast (ls ! i)) = Some (i + 1)"
proof (rule pos_tag_table_last_wins [OF assms(2)], intro allI impI)
  fix j assume j: "i < j \<and> j < length ls"
  with assms have "map butlast ls ! j \<noteq> map butlast ls ! i"
    by (metis distinct_conv_nth length_map less_imp_neq)
  with j assms(2) show "butlast (ls ! j) \<noteq> butlast (ls ! i)" by simp
qed

lemma length_all_NE_tag: "length all_NE_tag = 13"
  by (simp add: all_NE_tag_def)

lemma distinct_all_NE_tag: "distinct all_NE_tag"
  by (simp add: all_NE_tag_def)

lemma ne_tag_table_ids:
  assumes "i < 13"
  shows "map_of ne_tag_table (all_NE_tag ! i) = Some (i + 1)"
  unfolding ne_tag_table_index
proof (rule index_table_last_wins [where f = "\<lambda>i. all_NE_tag ! i"])
  show "i < length all_NE_tag" using assms by (simp add: length_all_NE_tag)
  show "\<forall>j. i < j \<and> j < length all_NE_tag \<longrightarrow> all_NE_tag ! j \<noteq> all_NE_tag ! i"
    using distinct_all_NE_tag assms
    by (metis distinct_conv_nth length_all_NE_tag less_imp_neq)
qed

lemma ne_tag_table_explicit:
  "ne_tag_table =
     [(''B-FACILITY'', 1), (''B-GPE'', 2), (''B-GSP'', 3), (''B-LOCATION'', 4),
      (''B-ORGANIZATION'', 5), (''B-PERSON'', 6), (''I-FACILITY'', 7), (''I-GPE'', 8),
      (''I-GSP'', 9), (''I-LOCATION'', 10), (''I-ORGANIZATION'', 11), (''I-PERSON'', 12),
      (''O'', 13)]"
  by code_simp

lemma eval_event_no_tag_read: "list_all (eval_event b) new \<Longrightarrow> filter is_tag_read new = []"
proof (induction new)
  case Nil
  then show ?case by simp
next
  case (Cons e new)
  then show ?case by (cases e) (simp_all add: eval_event_def is_tag_read_def)
qed

lemma FLAGS_tables_built [simp]: "FLAGS (tables_built env F) = final_flags env F"
  by (simp add: tables_built_def)

lemma trace_tables_built:
  "trace (tables_built env F) =
     [banner env, Get_glove (glove_path (final_flags env F)) (embedding_size F),
      New_QAModel, Readlines (tag_file F)]"
  by (simp add: tables_built_def model_built_def)

lemma main_official_eval_branch:
  assumes "mode F = ''official_eval''" "json_in_path F \<noteq> []" "ckpt_load_dir F \<noteq> []"
    and "length argv = 1" "python_major env = 3"
    and "get_glove env (glove_path (final_flags env F)) (embedding_size F) = Some g"
    and "new_QAModel env (final_flags env F) g = Some qa"
    and "readlines env (tag_file F) = Some ls"
  shows "main env argv (start F) =
           (if single_ensemble F = ''ensemble''
            then ensemble_branch env g qa (pos_tag_table ls) ne_tag_table
            else single_branch env g qa (pos_tag_table ls) ne_tag_table) (tables_built env F)"
proof -
  have nm: "\<not> missing_name F" using assms(1) by (rule official_eval_not_missing_name)
  have "main env argv (start F) = official_eval_mode env g qa (model_built env F)"
    using assms(1)
    by (simp add: main_after_model [OF assms(4,5) nm assms(6,7)] dispatch_mode_official_eval)
  then show ?thesis
    using assms(2,3,8) by (simp add: official_eval_mode_run [where ls = ls] tables_built_def)
qed

lemma non_ascii_append [simp]: "non_ascii (xs @ ys) = non_ascii xs @ non_ascii ys"
  by (simp add: non_ascii_def)

lemma non_ascii_Nil [simp]: "non_ascii [] = []"
  by (simp add: non_ascii_def)

lemma non_ascii_Cons [simp]:
  "non_ascii (c # s) = (if 127 < c then c # non_ascii s else non_ascii s)"
  by (simp add: non_ascii_def)

lemma hex_digit_ascii: "d < 16 \<Longrightarrow> hex_digit d < 128"
  by (simp add: hex_digit_def)

lemma non_ascii_escape: "non_ascii (json_escape_char c) = (if 127 < c then [c] else [])"
proof (cases "c < 32")
  case True
  then have "hex_digit (c div 16) < 128" "hex_digit (c mod 16) < 128"
    by (simp_all add: hex_digit_ascii)
  with True show ?thesis by (simp add: json_escape_char_def)
next
  case False
  then show ?thesis by (simp add: json_escape_char_def)
qed

lemma non_ascii_escaped: "non_ascii (concat (map json_escape_char s)) = non_ascii s"
  by (induction s) (simp_all add: non_ascii_escape)

lemma non_ascii_encode_basestring: "non_ascii (encode_basestring s) = non_ascii s"
  by (simp add: encode_basestring_def non_ascii_escaped)

lemma non_ascii_join_str:
  "non_ascii sep = [] \<Longrightarrow> non_ascii (join_str sep xs) = concat (map non_ascii xs)"
  by (induction sep xs rule: join_str.induct) simp_all

lemma non_ascii_json_item:
  "non_ascii (json_item kv) = non_ascii (fst kv) @ non_ascii (snd kv)"
  by (simp add: json_item_def non_ascii_encode_basestring)

lemma non_ascii_json_dumps:
  "non_ascii (json_dumps d) = concat (map (\<lambda>kv. non_ascii (fst kv) @ non_ascii (snd kv)) d)"
  by (simp add: json_dumps_def non_ascii_join_str comp_def non_ascii_json_item)

lemma plain_char_unescaped: "32 \<le> c \<Longrightarrow> c \<noteq> 34 \<Longrightarrow> c \<noteq> 92 \<Longrightarrow> json_escape_char c = [c]"
  by (simp add: json_escape_char_def)

lemma plain_string_unescaped:
  "\<forall>c\<in>set s. 32 \<le> c \<and> c \<noteq> 34 \<and> c \<noteq> 92 \<Longrightarrow> encode_basestring s = [34] @ s @ [34]"
proof -
  assume a: "\<forall>c\<in>set s. 32 \<le> c \<and> c \<noteq> 34 \<and> c \<noteq> 92"
  then have "concat (map json_escape_char s) = s"
    by (induction s) (simp_all add: plain_char_unescaped)
  then show ?thesis by (simp add: encode_basestring_def)
qed

lemma json_dumps_shape:
  "json_dumps d = [123] @ join_str [44, 32]
       (map (\<lambda>kv. encode_basestring (fst kv) @ [58, 32] @ encode_basestring (snd kv)) d) @ [125]"
  by (simp add: json_dumps_def json_item_def [abs_def])

lemma demo_single_answers:
  "spec_generate_answers demo_extract (EMA_from ''ck/ema_best_checkpoint_1/qa.ckpt'') demo_batch
     = demo_answers"
  by (simp add: spec_generate_answers_def spec_generate_partial_answers_def examples_def
        demo_batch_def demo_extract_def demo_answers_def)

lemma demo_single_text: "json_dumps demo_answers = demo_text"
  by (simp add: json_dumps_def json_item_def encode_basestring_def json_escape_char_def
        demo_answers_def demo_text_def)

lemma is_aggregate_simps [simp]:
  "is_aggregate (Generate_ensemble_answers b pas)" "\<not> is_aggregate (Print x)"
  "\<not> is_aggregate (Get_glove a i)" "\<not> is_aggregate New_QAModel" "\<not> is_aggregate (Readlines a)"
  "\<not> is_aggregate (Get_json_data a)" "\<not> is_aggregate (New_Batcher a i)"
  "\<not> is_aggregate (Write_file a c u)" "\<not> is_aggregate (Initialize_model a bb)"
  "\<not> is_aggregate (Generate_partial_answers w b)" "\<not> is_aggregate Session_enter"
  "\<not> is_aggregate Session_exit" "\<not> is_aggregate (Get_checkpoint_state a)"
  "\<not> is_aggregate (Gfile_exists a)" "\<not> is_aggregate (Restore_ema a)"
  "\<not> is_aggregate (Restore_raw a)" "\<not> is_aggregate Init_variables"
  by (simp_all add: is_aggregate_def)

lemma is_partial_simps [simp]:
  "is_partial (Generate_partial_answers w b)" "\<not> is_partial (Print x)"
  "\<not> is_partial (Get_glove a i)" "\<not> is_partial New_QAModel" "\<not> is_partial (Readlines a)"
  "\<not> is_partial (Get_json_data a)" "\<not> is_partial (New_Batcher a i)"
  "\<not> is_partial (Initialize_model a bb)" "\<not> is_partial (Generate_ensemble_answers b pas)"
  by (simp_all add: is_partial_def)

lemma pass_event_simps [simp]:
  "pass_event b (Print x)" "pass_event b Session_enter" "pass_event b Session_exit"
  "pass_event b (Initialize_model a c)" "pass_event b (Get_checkpoint_state a)"
  "pass_event b (Gfile_exists a)" "pass_event b Init_variables" "pass_event b (Get_json_data a)"
  "pass_event b (New_Batcher a i)" "pass_event b (Generate_partial_answers w bb)"
  "pass_event b (Restore_ema a) = b" "pass_event b (Restore_raw a) = (\<not> b)"
  by (simp_all add: pass_event_def)

lemma pass_events_not_aggregate: "list_all (pass_event b) new \<Longrightarrow> filter is_aggregate new = []"
  by (induction new) (simp_all add: pass_event_def)

lemma steps_restore_pass:
  "steps F (pass_event (load_ema_checkpoint F)) (restore_checkpoint env p)"
  by (auto simp: restore_checkpoint_def intro!: steps_intros)

lemma steps_initialize_model_pass:
  "steps F (pass_event (load_ema_checkpoint F)) (initialize_model env model dir b)"
  unfolding initialize_model_def
  by (auto intro!: steps_intros steps_checkpoint_found steps_restore_pass split: option.splits)

lemma steps_ensemble_pass_pass:
  "steps F (pass_event (load_ema_checkpoint F)) (ensemble_pass env g qa pos ne dir)"
  by (auto simp: ensemble_pass_def read_input_def make_batcher_def
        intro!: steps_intros steps_initialize_model_pass)

lemma steps_ensemble_passes_pass:
  "steps F (pass_event (load_ema_checkpoint F)) (ensemble_passes env g qa pos ne dirs acc)"
  by (induction dirs arbitrary: acc) (auto intro!: steps_intros steps_ensemble_pass_pass)

lemma aggregated_after_none: "filter is_aggregate tr = [] \<Longrightarrow> aggregated_after n tr"
  by (simp add: aggregated_after_def)

lemma takeWhile_not_aggregate:
  "filter is_aggregate pre = [] \<Longrightarrow>
     takeWhile (\<lambda>e. \<not> is_aggregate e) (pre @ Generate_ensemble_answers b pas # post) = pre"
  by (induction pre) (auto split: if_splits)

lemma aggregated_after_one:
  assumes "filter is_aggregate pre = []" "filter is_aggregate post = []"
    and "length (filter is_partial pre) = n" "length pas = n"
  shows "aggregated_after n (pre @ Generate_ensemble_answers b pas # post)"
  using assms
  by (simp add: aggregated_after_def takeWhile_not_aggregate record_sets_def)

lemma filter_partial_calls: "filter is_partial (calls tr) = filter is_partial tr"
  by (induction tr) (auto simp: is_partial_def is_call_def split: event.splits)

lemma length_partial_passes:
  "length (filter is_partial (concat (map (pass_calls env F b) dirs))) = length dirs"
  by (induction dirs) (simp_all add: pass_calls_def)

lemma after_passes_trace:
  "\<exists>post. filter is_aggregate post = [] \<and>
     (trace (snd (bind_m (read_input env) (\<lambda>b.
        bind_m (make_batcher env) (\<lambda>bt.
        bind_m (ext (Generate_ensemble_answers b pas) (agg b bt))
          (write_predictions env))) s))
        = trace s @ post
      \<or> (\<exists>b. trace (snd (bind_m (read_input env) (\<lambda>b.
        bind_m (make_batcher env) (\<lambda>bt.
        bind_m (ext (Generate_ensemble_answers b pas) (agg b bt))
          (write_predictions env))) s))
        = (trace s @ [Get_json_data (json_in_path (FLAGS s)), batcher_event (FLAGS s)])
          @ Generate_ensemble_answers b pas # post))"
proof (cases "get_json_data env (json_in_path (FLAGS s))")
  case None
  then show ?thesis
    by (intro exI [of _ "[Get_json_data (json_in_path (FLAGS s))]"])
      (simp add: read_input_def prims)
next
  case (Some b)
  show ?thesis
  proof (cases "succeeds env (batcher_event (FLAGS s))")
    case False
    with Some show ?thesis
      by (intro exI [of _ "[Get_json_data (json_in_path (FLAGS s)), batcher_event (FLAGS s)]"])
        (simp add: read_input_def make_batcher_def batcher_event_def prims)
  next
    case True
    let ?s3 = "s\<lparr>trace := trace s @ [Get_json_data (json_in_path (FLAGS s)),
                batcher_event (FLAGS s), Generate_ensemble_answers b pas]\<rparr>"
    have run: "bind_m (read_input env) (\<lambda>b.
        bind_m (make_batcher env) (\<lambda>bt.
        bind_m (ext (Generate_ensemble_answers b pas) (agg b bt))
          (write_predictions env))) s
       = (case agg b (the_batcher (FLAGS s)) of
            None \<Rightarrow> (Raise Collaborator_failure, ?s3)
          | Some d \<Rightarrow> write_predictions env d ?s3)"
      using Some True
      by (simp add: read_input_def make_batcher_def batcher_event_def the_batcher_def prims
            split: option.splits)
    show ?thesis
    proof (cases "agg b (the_batcher (FLAGS s))")
      case None
      with run show ?thesis
        by (intro exI [of _ "[]"] conjI disjI2 exI [of _ b]) simp_all
    next
      case (Some d)
      have "steps (FLAGS s) (eval_event True) (write_predictions env d)"
        by (rule steps_write_predictions)
      from stepsD [OF this, of ?s3] obtain new where
        n: "trace (snd (write_predictions env d ?s3)) = trace ?s3 @ new"
        by auto
      have "filter is_aggregate new = []"
        using n
        by (auto simp: write_predictions_def prims split: if_splits)
      with run Some n show ?thesis
        by (intro exI [of _ new] conjI disjI2 exI [of _ b]) simp_all
    qed
  qed
qed

lemma ensemble_branch_aggregated:
  assumes "filter is_aggregate (trace s) = []" "filter is_partial (trace s) = []"
  shows "aggregated_after (length (checkpoint_dirs (FLAGS s)))
           (trace (snd (ensemble_branch env g qa pos ne s)))"
proof -
  let ?dirs = "checkpoint_dirs (FLAGS s)"
  obtain r1 s1 where p: "ensemble_passes env g qa pos ne ?dirs [] s = (r1, s1)"
    by (cases "ensemble_passes env g qa pos ne ?dirs [] s")
  have "steps (FLAGS s) (pass_event (load_ema_checkpoint (FLAGS s)))
          (ensemble_passes env g qa pos ne ?dirs [])"
    by (rule steps_ensemble_passes_pass)
  from stepsD [OF this, of s] p obtain new1 where
    t1: "trace s1 = trace s @ new1" and
    l1: "list_all (pass_event (load_ema_checkpoint (FLAGS s))) new1"
    by auto
  from l1 assms(1) t1 have na1: "filter is_aggregate (trace s1) = []"
    by (simp add: pass_events_not_aggregate)
  show ?thesis
  proof (cases r1)
    case (Return pas)
    let ?agg = "\<lambda>b bt. generate_ensemble_answers env qa (word2id g) b bt pos ne pas"
    let ?rest = "bind_m (read_input env) (\<lambda>b.
        bind_m (make_batcher env) (\<lambda>bt.
        bind_m (ext (Generate_ensemble_answers b pas) (?agg b bt))
          (write_predictions env)))"
    have eb: "ensemble_branch env g qa pos ne s = ?rest s1"
      using p Return by (simp add: ensemble_branch_def bind_m_def get_FLAGS_def)
    note inv = ensemble_passes_Return [OF p [unfolded Return]]
    from inv have len: "length pas = length ?dirs" by auto
    from inv obtain b0 where "get_json_data env (json_in_path (FLAGS s)) = Some b0 \<or> ?dirs = []"
      by (cases "?dirs = []") auto
    with inv have c: "calls (trace s1)
        = calls (trace s) @ concat (map (pass_calls env (FLAGS s) b0) ?dirs)"
      by blast
    have "filter is_partial (trace s1) = filter is_partial (calls (trace s1))"
      by (simp add: filter_partial_calls)
    also have "\<dots> = filter is_partial (trace s)
        @ filter is_partial (concat (map (pass_calls env (FLAGS s) b0) ?dirs))"
      unfolding c by (simp add: filter_partial_calls)
    finally have np: "length (filter is_partial (trace s1)) = length ?dirs"
      using assms(2) by (simp add: length_partial_passes)
    from after_passes_trace [of env pas ?agg s1] obtain post where
      post: "filter is_aggregate post = []" and
      tr: "trace (snd (?rest s1)) = trace s1 @ post
         \<or> (\<exists>b. trace (snd (?rest s1))
               = (trace s1 @ [Get_json_data (json_in_path (FLAGS s1)), batcher_event (FLAGS s1)])
                 @ Generate_ensemble_answers b pas # post)"
      by blast
    from tr show ?thesis
    proof
      assume "trace (snd (?rest s1)) = trace s1 @ post"
      with na1 post show ?thesis
        by (simp add: eb aggregated_after_none)
    next
      assume "\<exists>b. trace (snd (?rest s1))
               = (trace s1 @ [Get_json_data (json_in_path (FLAGS s1)), batcher_event (FLAGS s1)])
                 @ Generate_ensemble_answers b pas # post"
      then obtain b where t: "trace (snd (?rest s1))
               = (trace s1 @ [Get_json_data (json_in_path (FLAGS s1)), batcher_event (FLAGS s1)])
                 @ Generate_ensemble_answers b pas # post"
        by blast
      have "aggregated_after (length ?dirs)
              ((trace s1 @ [Get_json_data (json_in_path (FLAGS s1)), batcher_event (FLAGS s1)])
                 @ Generate_ensemble_answers b pas # post)"
        using na1 post np len
        by (intro aggregated_after_one) (simp_all add: batcher_event_def)
      then show ?thesis by (simp only: eb t)
    qed
  next
    case (Raise e)
    then have "ensemble_branch env g qa pos ne s = (Raise e, s1)"
      using p by (simp add: ensemble_branch_def bind_m_def get_FLAGS_def)
    with na1 show ?thesis by (simp add: aggregated_after_none)
  next
    case Diverge
    then have "ensemble_branch env g qa pos ne s = (Diverge, s1)"
      using p by (simp add: ensemble_branch_def bind_m_def get_FLAGS_def)
    with na1 show ?thesis by (simp add: aggregated_after_none)
  qed
qed

lemma official_eval_mode_unreadable:
  assumes "json_in_path (FLAGS s) \<noteq> []" "ckpt_load_dir (FLAGS s) \<noteq> []"
    and "readlines env (tag_file (FLAGS s)) = None"
  shows "official_eval_mode env g qa s =
           (Raise Collaborator_failure, s\<lparr>trace := trace s @ [Readlines (tag_file (FLAGS s))]\<rparr>)"
  using assms
  by (simp add: official_eval_mode_def build_tag_tables_def tag_file_def prims)

lemma main_ensemble_aggregated:
  assumes "mode F = ''official_eval''" and "single_ensemble F = ''ensemble''"
  shows "aggregated_after 7 (trace (snd (main env argv (start F))))"
proof -
  have nm: "\<not> missing_name F" using assms(1) by (rule official_eval_not_missing_name)
  have len: "length (checkpoint_dirs (final_flags env F)) = 7"
    by (simp add: checkpoint_dirs_explicit)
  have d: "aggregated_after 7 (trace (snd (dispatch_mode env g qa bd ebd (model_built env F))))"
    for g qa bd ebd
  proof -
    have o: "dispatch_mode env g qa bd ebd (model_built env F)
        = official_eval_mode env g qa (model_built env F)"
      using assms(1) by (simp add: dispatch_mode_official_eval)
    show ?thesis
    proof (cases "json_in_path F = [] \<or> ckpt_load_dir F = []")
      case True
      then show ?thesis
        unfolding o
        by (simp add: official_eval_mode_missing_path aggregated_after_none model_built_def
              banner_def)
    next
      case False
      show ?thesis
      proof (cases "readlines env (tag_file F)")
        case None
        with False show ?thesis
          unfolding o
          by (simp add: official_eval_mode_unreadable aggregated_after_none model_built_def
                banner_def)
      next
        case (Some ls)
        with False assms(2) have "official_eval_mode env g qa (model_built env F)
            = ensemble_branch env g qa (pos_tag_table ls) ne_tag_table (tables_built env F)"
          by (simp add: official_eval_mode_run [where ls = ls] tables_built_def)
        moreover have "aggregated_after (length (checkpoint_dirs (FLAGS (tables_built env F))))
           (trace (snd (ensemble_branch env g qa (pos_tag_table ls) ne_tag_table
              (tables_built env F))))"
          by (rule ensemble_branch_aggregated) (simp_all add: trace_tables_built banner_def)
        ultimately show ?thesis using len unfolding o by simp
      qed
    qed
  qed
  show ?thesis
    using nm d
    by (simp add: main_cases rest_of_main_run aggregated_after_none banner_def model_built_def
          split: option.splits)
qed

lemma main_ensemble_Return:
  assumes "mode F = ''official_eval''" and "single_ensemble F = ''ensemble''"
    and "main env argv (start F) = (Return (), s')"
  shows "\<exists>g qa ls b pas d.
      get_glove env (glove_path (final_flags env F)) (embedding_size F) = Some g
    \<and> new_QAModel env (final_flags env F) g = Some qa
    \<and> readlines env (tag_file F) = Some ls
    \<and> get_json_data env (json_in_path F) = Some b
    \<and> checkpoint_dirs F =
         [os_path_join (ckpt_load_dir F) ''ema_best_checkpoint_1'',
          os_path_join (ckpt_load_dir F) ''ema_best_checkpoint_2'',
          os_path_join (ckpt_load_dir F) ''ema_best_checkpoint_3'',
          os_path_join (ckpt_load_dir F) ''ema_best_checkpoint_4'',
          os_path_join (ckpt_load_dir F) ''ema_best_checkpoint_5'',
          os_path_join (ckpt_load_dir F) ''ema_best_checkpoint_6'',
          os_path_join (ckpt_load_dir F) ''ema_best_checkpoint_7'']
    \<and> length pas = 7
    \<and> (\<forall>i<7. \<exists>p. checkpoint_at env (checkpoint_dirs F ! i) p
           \<and> resident env F (checkpoint_dirs F ! i) = restored F p
           \<and> generate_partial_answers env (restored F p) qa (word2id g) b (the_batcher F)
                (pos_tag_table ls) ne_tag_table = Some (pas ! i))
    \<and> generate_ensemble_answers env qa (word2id g) b (the_batcher F)
         (pos_tag_table ls) ne_tag_table pas = Some d
    \<and> calls (trace s') =
         concat (map (\<lambda>dir. [Get_json_data (json_in_path F), Initialize_model dir True,
                             Generate_partial_answers (resident env F dir) b])
                   (checkpoint_dirs F))
         @ [Get_json_data (json_in_path F), Generate_ensemble_answers b pas,
            Write_file (json_out_path F) ''utf-8'' (json_dumps d)]"
proof -
  from main_official_eval_Return [OF assms(1,3)] assms(2) obtain g qa ls where
    g: "get_glove env (glove_path (final_flags env F)) (embedding_size F) = Some g" and
    qa: "new_QAModel env (final_flags env F) g = Some qa" and
    ls: "readlines env (tag_file F) = Some ls" and
    br: "ensemble_branch env g qa (pos_tag_table ls) ne_tag_table
         ((model_built env F)\<lparr>trace := trace (model_built env F) @ [Readlines (tag_file F)]\<rparr>)
        = (Return (), s')"
    by auto
  have len: "length (checkpoint_dirs F) = 7"
    by (simp add: checkpoint_dirs_explicit)
  from ensemble_branch_Return [OF br] len obtain b pas d where
    b: "get_json_data env (json_in_path F) = Some b" and
    l: "length pas = 7" and
    each: "\<forall>i<7. \<exists>p. checkpoint_at env (checkpoint_dirs F ! i) p
             \<and> generate_partial_answers env (restored F p) qa (word2id g) b
                  (the_batcher F) (pos_tag_table ls) ne_tag_table = Some (pas ! i)" and
    d: "generate_ensemble_answers env qa (word2id g) b (the_batcher F)
          (pos_tag_table ls) ne_tag_table pas = Some d" and
    c: "calls (trace s') = concat (map (pass_calls env F b) (checkpoint_dirs F))
          @ [Get_json_data (json_in_path F), Generate_ensemble_answers b pas, output_event F d]"
    by auto
  have each': "\<forall>i<7. \<exists>p. checkpoint_at env (checkpoint_dirs F ! i) p
           \<and> resident env F (checkpoint_dirs F ! i) = restored F p
           \<and> generate_partial_answers env (restored F p) qa (word2id g) b (the_batcher F)
                (pos_tag_table ls) ne_tag_table = Some (pas ! i)"
    using each checkpoint_at_resident by blast
  have p: "pass_calls env F b = (\<lambda>dir. [Get_json_data (json_in_path F), Initialize_model dir True,
                             Generate_partial_answers (resident env F dir) b])"
    by (simp add: pass_calls_def fun_eq_iff)
  from c have c': "calls (trace s') =
         concat (map (\<lambda>dir. [Get_json_data (json_in_path F), Initialize_model dir True,
                             Generate_partial_answers (resident env F dir) b])
                   (checkpoint_dirs F))
         @ [Get_json_data (json_in_path F), Generate_ensemble_answers b pas,
            Write_file (json_out_path F) ''utf-8'' (json_dumps d)]"
    by (simp only: p output_event_def)
  from g qa ls b l each' d c' checkpoint_dirs_explicit [of F] show ?thesis
    by blast
qed

section \<open>The claims\<close>

subsection \<open>C1: evaluation without an input path or a checkpoint directory\<close>

text \<open>
  C1, as far as the code goes.  The checks of lines 211 to 214 are the first statements of
  the \<^verbatim>\<open>official_eval\<close> branch, and that branch is entered after lines 149 and 160 have
  read the embeddings and constructed the model.  In the world below every collaborator
  succeeds and \<^verbatim>\<open>json_in_path\<close> is empty: the run ends with the exception of line 212, and
  the construction of the model is in its trace.
\<close>

theorem model_is_constructed_before_the_path_check:
  "fst (main demo_env [''main.py''] (start demo_no_input))
       = Raise (Exception ''For official_eval mode, you need to specify --json_in_path'')
   \<and> New_QAModel \<in> set (trace (snd (main demo_env [''main.py''] (start demo_no_input))))"
proof -
  have nm: "\<not> missing_name demo_no_input"
    by (simp add: missing_name_def demo_no_input_def demo_flags_def)
  have "main demo_env [''main.py''] (start demo_no_input) =
    dispatch_mode demo_env (Glove [] [] []) (QAModel [3, 4])
      (os_path_join (train_dir (with_train_dir demo_env demo_no_input)) ''best_checkpoint'')
      (os_path_join (train_dir (with_train_dir demo_env demo_no_input)) ''ema_best_checkpoint'')
      (model_built demo_env demo_no_input)"
    by (rule main_after_model [OF _ _ nm]) (simp_all add: demo_env_def)
  also have "\<dots> = (Raise (Exception ''For official_eval mode, you need to specify --json_in_path''),
      model_built demo_env demo_no_input)"
    by (simp add: dispatch_mode_official_eval official_eval_mode_missing_path
          demo_no_input_def demo_flags_def)
  finally show ?thesis by (simp add: model_built_def)
qed

text \<open>
  C1, amended.  In \<^verbatim>\<open>official_eval\<close> mode with \<^verbatim>\<open>json_in_path\<close> or \<^verbatim>\<open>ckpt_load_dir\<close> empty,
  every run ends in an error; whatever the collaborators do, nothing has happened by then
  but printing, the read of the embeddings and the construction of the model, and no
  session was opened: no checkpoint is looked for or restored, no input is read, nothing
  is written.  When the command line, the interpreter, the embeddings and the model
  construction are in order, the error is the exception of line 212 or 214 (the input
  path is checked first), raised in the state reached after line 160.
\<close>

theorem evaluate_path_check_precedes_checkpoint_work:
  assumes "mode F = ''official_eval''" and "json_in_path F = [] \<or> ckpt_load_dir F = []"
  shows "(\<exists>e. fst (main env argv (start F)) = Raise e)
       \<and> list_all before_checkpoints (trace (snd (main env argv (start F))))
       \<and> session (snd (main env argv (start F))) = None
       \<and> (length argv = 1 \<and> python_major env = 3
            \<and> get_glove env (glove_path (final_flags env F)) (embedding_size F) = Some g
            \<and> new_QAModel env (final_flags env F) g = Some qa
          \<longrightarrow> main env argv (start F) =
                (Raise (Exception
                   (if json_in_path F = []
                    then ''For official_eval mode, you need to specify --json_in_path''
                    else ''For official_eval mode, you need to specify --ckpt_load_dir'')),
                 model_built env F)
              \<and> trace (model_built env F) =
                  [banner env, Get_glove (glove_path (final_flags env F)) (embedding_size F),
                   New_QAModel])"
proof -
  have nm: "\<not> missing_name F" using assms(1) by (rule official_eval_not_missing_name)
  have d: "dispatch_mode env g' qa' bd ebd (model_built env F) =
     (Raise (Exception
        (if json_in_path F = []
         then ''For official_eval mode, you need to specify --json_in_path''
         else ''For official_eval mode, you need to specify --ckpt_load_dir'')), model_built env F)"
    for g' qa' bd ebd
    using assms by (simp add: dispatch_mode_official_eval official_eval_mode_missing_path)
  have m: "main env argv (start F) =
     (if length argv \<noteq> 1 then
        (Raise (Exception (''There is a problem with how you entered flags: ''
                 @ str_of_argv env argv)), start F)
      else if python_major env \<noteq> 3 then
        (Raise (Exception (''ERROR: You must use Python 3 but you are running Python ''
                 @ str_nat (python_major env))), start F)
      else
       (case get_glove env (glove_path (final_flags env F)) (embedding_size F) of
        None \<Rightarrow> (Raise Collaborator_failure,
                  \<lparr>FLAGS = final_flags env F,
                   trace = [banner env,
                     Get_glove (glove_path (final_flags env F)) (embedding_size F)],
                   session = None\<rparr>)
      | Some g \<Rightarrow>
         (case new_QAModel env (final_flags env F) g of
            None \<Rightarrow> (Raise Collaborator_failure, model_built env F)
          | Some qa \<Rightarrow> (Raise (Exception
              (if json_in_path F = []
               then ''For official_eval mode, you need to specify --json_in_path''
               else ''For official_eval mode, you need to specify --ckpt_load_dir'')),
              model_built env F))))"
    using nm by (simp add: main_cases rest_of_main_run d split: option.splits)
  show ?thesis
    unfolding m
    by (simp add: start_def model_built_def banner_def before_checkpoints_def
          split: option.splits)
qed

theorem evaluate_path_check_precedes_checkpoint_work_witness:
  "mode demo_no_input = ''official_eval''
   \<and> fst (main demo_env [''main.py''] (start demo_no_input))
       = Raise (Exception ''For official_eval mode, you need to specify --json_in_path'')
   \<and> list_all before_checkpoints (trace (snd (main demo_env [''main.py''] (start demo_no_input))))"
proof -
  have m: "mode demo_no_input = ''official_eval''"
    and j: "json_in_path demo_no_input = [] \<or> ckpt_load_dir demo_no_input = []"
    by (simp_all add: demo_no_input_def demo_flags_def)
  have c: "length [''main.py''] = 1 \<and> python_major demo_env = 3
            \<and> get_glove demo_env (glove_path (final_flags demo_env demo_no_input))
                 (embedding_size demo_no_input) = Some (Glove [] [] [])
            \<and> new_QAModel demo_env (final_flags demo_env demo_no_input) (Glove [] [] [])
                 = Some (QAModel [3, 4])"
    by (simp add: demo_env_def)
  note t = evaluate_path_check_precedes_checkpoint_work
    [OF m j, of demo_env "[''main.py'']" "Glove [] [] []" "QAModel [3, 4]"]
  from t c have "main demo_env [''main.py''] (start demo_no_input) =
      (Raise (Exception
         (if json_in_path demo_no_input = []
          then ''For official_eval mode, you need to specify --json_in_path''
          else ''For official_eval mode, you need to specify --ckpt_load_dir'')),
       model_built demo_env demo_no_input)"
    by blast
  moreover have "json_in_path demo_no_input = []" by (simp add: demo_no_input_def)
  ultimately have "fst (main demo_env [''main.py''] (start demo_no_input))
       = Raise (Exception ''For official_eval mode, you need to specify --json_in_path'')"
    by simp
  moreover from t have
    "list_all before_checkpoints (trace (snd (main demo_env [''main.py''] (start demo_no_input))))"
    by blast
  ultimately show ?thesis using m by blast
qed

subsection \<open>C2: the ensemble branch\<close>

text \<open>
  C2.  In \<^verbatim>\<open>official_eval\<close> mode with \<^verbatim>\<open>single_ensemble = ensemble\<close>:

  \<^item> in every run, however it ends, the aggregation is called at most once, and when it
    is called it receives seven record sets and seven calls of
    \<^verbatim>\<open>generate_partial_answers\<close> have come before it;

  \<^item> in a run that returns, the checkpoint directories are
    \<^verbatim>\<open>ckpt_load_dir/ema_best_checkpoint_i\<close> for \<open>i\<close> from 1 to 7 in this order; the counted
    calls are, for each directory in turn, the read of \<^verbatim>\<open>json_in_path\<close>, one required load
    from the directory and one call of \<^verbatim>\<open>generate_partial_answers\<close> under the weights
    that load left resident, and then one more read of \<^verbatim>\<open>json_in_path\<close>, the single call
    of \<^verbatim>\<open>generate_ensemble_answers\<close> with the seven record sets in the order of the
    passes, and the write of the output; the \<open>i\<close>-th record set is what the \<open>i\<close>-th pass
    produced from the checkpoint found in the \<open>i\<close>-th directory.
\<close>

theorem ensemble_seven_passes_then_one_aggregation:
  assumes "mode F = ''official_eval''" and "single_ensemble F = ''ensemble''"
  shows "aggregated_after 7 (trace (snd (main env argv (start F))))
   \<and> (main env argv (start F) = (Return (), s') \<longrightarrow>
       (\<exists>g qa ls b pas d.
          get_glove env (glove_path (final_flags env F)) (embedding_size F) = Some g
        \<and> new_QAModel env (final_flags env F) g = Some qa
        \<and> readlines env (tag_file F) = Some ls
        \<and> get_json_data env (json_in_path F) = Some b
        \<and> checkpoint_dirs F =
             [os_path_join (ckpt_load_dir F) ''ema_best_checkpoint_1'',
              os_path_join (ckpt_load_dir F) ''ema_best_checkpoint_2'',
              os_path_join (ckpt_load_dir F) ''ema_best_checkpoint_3'',
              os_path_join (ckpt_load_dir F) ''ema_best_checkpoint_4'',
              os_path_join (ckpt_load_dir F) ''ema_best_checkpoint_5'',
              os_path_join (ckpt_load_dir F) ''ema_best_checkpoint_6'',
              os_path_join (ckpt_load_dir F) ''ema_best_checkpoint_7'']
        \<and> length pas = 7
        \<and> (\<forall>i<7. \<exists>p. checkpoint_at env (checkpoint_dirs F ! i) p
               \<and> resident env F (checkpoint_dirs F ! i) = restored F p
               \<and> generate_partial_answers env (restored F p) qa (word2id g) b (the_batcher F)
                    (pos_tag_table ls) ne_tag_table = Some (pas ! i))
        \<and> generate_ensemble_answers env qa (word2id g) b (the_batcher F)
             (pos_tag_table ls) ne_tag_table pas = Some d
        \<and> calls (trace s') =
             concat (map (\<lambda>dir. [Get_json_data (json_in_path F), Initialize_model dir True,
                                 Generate_partial_answers (resident env F dir) b])
                       (checkpoint_dirs F))
             @ [Get_json_data (json_in_path F), Generate_ensemble_answers b pas,
                Write_file (json_out_path F) ''utf-8'' (json_dumps d)]))"
proof (intro conjI impI)
  show "aggregated_after 7 (trace (snd (main env argv (start F))))"
    using assms by (rule main_ensemble_aggregated)
next
  assume "main env argv (start F) = (Return (), s')"
  with assms show "\<exists>g qa ls b pas d.
          get_glove env (glove_path (final_flags env F)) (embedding_size F) = Some g
        \<and> new_QAModel env (final_flags env F) g = Some qa
        \<and> readlines env (tag_file F) = Some ls
        \<and> get_json_data env (json_in_path F) = Some b
        \<and> checkpoint_dirs F =
             [os_path_join (ckpt_load_dir F) ''ema_best_checkpoint_1'',
              os_path_join (ckpt_load_dir F) ''ema_best_checkpoint_2'',
              os_path_join (ckpt_load_dir F) ''ema_best_checkpoint_3'',
              os_path_join (ckpt_load_dir F) ''ema_best_checkpoint_4'',
              os_path_join (ckpt_load_dir F) ''ema_best_checkpoint_5'',
              os_path_join (ckpt_load_dir F) ''ema_best_checkpoint_6'',
              os_path_join (ckpt_load_dir F) ''ema_best_checkpoint_7'']
        \<and> length pas = 7
        \<and> (\<forall>i<7. \<exists>p. checkpoint_at env (checkpoint_dirs F ! i) p
               \<and> resident env F (checkpoint_dirs F ! i) = restored F p
               \<and> generate_partial_answers env (restored F p) qa (word2id g) b (the_batcher F)
                    (pos_tag_table ls) ne_tag_table = Some (pas ! i))
        \<and> generate_ensemble_answers env qa (word2id g) b (the_batcher F)
             (pos_tag_table ls) ne_tag_table pas = Some d
        \<and> calls (trace s') =
             concat (map (\<lambda>dir. [Get_json_data (json_in_path F), Initialize_model dir True,
                                 Generate_partial_answers (resident env F dir) b])
                       (checkpoint_dirs F))
             @ [Get_json_data (json_in_path F), Generate_ensemble_answers b pas,
                Write_file (json_out_path F) ''utf-8'' (json_dumps d)]"
    by (rule main_ensemble_Return)
qed

theorem ensemble_seven_passes_then_one_aggregation_witness:
  "\<exists>s' pas d. main demo_env [''main.py''] (start demo_flags) = (Return (), s')
     \<and> aggregated_after 7 (trace s')
     \<and> length pas = 7
     \<and> calls (trace s') =
         concat (map (\<lambda>dir. [Get_json_data ''in.json'', Initialize_model dir True,
                             Generate_partial_answers (resident demo_env demo_flags dir) demo_batch])
           [''ck/ema_best_checkpoint_1'', ''ck/ema_best_checkpoint_2'',
            ''ck/ema_best_checkpoint_3'', ''ck/ema_best_checkpoint_4'',
            ''ck/ema_best_checkpoint_5'', ''ck/ema_best_checkpoint_6'',
            ''ck/ema_best_checkpoint_7''])
         @ [Get_json_data ''in.json'', Generate_ensemble_answers demo_batch pas,
            Write_file ''predictions.json'' ''utf-8'' (json_dumps d)]"
proof -
  from demo_ensemble_runs obtain s' where
    r: "main demo_env [''main.py''] (start demo_flags) = (Return (), s')" by blast
  have m: "mode demo_flags = ''official_eval''" and e: "single_ensemble demo_flags = ''ensemble''"
    by (simp_all add: demo_flags_def)
  note t = ensemble_seven_passes_then_one_aggregation
    [OF m e, where env = demo_env and argv = "[''main.py'']" and s' = s']
  from t have "aggregated_after 7 (trace (snd (main demo_env [''main.py''] (start demo_flags))))"
    by blast
  with r have a: "aggregated_after 7 (trace s')" by simp
  from t r obtain b pas d where
    b: "get_json_data demo_env (json_in_path demo_flags) = Some b" and
    l: "length pas = 7" and
    c: "calls (trace s') =
         concat (map (\<lambda>dir. [Get_json_data (json_in_path demo_flags), Initialize_model dir True,
                             Generate_partial_answers (resident demo_env demo_flags dir) b])
                   (checkpoint_dirs demo_flags))
         @ [Get_json_data (json_in_path demo_flags), Generate_ensemble_answers b pas,
            Write_file (json_out_path demo_flags) ''utf-8'' (json_dumps d)]"
    by blast
  from b have b': "b = demo_batch" by (simp add: demo_env_def)
  have f: "json_in_path demo_flags = ''in.json''" "json_out_path demo_flags = ''predictions.json''"
    by (simp_all add: demo_flags_def)
  from c have "calls (trace s') =
         concat (map (\<lambda>dir. [Get_json_data ''in.json'', Initialize_model dir True,
                             Generate_partial_answers (resident demo_env demo_flags dir) demo_batch])
           [''ck/ema_best_checkpoint_1'', ''ck/ema_best_checkpoint_2'',
            ''ck/ema_best_checkpoint_3'', ''ck/ema_best_checkpoint_4'',
            ''ck/ema_best_checkpoint_5'', ''ck/ema_best_checkpoint_6'',
            ''ck/ema_best_checkpoint_7''])
         @ [Get_json_data ''in.json'', Generate_ensemble_answers demo_batch pas,
            Write_file ''predictions.json'' ''utf-8'' (json_dumps d)]"
    unfolding f b' demo_dirs .
  with r a l show ?thesis by blast
qed

subsection \<open>C3: the aggregated mapping covers the batch\<close>

text \<open>
  C3.  With the Ensemble Aggregator as the spec describes it
  (\<open>spec_generate_ensemble_answers\<close>; its source is not at hand), an ensemble run that
  returns writes exactly one output, the serialisation of a mapping whose keys are
  distinct and are exactly the uuids of the input batch.  The aggregator itself is total
  on covering record sets: for any batch and any non-empty list of record sets that each
  cover the uuids of the batch, whatever answers they hold and however these agree, it
  yields a mapping with distinct keys that are exactly the uuids of the batch.
\<close>

theorem ensemble_output_covers_every_uuid:
  assumes "aggregator_as_specified env"
    and "mode F = ''official_eval''" and "single_ensemble F = ''ensemble''"
    and "main env argv (start F) = (Return (), s')"
  shows "(\<exists>b d. get_json_data env (json_in_path F) = Some b
            \<and> filter is_output (trace s') = [Write_file (json_out_path F) ''utf-8'' (json_dumps d)]
            \<and> distinct (map fst d) \<and> set (map fst d) = set (fst b))
       \<and> (\<forall>b pas. pas \<noteq> [] \<and> list_all (\<lambda>rs. covers rs (fst b)) pas \<longrightarrow>
            (\<exists>d. spec_generate_ensemble_answers b pas = Some d
                 \<and> distinct (map fst d) \<and> set (map fst d) = set (fst b)))"
proof
  from main_ensemble_Return [OF assms(2,3,4)] obtain g qa ls b pas d where
    b: "get_json_data env (json_in_path F) = Some b" and
    d: "generate_ensemble_answers env qa (word2id g) b (the_batcher F)
         (pos_tag_table ls) ne_tag_table pas = Some d" and
    c: "calls (trace s') =
         concat (map (\<lambda>dir. [Get_json_data (json_in_path F), Initialize_model dir True,
                             Generate_partial_answers (resident env F dir) b])
                   (checkpoint_dirs F))
         @ [Get_json_data (json_in_path F), Generate_ensemble_answers b pas,
            Write_file (json_out_path F) ''utf-8'' (json_dumps d)]"
    by blast
  from assms(1) have "generate_ensemble_answers env qa (word2id g) b (the_batcher F)
         (pos_tag_table ls) ne_tag_table pas = spec_generate_ensemble_answers b pas"
    unfolding aggregator_as_specified_def by blast
  with d have "spec_generate_ensemble_answers b pas = Some d"
    by simp
  then have a: "answers_for b d" by (rule spec_ensemble_answers_for)
  have "filter is_output (trace s') = filter is_output (calls (trace s'))"
    by (simp add: filter_output_calls)
  also have "\<dots> = [Write_file (json_out_path F) ''utf-8'' (json_dumps d)]"
    unfolding c by (simp add: filter_output_passes)
  finally show "\<exists>b d. get_json_data env (json_in_path F) = Some b
            \<and> filter is_output (trace s') = [Write_file (json_out_path F) ''utf-8'' (json_dumps d)]
            \<and> distinct (map fst d) \<and> set (map fst d) = set (fst b)"
    using a b by (auto simp: answers_for_def)
next
  show "\<forall>b pas. pas \<noteq> [] \<and> list_all (\<lambda>rs. covers rs (fst b)) pas \<longrightarrow>
            (\<exists>d. spec_generate_ensemble_answers b pas = Some d
                 \<and> distinct (map fst d) \<and> set (map fst d) = set (fst b))"
    using spec_ensemble_answers_total spec_ensemble_answers_for
    by (fastforce simp: answers_for_def)
qed

theorem ensemble_output_covers_every_uuid_witness:
  "\<exists>s' d. main demo_env [''main.py''] (start demo_flags) = (Return (), s')
     \<and> filter is_output (trace s') = [Write_file ''predictions.json'' ''utf-8'' (json_dumps d)]
     \<and> distinct (map fst d) \<and> set (map fst d) = {[113, 49], [113, 50]}"
proof -
  from demo_ensemble_runs obtain s' where
    r: "main demo_env [''main.py''] (start demo_flags) = (Return (), s')" by blast
  have a: "aggregator_as_specified demo_env"
    by (simp add: aggregator_as_specified_def demo_env_def)
  have m: "mode demo_flags = ''official_eval''" and e: "single_ensemble demo_flags = ''ensemble''"
    by (simp_all add: demo_flags_def)
  from ensemble_output_covers_every_uuid [OF a m e r] obtain b d where
    b: "get_json_data demo_env (json_in_path demo_flags) = Some b" and
    w: "filter is_output (trace s')
          = [Write_file (json_out_path demo_flags) ''utf-8'' (json_dumps d)]" and
    k: "distinct (map fst d)" "set (map fst d) = set (fst b)"
    by blast
  from b have "b = demo_batch" by (simp add: demo_env_def)
  with k have "set (map fst d) = {[113, 49], [113, 50]}"
    by (simp add: demo_batch_def)
  moreover from w have
    "filter is_output (trace s') = [Write_file ''predictions.json'' ''utf-8'' (json_dumps d)]"
    by (simp add: demo_flags_def)
  ultimately show ?thesis using r k(1) by blast
qed

subsection \<open>C4: the single branch\<close>

text \<open>
  C4.  In \<^verbatim>\<open>official_eval\<close> mode with \<^verbatim>\<open>single_ensemble = single\<close>, a run that returns has
  made exactly four counted calls: one read of \<^verbatim>\<open>json_in_path\<close>, one required load from
  \<^verbatim>\<open>ckpt_load_dir/ema_best_checkpoint_1\<close> (where a checkpoint was found), one call of
  \<^verbatim>\<open>generate_answers\<close> on the whole batch under the restored weights, and the write of
  what that call returned, serialised, to \<^verbatim>\<open>json_out_path\<close>.  There is no call of
  \<^verbatim>\<open>generate_partial_answers\<close> or of \<^verbatim>\<open>generate_ensemble_answers\<close>.  When
  \<^verbatim>\<open>generate_answers\<close> is as the spec describes it and the batch is well formed, the
  mapping written has exactly one entry for every uuid of the batch.
\<close>

theorem single_mode_one_checkpoint_no_aggregation:
  assumes "mode F = ''official_eval''" and "single_ensemble F = ''single''"
    and "main env argv (start F) = (Return (), s')"
  shows "\<exists>g qa ls b p d.
      get_glove env (glove_path (final_flags env F)) (embedding_size F) = Some g
    \<and> new_QAModel env (final_flags env F) g = Some qa
    \<and> readlines env (tag_file F) = Some ls
    \<and> get_json_data env (json_in_path F) = Some b
    \<and> checkpoint_at env (os_path_join (ckpt_load_dir F) ''ema_best_checkpoint_1'') p
    \<and> generate_answers env (restored F p) qa (word2id g) b (the_batcher F)
         (pos_tag_table ls) ne_tag_table = Some d
    \<and> calls (trace s') =
         [Get_json_data (json_in_path F),
          Initialize_model (os_path_join (ckpt_load_dir F) ''ema_best_checkpoint_1'') True,
          Generate_answers (restored F p) b,
          Write_file (json_out_path F) ''utf-8'' (json_dumps d)]
    \<and> (answers_as_specified env extr \<and> parallel b \<longrightarrow> answers_for b d)"
proof -
  from main_official_eval_Return [OF assms(1,3)] assms(2) obtain g qa ls where
    g: "get_glove env (glove_path (final_flags env F)) (embedding_size F) = Some g" and
    qa: "new_QAModel env (final_flags env F) g = Some qa" and
    ls: "readlines env (tag_file F) = Some ls" and
    br: "single_branch env g qa (pos_tag_table ls) ne_tag_table
         ((model_built env F)\<lparr>trace := trace (model_built env F) @ [Readlines (tag_file F)]\<rparr>)
        = (Return (), s')"
    by auto
  from single_branch_Return [OF br] obtain b p d where
    b: "get_json_data env (json_in_path F) = Some b" and
    p: "checkpoint_at env (first_checkpoint_dir F) p" and
    d: "generate_answers env (restored F p) qa (word2id g) b (the_batcher F)
         (pos_tag_table ls) ne_tag_table = Some d" and
    c: "calls (trace s') =
         [Get_json_data (json_in_path F), Initialize_model (first_checkpoint_dir F) True,
          Generate_answers (restored F p) b, output_event F d]"
    by auto
  have a: "answers_as_specified env extr \<and> parallel b \<longrightarrow> answers_for b d"
  proof
    assume h: "answers_as_specified env extr \<and> parallel b"
    then have "generate_answers env (restored F p) qa (word2id g) b (the_batcher F)
         (pos_tag_table ls) ne_tag_table = Some (spec_generate_answers extr (restored F p) b)"
      unfolding answers_as_specified_def by blast
    with d have "d = spec_generate_answers extr (restored F p) b" by simp
    with h show "answers_for b d" by (simp add: spec_generate_answers_for)
  qed
  from g qa ls b p d c a show ?thesis
    unfolding first_checkpoint_dir_def output_event_def by blast
qed

theorem single_mode_one_checkpoint_no_aggregation_witness:
  "\<exists>s' p d. main demo_env [''main.py''] (start demo_single) = (Return (), s')
     \<and> calls (trace s') =
         [Get_json_data ''in.json'', Initialize_model ''ck/ema_best_checkpoint_1'' True,
          Generate_answers (EMA_from p) demo_batch,
          Write_file ''predictions.json'' ''utf-8'' (json_dumps d)]
     \<and> answers_for demo_batch d"
proof -
  from demo_single_runs obtain s' where
    r: "main demo_env [''main.py''] (start demo_single) = (Return (), s')" by blast
  have m: "mode demo_single = ''official_eval''" and e: "single_ensemble demo_single = ''single''"
    by (simp_all add: demo_single_def demo_flags_def)
  have h: "answers_as_specified demo_env demo_extract"
    by (simp add: answers_as_specified_def demo_env_def)
  from single_mode_one_checkpoint_no_aggregation [OF m e r, where extr = demo_extract]
  obtain b p d where
    b: "get_json_data demo_env (json_in_path demo_single) = Some b" and
    c: "calls (trace s') =
         [Get_json_data (json_in_path demo_single),
          Initialize_model (os_path_join (ckpt_load_dir demo_single) ''ema_best_checkpoint_1'') True,
          Generate_answers (restored demo_single p) b,
          Write_file (json_out_path demo_single) ''utf-8'' (json_dumps d)]" and
    a: "answers_as_specified demo_env demo_extract \<and> parallel b \<longrightarrow> answers_for b d"
    by blast
  from b have b': "b = demo_batch" by (simp add: demo_env_def)
  from a h demo_parallel have a': "answers_for demo_batch d"
    unfolding b' by blast
  have f: "json_in_path demo_single = ''in.json''"
    "os_path_join (ckpt_load_dir demo_single) ''ema_best_checkpoint_1''
       = ''ck/ema_best_checkpoint_1''"
    "restored demo_single p = EMA_from p"
    "json_out_path demo_single = ''predictions.json''"
    by (simp_all add: demo_single_def demo_flags_def restored_def os_path_join_def)
  from c have "calls (trace s') =
         [Get_json_data ''in.json'', Initialize_model ''ck/ema_best_checkpoint_1'' True,
          Generate_answers (EMA_from p) demo_batch,
          Write_file ''predictions.json'' ''utf-8'' (json_dumps d)]"
    unfolding f b' .
  with r a' show ?thesis by blast
qed

subsection \<open>C5: a load that finds no checkpoint\<close>

text \<open>
  C5.  A load that finds no checkpoint in the directory (no checkpoint state, or neither
  the checkpoint file nor its v2 index exists): when the load is required it raises an
  exception whose message ends with the searched directory, and nothing is initialised;
  when it is not required it returns normally, the session holds fresh parameters, and the
  last events are the notice, the run of the variable initialiser and the line
  \<^verbatim>\<open>Num params: n\<close> with the summed element count of the trainable variables.
\<close>

theorem initialize_model_without_checkpoint:
  assumes "no_checkpoint env dir"
  shows "fst (initialize_model env model dir True s)
           = Raise (Exception (''There is no saved checkpoint at '' @ dir))
       \<and> session (snd (initialize_model env model dir True s)) = session s
       \<and> fst (initialize_model env model dir False s) = Return ()
       \<and> session (snd (initialize_model env model dir False s)) = Some Fresh
       \<and> trace (snd (initialize_model env model dir False s))
           = trace s
             @ [Initialize_model dir False, Print (''Looking for model at '' @ dir @ ''...''),
                Get_checkpoint_state dir]
             @ probes env dir
             @ [Print (''There is no saved checkpoint at '' @ dir
                  @ ''. Creating model with fresh parameters.''),
                Init_variables,
                Print (''Num params: '' @ str_nat (sum_list (trainable_sizes model)))]"
  using assms
  by (auto simp: no_checkpoint_def probes_def initialize_model_def checkpoint_found_def prims
        split: option.splits)

theorem initialize_model_without_checkpoint_witness:
  "no_checkpoint demo_env ''fresh''
   \<and> fst (initialize_model demo_env (QAModel [3, 4]) ''fresh'' True (start demo_flags))
       = Raise (Exception ''There is no saved checkpoint at fresh'')
   \<and> fst (initialize_model demo_env (QAModel [3, 4]) ''fresh'' False (start demo_flags))
       = Return ()
   \<and> session (snd (initialize_model demo_env (QAModel [3, 4]) ''fresh'' False
        (start demo_flags))) = Some Fresh"
proof -
  have h: "no_checkpoint demo_env ''fresh''"
    by (simp add: no_checkpoint_def demo_env_def)
  show ?thesis
    using h initialize_model_without_checkpoint [OF h, of "QAModel [3, 4]" "start demo_flags"]
    by simp
qed

subsection \<open>C6: raw or EMA weights\<close>

text \<open>
  C6.  Every load goes through \<open>initialize_model\<close>, and there the flag
  \<^verbatim>\<open>load_ema_checkpoint\<close> alone selects the restore:

  \<^item> a load from a directory with a checkpoint \<open>p\<close> ends its events with the restore of
    the EMA shadow variables of \<open>p\<close> when the flag is on and with the restore of the raw
    variables of \<open>p\<close> when it is off; when that restore succeeds the load returns and the
    session holds those weights;

  \<^item> in every run of \<open>main\<close>, in any mode and however it ends, every restore in the trace
    is of the kind the flag selects;

  \<^item> in \<^verbatim>\<open>show_examples\<close> mode (once the model is built) the only load is a required one,
    from \<^verbatim>\<open>train_dir/ema_best_checkpoint\<close> when the flag is on and from
    \<^verbatim>\<open>train_dir/best_checkpoint\<close> when it is off.
\<close>

theorem ema_switch_governs_every_load:
  "(checkpoint_at env dir p \<longrightarrow>
      trace (snd (initialize_model env model dir b s)) =
        trace s
        @ [Initialize_model dir b, Print (''Looking for model at '' @ dir @ ''...''),
           Get_checkpoint_state dir]
        @ found_probes env p
        @ [Print (''Reading model parameters from '' @ p),
           if load_ema_checkpoint (FLAGS s) then Restore_ema p else Restore_raw p]
      \<and> (succeeds env (if load_ema_checkpoint (FLAGS s) then Restore_ema p else Restore_raw p)
           \<longrightarrow> fst (initialize_model env model dir b s) = Return ()
             \<and> session (snd (initialize_model env model dir b s))
                 = Some (if load_ema_checkpoint (FLAGS s) then EMA_from p else Raw_from p)))
   \<and> list_all (consistent (load_ema_checkpoint F)) (trace (snd (main env argv (start F))))
   \<and> (mode F = ''show_examples'' \<and> length argv = 1 \<and> python_major env = 3
        \<and> \<not> missing_name F
        \<and> get_glove env (glove_path (final_flags env F)) (embedding_size F) = Some g
        \<and> new_QAModel env (final_flags env F) g = Some qa
      \<longrightarrow> filter is_load (trace (snd (main env argv (start F)))) =
            [Initialize_model
               (os_path_join (train_dir (with_train_dir env F))
                  (if load_ema_checkpoint F then ''ema_best_checkpoint'' else ''best_checkpoint''))
               True])"
proof (intro conjI impI)
  assume c: "checkpoint_at env dir p"
  show "trace (snd (initialize_model env model dir b s)) =
        trace s
        @ [Initialize_model dir b, Print (''Looking for model at '' @ dir @ ''...''),
           Get_checkpoint_state dir]
        @ found_probes env p
        @ [Print (''Reading model parameters from '' @ p),
           if load_ema_checkpoint (FLAGS s) then Restore_ema p else Restore_raw p]"
    by (simp add: initialize_model_found [OF c] restore_event_def)
  assume "succeeds env (if load_ema_checkpoint (FLAGS s) then Restore_ema p else Restore_raw p)"
  then show "fst (initialize_model env model dir b s) = Return ()"
    "session (snd (initialize_model env model dir b s))
       = Some (if load_ema_checkpoint (FLAGS s) then EMA_from p else Raw_from p)"
    by (simp_all add: initialize_model_found [OF c] restore_event_def restored_def)
next
  show "list_all (consistent (load_ema_checkpoint F)) (trace (snd (main env argv (start F))))"
    by (rule main_trace_consistent)
next
  assume a: "mode F = ''show_examples'' \<and> length argv = 1 \<and> python_major env = 3
        \<and> \<not> missing_name F
        \<and> get_glove env (glove_path (final_flags env F)) (embedding_size F) = Some g
        \<and> new_QAModel env (final_flags env F) g = Some qa"
  let ?bd = "os_path_join (train_dir (with_train_dir env F)) ''best_checkpoint''"
  let ?ebd = "os_path_join (train_dir (with_train_dir env F)) ''ema_best_checkpoint''"
  from a have "main env argv (start F) = dispatch_mode env g qa ?bd ?ebd (model_built env F)"
    by (intro main_after_model) simp_all
  also have "\<dots> = show_examples_mode env qa ?bd ?ebd (model_built env F)"
    using a by (simp add: dispatch_mode_def bind_m_def get_FLAGS_def)
  finally have "main env argv (start F)
      = show_examples_mode env qa ?bd ?ebd (model_built env F)" .
  then show "filter is_load (trace (snd (main env argv (start F)))) =
            [Initialize_model
               (os_path_join (train_dir (with_train_dir env F))
                  (if load_ema_checkpoint F then ''ema_best_checkpoint'' else ''best_checkpoint''))
               True]"
    by (simp add: show_examples_mode_loads model_built_def banner_def)
qed

theorem ema_switch_governs_every_load_witness:
  "checkpoint_at demo_env ''ck'' ''ck/qa.ckpt''
   \<and> session (snd (initialize_model demo_env (QAModel [3, 4]) ''ck'' True (start demo_flags)))
       = Some (EMA_from ''ck/qa.ckpt'')
   \<and> session (snd (initialize_model demo_env (QAModel [3, 4]) ''ck'' True (start demo_show)))
       = Some (Raw_from ''ck/qa.ckpt'')
   \<and> filter is_load (trace (snd (main demo_env [''main.py''] (start demo_show))))
       = [Initialize_model ''./experiments/baseline/best_checkpoint'' True]"
proof -
  have c: "checkpoint_at demo_env ''ck'' ''ck/qa.ckpt''"
    by (simp add: checkpoint_at_def demo_env_def)
  have s: "succeeds demo_env e" for e by (simp add: demo_env_def)
  note t1 = ema_switch_governs_every_load
    [of demo_env "''ck''" "''ck/qa.ckpt''" "QAModel [3, 4]" True "start demo_flags"
        demo_show "[''main.py'']" "Glove [] [] []" "QAModel [3, 4]"]
  note t2 = ema_switch_governs_every_load
    [of demo_env "''ck''" "''ck/qa.ckpt''" "QAModel [3, 4]" True "start demo_show"
        demo_show "[''main.py'']" "Glove [] [] []" "QAModel [3, 4]"]
  from t1 c s have 1:
    "session (snd (initialize_model demo_env (QAModel [3, 4]) ''ck'' True (start demo_flags)))
       = Some (if load_ema_checkpoint (FLAGS (start demo_flags))
               then EMA_from ''ck/qa.ckpt'' else Raw_from ''ck/qa.ckpt'')"
    by blast
  from t2 c s have 2:
    "session (snd (initialize_model demo_env (QAModel [3, 4]) ''ck'' True (start demo_show)))
       = Some (if load_ema_checkpoint (FLAGS (start demo_show))
               then EMA_from ''ck/qa.ckpt'' else Raw_from ''ck/qa.ckpt'')"
    by blast
  have h: "mode demo_show = ''show_examples'' \<and> length [''main.py''] = 1
        \<and> python_major demo_env = 3 \<and> \<not> missing_name demo_show
        \<and> get_glove demo_env (glove_path (final_flags demo_env demo_show))
             (embedding_size demo_show) = Some (Glove [] [] [])
        \<and> new_QAModel demo_env (final_flags demo_env demo_show) (Glove [] [] [])
             = Some (QAModel [3, 4])"
    by (simp add: demo_show_def demo_env_def missing_name_def)
  from t2 h have 3: "filter is_load (trace (snd (main demo_env [''main.py''] (start demo_show)))) =
            [Initialize_model
               (os_path_join (train_dir (with_train_dir demo_env demo_show))
                  (if load_ema_checkpoint demo_show
                   then ''ema_best_checkpoint'' else ''best_checkpoint''))
               True]"
    by blast
  have d: "os_path_join (train_dir (with_train_dir demo_env demo_show))
                  (if load_ema_checkpoint demo_show
                   then ''ema_best_checkpoint'' else ''best_checkpoint'')
           = ''./experiments/baseline/best_checkpoint''"
    by (simp add: with_train_dir_def demo_show_def demo_flags_def demo_env_def
          EXPERIMENTS_DIR_def os_path_join_def)
  from 1 2 3 c show ?thesis
    unfolding d by (simp add: start_def demo_show_def demo_flags_def)
qed

subsection \<open>C7: neither an experiment name nor a training directory\<close>

text \<open>
  C7.  When \<^verbatim>\<open>experiment_name\<close> and \<^verbatim>\<open>train_dir\<close> are both empty and the mode is not
  \<^verbatim>\<open>official_eval\<close> (\<^verbatim>\<open>train\<close>, \<^verbatim>\<open>show_examples\<close> or anything else), every run raises an
  exception and its trace holds nothing but printed lines: no path is tested, no directory
  made, no file read or written.  With a well-formed command line under Python 3 the
  exception is that of line 136, raised with the flags untouched after the one line
  printed.  Otherwise, under the same conditions, the \<^verbatim>\<open>train_dir\<close> the run works with is
  the one given, or, when none is given, the join of the experiments directory and the
  experiment name, which is \<^verbatim>\<open>MAIN_DIR/experiments/experiment_name\<close> for a name that does
  not begin with a slash.
\<close>

theorem missing_experiment_name_fails_before_filesystem:
  "(missing_name F \<longrightarrow>
      (\<exists>msg. fst (main env argv (start F)) = Raise (Exception msg))
      \<and> list_all is_print (trace (snd (main env argv (start F))))
      \<and> (length argv = 1 \<and> python_major env = 3 \<longrightarrow>
           main env argv (start F) =
             (Raise (Exception ''You need to specify either --experiment_name or --train_dir''),
              \<lparr>FLAGS = F, trace = [banner env], session = None\<rparr>)))
   \<and> (\<not> missing_name F \<and> length argv = 1 \<and> python_major env = 3 \<longrightarrow>
        train_dir (FLAGS (snd (main env argv (start F)))) =
          (if train_dir F \<noteq> [] then train_dir F
           else os_path_join (EXPERIMENTS_DIR env) (experiment_name F)))
   \<and> (experiment_name F = [] \<or> hd (experiment_name F) \<noteq> CHR ''/'' \<longrightarrow>
        os_path_join (EXPERIMENTS_DIR env) (experiment_name F)
          = os_path_join (MAIN_DIR env) ''experiments'' @ ''/'' @ experiment_name F)"
proof (intro conjI impI)
  assume m: "missing_name F"
  then show "\<exists>msg. fst (main env argv (start F)) = Raise (Exception msg)"
    by (simp add: main_cases)
  from m show "list_all is_print (trace (snd (main env argv (start F))))"
    by (simp add: main_cases banner_def)
  assume "length argv = 1 \<and> python_major env = 3"
  with m show "main env argv (start F) =
             (Raise (Exception ''You need to specify either --experiment_name or --train_dir''),
              \<lparr>FLAGS = F, trace = [banner env], session = None\<rparr>)"
    by (simp add: main_cases)
next
  assume "\<not> missing_name F \<and> length argv = 1 \<and> python_major env = 3"
  then have "FLAGS (snd (main env argv (start F))) = final_flags env F"
    by (intro main_final_flags) simp_all
  then show "train_dir (FLAGS (snd (main env argv (start F)))) =
          (if train_dir F \<noteq> [] then train_dir F
           else os_path_join (EXPERIMENTS_DIR env) (experiment_name F))"
    by (simp add: with_train_dir_def)
next
  assume "experiment_name F = [] \<or> hd (experiment_name F) \<noteq> CHR ''/''"
  then show "os_path_join (EXPERIMENTS_DIR env) (experiment_name F)
          = os_path_join (MAIN_DIR env) ''experiments'' @ ''/'' @ experiment_name F"
    using join_EXPERIMENTS_DIR [of "experiment_name F" env] by (simp add: EXPERIMENTS_DIR_def)
qed

theorem missing_experiment_name_fails_before_filesystem_witness:
  "missing_name demo_nameless
   \<and> main demo_env [''main.py''] (start demo_nameless) =
       (Raise (Exception ''You need to specify either --experiment_name or --train_dir''),
        \<lparr>FLAGS = demo_nameless, trace = [banner demo_env], session = None\<rparr>)
   \<and> \<not> missing_name demo_show
   \<and> train_dir (FLAGS (snd (main demo_env [''main.py''] (start demo_show))))
       = ''./experiments/baseline''"
proof -
  have m: "missing_name demo_nameless"
    by (simp add: missing_name_def demo_nameless_def demo_flags_def)
  have a: "length [''main.py''] = 1 \<and> python_major demo_env = 3"
    by (simp add: demo_env_def)
  have n: "\<not> missing_name demo_show"
    by (simp add: missing_name_def demo_show_def)
  have e: "experiment_name demo_show = [] \<or> hd (experiment_name demo_show) \<noteq> CHR ''/''"
    by (simp add: demo_show_def)
  note t1 = missing_experiment_name_fails_before_filesystem
    [of demo_nameless demo_env "[''main.py'']"]
  note t2 = missing_experiment_name_fails_before_filesystem
    [of demo_show demo_env "[''main.py'']"]
  from t1 m a have 1: "main demo_env [''main.py''] (start demo_nameless) =
       (Raise (Exception ''You need to specify either --experiment_name or --train_dir''),
        \<lparr>FLAGS = demo_nameless, trace = [banner demo_env], session = None\<rparr>)"
    by blast
  from t2 n a have "train_dir (FLAGS (snd (main demo_env [''main.py''] (start demo_show)))) =
          (if train_dir demo_show \<noteq> [] then train_dir demo_show
           else os_path_join (EXPERIMENTS_DIR demo_env) (experiment_name demo_show))"
    by blast
  moreover from t2 e have "os_path_join (EXPERIMENTS_DIR demo_env) (experiment_name demo_show)
          = os_path_join (MAIN_DIR demo_env) ''experiments'' @ ''/'' @ experiment_name demo_show"
    by blast
  ultimately have 2: "train_dir (FLAGS (snd (main demo_env [''main.py''] (start demo_show))))
       = ''./experiments/baseline''"
    by (simp add: demo_show_def demo_flags_def demo_env_def os_path_join_def)
  from m 1 n 2 show ?thesis by blast
qed

subsection \<open>C8: a sub-mode that is neither single nor ensemble\<close>

text \<open>
  C8.  In \<^verbatim>\<open>official_eval\<close> mode with both paths set and \<^verbatim>\<open>single_ensemble\<close> different
  from \<^verbatim>\<open>ensemble\<close>: once the embeddings, the model and the tag file have been obtained,
  \<open>main\<close> is the single branch (line 261), whatever the value of the flag; when the value
  is not \<^verbatim>\<open>single\<close> either (the default, the empty string, is such a value) that branch
  stops at the assertion of line 262, so every run ends in an error, and the error is an
  \<^verbatim>\<open>AssertionError\<close>, not an exception with a message, whenever the run gets that far.
  An \<^verbatim>\<open>AssertionError\<close> is raised only in the state in which the embeddings have been
  read, the model constructed and the tag file read, in this order.
\<close>

theorem unknown_sub_mode_aborts_by_assertion:
  assumes "mode F = ''official_eval''" and "json_in_path F \<noteq> []" and "ckpt_load_dir F \<noteq> []"
    and "single_ensemble F \<noteq> ''ensemble''"
  shows "(length argv = 1 \<and> python_major env = 3
          \<and> get_glove env (glove_path (final_flags env F)) (embedding_size F) = Some g
          \<and> new_QAModel env (final_flags env F) g = Some qa
          \<and> readlines env (tag_file F) = Some ls
        \<longrightarrow> main env argv (start F)
              = single_branch env g qa (pos_tag_table ls) ne_tag_table (tables_built env F)
            \<and> (single_ensemble F \<noteq> ''single'' \<longrightarrow>
                 main env argv (start F) = (Raise AssertionError, tables_built env F)))
       \<and> (single_ensemble F \<noteq> ''single'' \<and> fst (main env argv (start F)) = Raise AssertionError
        \<longrightarrow> snd (main env argv (start F)) = tables_built env F)
       \<and> (single_ensemble F \<noteq> ''single'' \<longrightarrow> (\<exists>e. fst (main env argv (start F)) = Raise e))
       \<and> trace (tables_built env F) =
           [banner env, Get_glove (glove_path (final_flags env F)) (embedding_size F),
            New_QAModel, Readlines (tag_file F)]"
proof (intro conjI impI)
  have nm: "\<not> missing_name F" using assms(1) by (rule official_eval_not_missing_name)
  {
    assume a: "length argv = 1 \<and> python_major env = 3
          \<and> get_glove env (glove_path (final_flags env F)) (embedding_size F) = Some g
          \<and> new_QAModel env (final_flags env F) g = Some qa
          \<and> readlines env (tag_file F) = Some ls"
    then have "main env argv (start F) = official_eval_mode env g qa (model_built env F)"
      using assms(1) nm by (simp add: main_after_model dispatch_mode_official_eval)
    then show r: "main env argv (start F)
              = single_branch env g qa (pos_tag_table ls) ne_tag_table (tables_built env F)"
      using a assms by (simp add: official_eval_mode_run [where ls = ls] tables_built_def)
    assume "single_ensemble F \<noteq> ''single''"
    then show "main env argv (start F) = (Raise AssertionError, tables_built env F)"
      unfolding r by (simp add: single_branch_def bind_m_def get_FLAGS_def raise_def
          tables_built_def)
  }
  have u: "single_ensemble F \<noteq> ''single'' \<Longrightarrow>
     dispatch_mode env g' qa' bd ebd (model_built env F) =
       (case readlines env (tag_file F) of
          None \<Rightarrow> Raise Collaborator_failure
        | Some ls \<Rightarrow> Raise AssertionError, tables_built env F)" for g' qa' bd ebd
    using assms
    by (simp add: dispatch_mode_official_eval official_eval_mode_unknown_sub_mode
          tables_built_def)
  have m: "single_ensemble F \<noteq> ''single'' \<Longrightarrow> main env argv (start F) =
     (if length argv \<noteq> 1 then
        (Raise (Exception (''There is a problem with how you entered flags: ''
                 @ str_of_argv env argv)), start F)
      else if python_major env \<noteq> 3 then
        (Raise (Exception (''ERROR: You must use Python 3 but you are running Python ''
                 @ str_nat (python_major env))), start F)
      else
       (case get_glove env (glove_path (final_flags env F)) (embedding_size F) of
        None \<Rightarrow> (Raise Collaborator_failure,
                  \<lparr>FLAGS = final_flags env F,
                   trace = [banner env,
                     Get_glove (glove_path (final_flags env F)) (embedding_size F)],
                   session = None\<rparr>)
      | Some g \<Rightarrow>
         (case new_QAModel env (final_flags env F) g of
            None \<Rightarrow> (Raise Collaborator_failure, model_built env F)
          | Some qa \<Rightarrow>
             (case readlines env (tag_file F) of
                None \<Rightarrow> Raise Collaborator_failure
              | Some ls \<Rightarrow> Raise AssertionError, tables_built env F))))"
    using nm by (simp add: main_cases rest_of_main_run u split: option.splits)
  {
    assume "single_ensemble F \<noteq> ''single'' \<and> fst (main env argv (start F)) = Raise AssertionError"
    then show "snd (main env argv (start F)) = tables_built env F"
      by (auto simp: m split: if_splits option.splits)
  }
  {
    assume "single_ensemble F \<noteq> ''single''"
    then show "\<exists>e. fst (main env argv (start F)) = Raise e"
      by (auto simp: m split: if_splits option.splits)
  }
  show "trace (tables_built env F) =
           [banner env, Get_glove (glove_path (final_flags env F)) (embedding_size F),
            New_QAModel, Readlines (tag_file F)]"
    by (simp add: tables_built_def model_built_def)
qed

theorem unknown_sub_mode_aborts_by_assertion_witness:
  "single_ensemble demo_unknown = []
   \<and> main demo_env [''main.py''] (start demo_unknown)
       = (Raise AssertionError, tables_built demo_env demo_unknown)
   \<and> trace (tables_built demo_env demo_unknown) =
       [banner demo_env,
        Get_glove (glove_path (final_flags demo_env demo_unknown)) (embedding_size demo_unknown),
        New_QAModel, Readlines (tag_file demo_unknown)]"
proof -
  have f: "mode demo_unknown = ''official_eval''" "json_in_path demo_unknown \<noteq> []"
    "ckpt_load_dir demo_unknown \<noteq> []" "single_ensemble demo_unknown \<noteq> ''ensemble''"
    by (simp_all add: demo_unknown_def demo_flags_def)
  have a: "length [''main.py''] = 1 \<and> python_major demo_env = 3
          \<and> get_glove demo_env (glove_path (final_flags demo_env demo_unknown))
               (embedding_size demo_unknown) = Some (Glove [] [] [])
          \<and> new_QAModel demo_env (final_flags demo_env demo_unknown) (Glove [] [] [])
               = Some (QAModel [3, 4])
          \<and> readlines demo_env (tag_file demo_unknown)
               = Some [''NN'' @ [CHR 0x0A], ''VB'' @ [CHR 0x0A]]"
    by (simp add: demo_env_def)
  have n: "single_ensemble demo_unknown \<noteq> ''single''" "single_ensemble demo_unknown = []"
    by (simp_all add: demo_unknown_def)
  note t = unknown_sub_mode_aborts_by_assertion
    [OF f, of "[''main.py'']" demo_env "Glove [] [] []" "QAModel [3, 4]"
       "[''NN'' @ [CHR 0x0A], ''VB'' @ [CHR 0x0A]]"]
  from t a n show ?thesis by blast
qed

subsection \<open>C9: the tag tables\<close>

text \<open>
  C9, as far as the code goes.  Line 221 stores the id \<open>i + 1\<close> under the stripped line, line
  after line, so a tag that stands on two lines keeps the id of the later one.  For a tag
  file whose two lines both read \<^verbatim>\<open>NN\<close>, the tag of the line of index 0 is mapped to 2,
  not to 0 + 1.
\<close>

theorem repeated_tag_takes_the_later_line:
  "map_of (pos_tag_table [''NN'' @ [CHR 0x0A], ''NN'' @ [CHR 0x0A]])
     (butlast ([''NN'' @ [CHR 0x0A], ''NN'' @ [CHR 0x0A]] ! 0)) = Some 2"
  by code_simp

text \<open>
  C9, amended.  The part-of-speech table maps the tag of a line (the line without its last
  character) to the index of that line plus one, for every line after which the same tag
  does not occur again; its keys are exactly the tags of the lines; so when the tags of
  the file are pairwise distinct, every line's tag is mapped to its index plus one.  The
  named-entity table is built from a fixed list of thirteen tags and maps the tag at index
  \<open>i\<close> to \<open>i + 1\<close>; it is the table displayed.  In \<^verbatim>\<open>official_eval\<close> mode with both paths
  set, the tag file is read once, right after the model is constructed; the branch that
  runs the inference starts from the state reached then, is handed the two tables, and
  reads the tag file no more.
\<close>

theorem tag_tables_built_before_inference:
  "(\<forall>i<length ls.
       (\<forall>j. i < j \<and> j < length ls \<longrightarrow> butlast (ls ! j) \<noteq> butlast (ls ! i)) \<longrightarrow>
       map_of (pos_tag_table ls) (butlast (ls ! i)) = Some (i + 1))
   \<and> fst ` set (pos_tag_table ls) = butlast ` set ls
   \<and> (distinct (map butlast ls) \<longrightarrow>
        (\<forall>i<length ls. map_of (pos_tag_table ls) (butlast (ls ! i)) = Some (i + 1)))
   \<and> length all_NE_tag = 13
   \<and> (\<forall>i<13. map_of ne_tag_table (all_NE_tag ! i) = Some (i + 1))
   \<and> ne_tag_table =
       [(''B-FACILITY'', 1), (''B-GPE'', 2), (''B-GSP'', 3), (''B-LOCATION'', 4),
        (''B-ORGANIZATION'', 5), (''B-PERSON'', 6), (''I-FACILITY'', 7), (''I-GPE'', 8),
        (''I-GSP'', 9), (''I-LOCATION'', 10), (''I-ORGANIZATION'', 11), (''I-PERSON'', 12),
        (''O'', 13)]
   \<and> (mode F = ''official_eval'' \<and> json_in_path F \<noteq> [] \<and> ckpt_load_dir F \<noteq> []
        \<and> length argv = 1 \<and> python_major env = 3
        \<and> get_glove env (glove_path (final_flags env F)) (embedding_size F) = Some g
        \<and> new_QAModel env (final_flags env F) g = Some qa
        \<and> readlines env (tag_file F) = Some ls
      \<longrightarrow> main env argv (start F) =
            (if single_ensemble F = ''ensemble''
             then ensemble_branch env g qa (pos_tag_table ls) ne_tag_table
             else single_branch env g qa (pos_tag_table ls) ne_tag_table) (tables_built env F)
          \<and> (\<exists>new. trace (snd (main env argv (start F))) =
                [banner env, Get_glove (glove_path (final_flags env F)) (embedding_size F),
                 New_QAModel, Readlines (os_path_join (main_dir F) ''pos_tags.txt'')] @ new
               \<and> filter is_tag_read new = []))"
proof (intro conjI impI allI)
  fix i
  assume "i < length ls"
    "\<forall>j. i < j \<and> j < length ls \<longrightarrow> butlast (ls ! j) \<noteq> butlast (ls ! i)"
  then show "map_of (pos_tag_table ls) (butlast (ls ! i)) = Some (i + 1)"
    by (rule pos_tag_table_last_wins)
next
  show "fst ` set (pos_tag_table ls) = butlast ` set ls" by (rule pos_tag_table_keys)
next
  fix i
  assume "distinct (map butlast ls)" "i < length ls"
  then show "map_of (pos_tag_table ls) (butlast (ls ! i)) = Some (i + 1)"
    by (rule pos_tag_table_distinct)
next
  show "length all_NE_tag = 13" by (rule length_all_NE_tag)
next
  fix i :: nat assume "i < 13"
  then show "map_of ne_tag_table (all_NE_tag ! i) = Some (i + 1)" by (rule ne_tag_table_ids)
next
  show "ne_tag_table =
       [(''B-FACILITY'', 1), (''B-GPE'', 2), (''B-GSP'', 3), (''B-LOCATION'', 4),
        (''B-ORGANIZATION'', 5), (''B-PERSON'', 6), (''I-FACILITY'', 7), (''I-GPE'', 8),
        (''I-GSP'', 9), (''I-LOCATION'', 10), (''I-ORGANIZATION'', 11), (''I-PERSON'', 12),
        (''O'', 13)]"
    by (rule ne_tag_table_explicit)
next
  assume a: "mode F = ''official_eval'' \<and> json_in_path F \<noteq> [] \<and> ckpt_load_dir F \<noteq> []
        \<and> length argv = 1 \<and> python_major env = 3
        \<and> get_glove env (glove_path (final_flags env F)) (embedding_size F) = Some g
        \<and> new_QAModel env (final_flags env F) g = Some qa
        \<and> readlines env (tag_file F) = Some ls"
  let ?branch = "if single_ensemble F = ''ensemble''
             then ensemble_branch env g qa (pos_tag_table ls) ne_tag_table
             else single_branch env g qa (pos_tag_table ls) ne_tag_table"
  from a show m: "main env argv (start F) = ?branch (tables_built env F)"
    by (intro main_official_eval_branch) simp_all
  have "steps (final_flags env F) (eval_event (load_ema_checkpoint (final_flags env F))) ?branch"
    using steps_ensemble_branch [of "final_flags env F"] steps_single_branch [of "final_flags env F"]
    by simp
  from stepsD [OF this, of "tables_built env F"] obtain new where
    "trace (snd (?branch (tables_built env F))) = trace (tables_built env F) @ new"
    "list_all (eval_event (load_ema_checkpoint F)) new"
    by auto
  then show "\<exists>new. trace (snd (main env argv (start F))) =
                [banner env, Get_glove (glove_path (final_flags env F)) (embedding_size F),
                 New_QAModel, Readlines (os_path_join (main_dir F) ''pos_tags.txt'')] @ new
               \<and> filter is_tag_read new = []"
    using eval_event_no_tag_read [of "load_ema_checkpoint F" new]
    by (auto simp: m trace_tables_built tag_file_def)
qed

theorem tag_tables_built_before_inference_witness:
  "map_of (pos_tag_table [''NN'' @ [CHR 0x0A], ''VB'' @ [CHR 0x0A]]) ''NN'' = Some 1
   \<and> map_of (pos_tag_table [''NN'' @ [CHR 0x0A], ''VB'' @ [CHR 0x0A]]) ''VB'' = Some 2
   \<and> map_of ne_tag_table ''O'' = Some 13
   \<and> (\<exists>new. trace (snd (main demo_env [''main.py''] (start demo_flags))) =
         [banner demo_env,
          Get_glove (glove_path (final_flags demo_env demo_flags)) (embedding_size demo_flags),
          New_QAModel, Readlines ''./pos_tags.txt''] @ new
       \<and> filter is_tag_read new = [])"
proof -
  let ?ls = "[''NN'' @ [CHR 0x0A], ''VB'' @ [CHR 0x0A]]"
  note t = tag_tables_built_before_inference
    [of ?ls demo_flags "[''main.py'']" demo_env "Glove [] [] []" "QAModel [3, 4]"]
  have d: "distinct (map butlast ?ls)" by simp
  from t d have a: "i < length ?ls \<Longrightarrow>
      map_of (pos_tag_table ?ls) (butlast (?ls ! i)) = Some (i + 1)" for i
    by blast
  from a [of 0] a [of 1] have 1: "map_of (pos_tag_table ?ls) ''NN'' = Some 1"
    "map_of (pos_tag_table ?ls) ''VB'' = Some 2"
    by simp_all
  from t have n: "i < 13 \<Longrightarrow> map_of ne_tag_table (all_NE_tag ! i) = Some (i + 1)" for i
    by blast
  from n [of 12] have 2: "map_of ne_tag_table ''O'' = Some 13" by (simp add: all_NE_tag_def)
  have h: "mode demo_flags = ''official_eval'' \<and> json_in_path demo_flags \<noteq> []
        \<and> ckpt_load_dir demo_flags \<noteq> []
        \<and> length [''main.py''] = 1 \<and> python_major demo_env = 3
        \<and> get_glove demo_env (glove_path (final_flags demo_env demo_flags))
             (embedding_size demo_flags) = Some (Glove [] [] [])
        \<and> new_QAModel demo_env (final_flags demo_env demo_flags) (Glove [] [] [])
             = Some (QAModel [3, 4])
        \<and> readlines demo_env (tag_file demo_flags) = Some ?ls"
    by (simp add: demo_flags_def demo_env_def)
  from t h have "\<exists>new. trace (snd (main demo_env [''main.py''] (start demo_flags))) =
         [banner demo_env,
          Get_glove (glove_path (final_flags demo_env demo_flags)) (embedding_size demo_flags),
          New_QAModel, Readlines (os_path_join (main_dir demo_flags) ''pos_tags.txt'')] @ new
       \<and> filter is_tag_read new = []"
    by blast
  moreover have "os_path_join (main_dir demo_flags) ''pos_tags.txt'' = ''./pos_tags.txt''"
    by (simp add: demo_flags_def os_path_join_def)
  ultimately show ?thesis using 1 2 by simp
qed

subsection \<open>C10: the output file\<close>

text \<open>
  C10.  In \<^verbatim>\<open>official_eval\<close> mode, in either sub-mode, a run that returns has written
  exactly once: to \<^verbatim>\<open>json_out_path\<close>, with the encoding \<^verbatim>\<open>utf-8\<close>, the text
  \<open>json_dumps d\<close> of the mapping \<open>d\<close> the aggregator (ensemble) or \<^verbatim>\<open>generate_answers\<close>
  (single) returned for the batch read from \<^verbatim>\<open>json_in_path\<close>.  That text is one JSON
  object: an opening brace, the entries \<^verbatim>\<open>"uuid": "answer"\<close> separated by a comma and a
  space, a closing brace.  The code points beyond ASCII of the keys and answers are in the
  text as they are, in order, and no others; a string without control characters,
  quotes and backslashes is written between two quotes unchanged.  When the helper in
  charge is as the spec describes it (and, for \<^verbatim>\<open>generate_answers\<close>, the batch is well
  formed), \<open>d\<close> has exactly one entry for every uuid of the batch.
\<close>

theorem predictions_written_as_utf8_json:
  assumes "mode F = ''official_eval''" and "main env argv (start F) = (Return (), s')"
  shows "(\<exists>g qa ls b pas d.
      get_json_data env (json_in_path F) = Some b
    \<and> (if single_ensemble F = ''ensemble''
       then generate_ensemble_answers env qa (word2id g) b (the_batcher F)
              (pos_tag_table ls) ne_tag_table pas = Some d
       else generate_answers env
              (resident env F (os_path_join (ckpt_load_dir F) ''ema_best_checkpoint_1''))
              qa (word2id g) b (the_batcher F) (pos_tag_table ls) ne_tag_table = Some d)
    \<and> filter is_output (trace s') = [Write_file (json_out_path F) ''utf-8'' (json_dumps d)]
    \<and> json_dumps d = [123] @ join_str [44, 32]
         (map (\<lambda>kv. encode_basestring (fst kv) @ [58, 32] @ encode_basestring (snd kv)) d)
         @ [125]
    \<and> non_ascii (json_dumps d) = concat (map (\<lambda>kv. non_ascii (fst kv) @ non_ascii (snd kv)) d)
    \<and> (aggregator_as_specified env \<and> single_ensemble F = ''ensemble'' \<longrightarrow> answers_for b d)
    \<and> (answers_as_specified env extr \<and> parallel b \<and> single_ensemble F \<noteq> ''ensemble''
         \<longrightarrow> answers_for b d))
   \<and> (\<forall>s. (\<forall>c\<in>set s. 32 \<le> c \<and> c \<noteq> 34 \<and> c \<noteq> 92) \<longrightarrow>
          encode_basestring s = [34] @ s @ [34])"
proof (rule conjI)
  show "\<forall>s. (\<forall>c\<in>set s. 32 \<le> c \<and> c \<noteq> 34 \<and> c \<noteq> 92) \<longrightarrow>
          encode_basestring s = [34] @ s @ [34]"
    using plain_string_unescaped by blast
  from main_official_eval_Return [OF assms] obtain g qa ls where
    br: "(if single_ensemble F = ''ensemble''
        then ensemble_branch env g qa (pos_tag_table ls) ne_tag_table
        else single_branch env g qa (pos_tag_table ls) ne_tag_table)
         ((model_built env F)\<lparr>trace := trace (model_built env F) @ [Readlines (tag_file F)]\<rparr>)
        = (Return (), s')"
    by blast
  let ?s1 = "(model_built env F)\<lparr>trace := trace (model_built env F) @ [Readlines (tag_file F)]\<rparr>"
  have "\<exists>b pas d. get_json_data env (json_in_path F) = Some b
    \<and> (if single_ensemble F = ''ensemble''
       then generate_ensemble_answers env qa (word2id g) b (the_batcher F)
              (pos_tag_table ls) ne_tag_table pas = Some d
       else generate_answers env
              (resident env F (os_path_join (ckpt_load_dir F) ''ema_best_checkpoint_1''))
              qa (word2id g) b (the_batcher F) (pos_tag_table ls) ne_tag_table = Some d)
    \<and> filter is_output (trace s') = [Write_file (json_out_path F) ''utf-8'' (json_dumps d)]"
  proof (cases "single_ensemble F = ''ensemble''")
    case True
    with br have "ensemble_branch env g qa (pos_tag_table ls) ne_tag_table ?s1 = (Return (), s')"
      by simp
    from ensemble_branch_Return [OF this] obtain b pas d where
      b: "get_json_data env (json_in_path F) = Some b" and
      d: "generate_ensemble_answers env qa (word2id g) b (the_batcher F)
              (pos_tag_table ls) ne_tag_table pas = Some d" and
      c: "calls (trace s') = concat (map (pass_calls env F b) (checkpoint_dirs F))
            @ [Get_json_data (json_in_path F), Generate_ensemble_answers b pas, output_event F d]"
      by auto
    have "filter is_output (trace s') = filter is_output (calls (trace s'))"
      by (simp add: filter_output_calls)
    also have "\<dots> = [Write_file (json_out_path F) ''utf-8'' (json_dumps d)]"
      unfolding c pass_calls_def by (simp add: filter_output_passes output_event_def)
    finally show ?thesis using True b d by auto
  next
    case False
    with br have "single_branch env g qa (pos_tag_table ls) ne_tag_table ?s1 = (Return (), s')"
      by simp
    from single_branch_Return [OF this] obtain b p d where
      b: "get_json_data env (json_in_path F) = Some b" and
      p: "checkpoint_at env (first_checkpoint_dir F) p" and
      d: "generate_answers env (restored F p) qa (word2id g) b (the_batcher F)
            (pos_tag_table ls) ne_tag_table = Some d" and
      c: "calls (trace s') = [Get_json_data (json_in_path F),
            Initialize_model (first_checkpoint_dir F) True,
            Generate_answers (restored F p) b, output_event F d]"
      by auto
    have "filter is_output (trace s') = filter is_output (calls (trace s'))"
      by (simp add: filter_output_calls)
    also have "\<dots> = [Write_file (json_out_path F) ''utf-8'' (json_dumps d)]"
      unfolding c by (simp add: output_event_def)
    finally show ?thesis
      using False b d checkpoint_at_resident [OF p, of F]
      by (auto simp: first_checkpoint_dir_def)
  qed
  then obtain b pas d where
    b: "get_json_data env (json_in_path F) = Some b" and
    d: "if single_ensemble F = ''ensemble''
       then generate_ensemble_answers env qa (word2id g) b (the_batcher F)
              (pos_tag_table ls) ne_tag_table pas = Some d
       else generate_answers env
              (resident env F (os_path_join (ckpt_load_dir F) ''ema_best_checkpoint_1''))
              qa (word2id g) b (the_batcher F) (pos_tag_table ls) ne_tag_table = Some d" and
    w: "filter is_output (trace s') = [Write_file (json_out_path F) ''utf-8'' (json_dumps d)]"
    by blast
  have e: "aggregator_as_specified env \<and> single_ensemble F = ''ensemble'' \<longrightarrow> answers_for b d"
  proof
    assume a: "aggregator_as_specified env \<and> single_ensemble F = ''ensemble''"
    then have "generate_ensemble_answers env qa (word2id g) b (the_batcher F)
              (pos_tag_table ls) ne_tag_table pas = spec_generate_ensemble_answers b pas"
      unfolding aggregator_as_specified_def by blast
    with a d have "spec_generate_ensemble_answers b pas = Some d" by simp
    then show "answers_for b d" by (rule spec_ensemble_answers_for)
  qed
  have s: "answers_as_specified env extr \<and> parallel b \<and> single_ensemble F \<noteq> ''ensemble''
         \<longrightarrow> answers_for b d"
  proof
    assume a: "answers_as_specified env extr \<and> parallel b \<and> single_ensemble F \<noteq> ''ensemble''"
    then have "generate_answers env
              (resident env F (os_path_join (ckpt_load_dir F) ''ema_best_checkpoint_1''))
              qa (word2id g) b (the_batcher F) (pos_tag_table ls) ne_tag_table
         = Some (spec_generate_answers extr
              (resident env F (os_path_join (ckpt_load_dir F) ''ema_best_checkpoint_1'')) b)"
      unfolding answers_as_specified_def by blast
    with a d have "d = spec_generate_answers extr
              (resident env F (os_path_join (ckpt_load_dir F) ''ema_best_checkpoint_1'')) b"
      by simp
    with a show "answers_for b d" by (simp add: spec_generate_answers_for)
  qed
  from b d w e s json_dumps_shape [of d] non_ascii_json_dumps [of d]
  show "\<exists>g qa ls b pas d.
      get_json_data env (json_in_path F) = Some b
    \<and> (if single_ensemble F = ''ensemble''
       then generate_ensemble_answers env qa (word2id g) b (the_batcher F)
              (pos_tag_table ls) ne_tag_table pas = Some d
       else generate_answers env
              (resident env F (os_path_join (ckpt_load_dir F) ''ema_best_checkpoint_1''))
              qa (word2id g) b (the_batcher F) (pos_tag_table ls) ne_tag_table = Some d)
    \<and> filter is_output (trace s') = [Write_file (json_out_path F) ''utf-8'' (json_dumps d)]
    \<and> json_dumps d = [123] @ join_str [44, 32]
         (map (\<lambda>kv. encode_basestring (fst kv) @ [58, 32] @ encode_basestring (snd kv)) d)
         @ [125]
    \<and> non_ascii (json_dumps d) = concat (map (\<lambda>kv. non_ascii (fst kv) @ non_ascii (snd kv)) d)
    \<and> (aggregator_as_specified env \<and> single_ensemble F = ''ensemble'' \<longrightarrow> answers_for b d)
    \<and> (answers_as_specified env extr \<and> parallel b \<and> single_ensemble F \<noteq> ''ensemble''
         \<longrightarrow> answers_for b d)"
    by blast
qed

theorem predictions_written_as_utf8_json_witness:
  "\<exists>s'. main demo_env [''main.py''] (start demo_single) = (Return (), s')
     \<and> filter is_output (trace s') = [Write_file ''predictions.json'' ''utf-8'' demo_text]
     \<and> non_ascii demo_text = [233, 233]"
proof -
  from demo_single_runs obtain s' where
    r: "main demo_env [''main.py''] (start demo_single) = (Return (), s')" by blast
  have m: "mode demo_single = ''official_eval''"
    by (simp add: demo_single_def demo_flags_def)
  have e: "single_ensemble demo_single \<noteq> ''ensemble''"
    by (simp add: demo_single_def)
  note t = predictions_written_as_utf8_json [OF m r, where extr = demo_extract]
  from t [THEN conjunct1] obtain g qa ls b pas d where
    b: "get_json_data demo_env (json_in_path demo_single) = Some b" and
    d': "if single_ensemble demo_single = ''ensemble''
       then generate_ensemble_answers demo_env qa (word2id g) b (the_batcher demo_single)
              (pos_tag_table ls) ne_tag_table pas = Some d
       else generate_answers demo_env
              (resident demo_env demo_single
                 (os_path_join (ckpt_load_dir demo_single) ''ema_best_checkpoint_1''))
              qa (word2id g) b (the_batcher demo_single) (pos_tag_table ls) ne_tag_table
            = Some d" and
    w: "filter is_output (trace s')
          = [Write_file (json_out_path demo_single) ''utf-8'' (json_dumps d)]"
    by blast
  from d' e have d: "generate_answers demo_env
          (resident demo_env demo_single
             (os_path_join (ckpt_load_dir demo_single) ''ema_best_checkpoint_1''))
          qa (word2id g) b (the_batcher demo_single) (pos_tag_table ls) ne_tag_table = Some d"
    by simp
  from b have b': "b = demo_batch" by (simp add: demo_env_def)
  have "resident demo_env demo_single
          (os_path_join (ckpt_load_dir demo_single) ''ema_best_checkpoint_1'')
        = EMA_from ''ck/ema_best_checkpoint_1/qa.ckpt''"
    by (simp add: resident_def restored_def demo_env_def demo_single_def demo_flags_def
          os_path_join_def)
  with d b' have "d = demo_answers"
    by (simp add: demo_env_def demo_single_answers)
  with w have "filter is_output (trace s')
      = [Write_file ''predictions.json'' ''utf-8'' demo_text]"
    by (simp add: demo_single_text demo_single_def demo_flags_def)
  moreover have "non_ascii demo_text = [233, 233]"
    by (simp add: demo_text_def)
  ultimately show ?thesis using r by blast
qed

end
